(* ===== verification/Prelude.thy ===== *)
theory Prelude
  imports Main "HOL-Library.Word"
begin

text \<open>
  Shared vocabulary of the development: the Go integer type used for every
  identifier (\<open>uint64\<close>), the HTTP status codes the handlers write through
  \<open>answers.Err\<close> and \<open>answers.JSON\<close>, the rule collections that the component
  theories fill, and small generic lemmas on sums and lists that several
  components use.
\<close>

type_synonym uint64 = "64 word"

text \<open>HTTP status codes, named as in Go's \<open>net/http\<close>.\<close>

abbreviation StatusOK :: nat where "StatusOK \<equiv> 200"
abbreviation StatusCreated :: nat where "StatusCreated \<equiv> 201"
abbreviation StatusNoContent :: nat where "StatusNoContent \<equiv> 204"
abbreviation StatusBadRequest :: nat where "StatusBadRequest \<equiv> 400"
abbreviation StatusUnauthorized :: nat where "StatusUnauthorized \<equiv> 401"
abbreviation StatusForbidden :: nat where "StatusForbidden \<equiv> 403"
abbreviation StatusNotFound :: nat where "StatusNotFound \<equiv> 404"
abbreviation StatusMethodNotAllowed :: nat where "StatusMethodNotAllowed \<equiv> 405"
abbreviation StatusUnprocessableEntity :: nat where "StatusUnprocessableEntity \<equiv> 422"
abbreviation StatusInternalServerError :: nat where "StatusInternalServerError \<equiv> 500"

text \<open>
  Rule collections. \<open>go_simps\<close> holds the evaluation rules of the Go library
  functions the program calls (strconv, strings); \<open>repo_simps\<close> the
  unfolding rules of the repository methods; \<open>handler_simps\<close> those of the
  controllers, so that one \<open>cases\<close> over the controller datatype followed by
  \<open>simp only: handler_simps\<close> unfolds every handler. Component proofs pass
  them to \<open>simp\<close>.
\<close>

named_theorems go_simps "evaluation rules of the modelled Go library functions"
named_theorems repo_simps "unfolding rules of the repository methods"
named_theorems handler_simps "unfolding rules of the controllers"

subsection \<open>Sums as Go's \<open>(value, error)\<close> results\<close>

text \<open>
  A Go call \<open>v, err := f(x); if err != nil { return ... }\<close> is a \<open>case\<close> over
  an \<open>'e + 'a\<close> value. The two lemmas below take such a \<open>case\<close> apart when its
  outcome is known.
\<close>

lemma sum_case_Inr_iff [simp]:
  "((case x of Inl e \<Rightarrow> Inl (g e) | Inr v \<Rightarrow> f v) = Inr r) \<longleftrightarrow> (\<exists>v. x = Inr v \<and> f v = Inr r)"
  by (cases x) auto

lemma sum_case_same_Inl:
  "(case x of Inl e \<Rightarrow> Inl e | Inr v \<Rightarrow> Inl d) = Inl (case x of Inl e \<Rightarrow> e | Inr v \<Rightarrow> d)"
  by (cases x) auto

subsection \<open>Lists\<close>

lemma dropWhile_hd_not:
  "dropWhile P xs \<noteq> [] \<Longrightarrow> \<not> P (hd (dropWhile P xs))"
  by (induction xs) auto

lemma foldl_mono_acc:
  fixes f :: "nat \<Rightarrow> 'a \<Rightarrow> nat"
  assumes "\<And>a x. a \<le> f a x"
  shows "a \<le> foldl f a xs"
  using assms by (induction xs arbitrary: a) (auto intro: order_trans)


lemma map_filter_eq_const:
  "map f (filter (\<lambda>x. f x = c) xs) = replicate (length (filter (\<lambda>x. f x = c) xs)) c"
  by (induction xs) auto

lemma find_append_None: "find P xs = None \<Longrightarrow> find P (xs @ ys) = find P ys"
  by (induction xs) auto

lemma unat_plus_one_no_wrap: "(x :: uint64) \<noteq> - 1 \<Longrightarrow> unat (x + 1) = unat x + 1"
  using unatSuc [of x] by (simp add: add.commute eq_neg_iff_add_eq_0)

end
