(* ===== verification/GoStrings.thy ===== *)
theory GoStrings
  imports Prelude
begin
text \<open>
  The Go standard-library string functions the program calls, modelled on
  byte strings (\<open>string\<close> = \<open>char list\<close>, one \<open>char\<close> per byte):
  \<open>strconv.ParseUint(s, 10, 64)\<close> (every controller reads its path parameters
  with it), \<open>strconv.FormatUint\<close> (the decimal printing the token claims use),
  \<open>strings.TrimSpace\<close> (the \<open>format\<close> methods of the models),
  \<open>strings.ToLower\<close> (\<open>SearchUsers\<close>) and \<open>strings.Split\<close>/\<open>strings.Join\<close>
  (the bearer header and the token's segments).
  Whitespace and case are modelled on ASCII: Go also strips the multi-byte
  Unicode spaces and lower-cases non-ASCII letters, which no lemma here
  depends on.
\<close>

subsection \<open>Decimal digits\<close>

definition digit_chars :: string where
  "digit_chars = ''0123456789''"

definition is_digit :: "char \<Rightarrow> bool" where
  "is_digit c \<longleftrightarrow> (48::nat) \<le> of_char c \<and> of_char c \<le> (57::nat)"

definition digit_val :: "char \<Rightarrow> nat" where
  "digit_val c = of_char c - 48"

subsection \<open>\<open>strconv.ParseUint(s, 10, 64)\<close>\<close>

text \<open>
  Go's loop reads one byte at a time: a byte that is no digit is a syntax
  error; otherwise, if \<open>10 * n + d\<close> exceeds \<open>maxVal\<close> the call fails with a
  range error at once (the cutoff test and the \<open>n1 > maxVal\<close> test together
  say exactly this), so an overflow before a bad byte is reported as a range
  error. The accumulator is a \<open>nat\<close>: the bound test keeps it below
  \<open>2^64\<close>, as Go's does.
\<close>

datatype num_error = ErrSyntax | ErrRange

fun parse_uint_loop :: "nat \<Rightarrow> nat \<Rightarrow> string \<Rightarrow> num_error + nat" where
  "parse_uint_loop maxv n [] = Inr n"
| "parse_uint_loop maxv n (c # cs) =
     (if \<not> is_digit c then Inl ErrSyntax
      else (let n1 = 10 * n + digit_val c in
            if maxv < n1 then Inl ErrRange else parse_uint_loop maxv n1 cs))"

definition ParseUint64 :: "string \<Rightarrow> num_error + uint64" where
  "ParseUint64 s =
     (if s = [] then Inl ErrSyntax
      else (case parse_uint_loop (2 ^ 64 - 1) 0 s of
              Inl e \<Rightarrow> Inl e
            | Inr n \<Rightarrow> Inr (word_of_nat n)))"

text \<open>The value a run of digits denotes, as a left fold.\<close>

definition dec_val :: "nat \<Rightarrow> string \<Rightarrow> nat" where
  "dec_val a s = foldl (\<lambda>a c. 10 * a + digit_val c) a s"

subsection \<open>\<open>strconv.FormatUint(n, 10)\<close>\<close>

fun show_nat :: "nat \<Rightarrow> string" where
  "show_nat n =
     (if n < 10 then [digit_chars ! n] else show_nat (n div 10) @ [digit_chars ! (n mod 10)])"

declare show_nat.simps [simp del]

definition FormatUint :: "uint64 \<Rightarrow> string" where
  "FormatUint w = show_nat (unat w)"

subsection \<open>\<open>strings.TrimSpace\<close>\<close>

definition is_space :: "char \<Rightarrow> bool" where
  "is_space c \<longleftrightarrow> c \<in> {CHR '' '', CHR 0x09, CHR 0x0A, CHR 0x0B, CHR 0x0C, CHR 0x0D}"

definition TrimSpace :: "string \<Rightarrow> string" where
  "TrimSpace s = rev (dropWhile is_space (rev (dropWhile is_space s)))"

subsection \<open>\<open>strings.ToLower\<close>\<close>

definition lower_char :: "char \<Rightarrow> char" where
  "lower_char c = (if (65::nat) \<le> of_char c \<and> of_char c \<le> (90::nat) then char_of (of_char c + 32 :: nat) else c)"

definition ToLower :: "string \<Rightarrow> string" where
  "ToLower s = map lower_char s"

subsection \<open>\<open>strings.Split\<close> with a one-byte separator, and \<open>strings.Join\<close>\<close>

text \<open>
  \<open>strings.Split(s, sep)\<close> returns the pieces between the separators; the
  empty string gives one empty piece, as in Go.
\<close>

fun Split :: "string \<Rightarrow> char \<Rightarrow> string list" where
  "Split [] c = [[]]"
| "Split (x # xs) c =
     (if x = c then [] # Split xs c
      else (let r = Split xs c in (x # hd r) # tl r))"

fun Join :: "string list \<Rightarrow> char \<Rightarrow> string" where
  "Join [] c = []"
| "Join [w] c = w"
| "Join (w # ws) c = w @ c # Join ws c"


text \<open>The evaluation rules the witnesses use on concrete strings.\<close>

declare is_digit_def [go_simps] digit_val_def [go_simps] ParseUint64_def [go_simps]
  is_space_def [go_simps] TrimSpace_def [go_simps] lower_char_def [go_simps] ToLower_def [go_simps]

subsection \<open>Properties of the string functions\<close>

lemma of_char_digit_chars:
  assumes "d < 10"
  shows "of_char (digit_chars ! d) = (48 + d :: nat)"
proof -
  have "d = 0 \<or> d = 1 \<or> d = 2 \<or> d = 3 \<or> d = 4 \<or> d = 5 \<or> d = 6 \<or> d = 7 \<or> d = 8 \<or> d = 9"
    using assms by arith
  then show ?thesis by (elim disjE) (simp_all add: digit_chars_def)
qed

lemma digit_chars_nth:
  assumes "d < 10"
  shows "is_digit (digit_chars ! d) \<and> digit_val (digit_chars ! d) = d"
  using of_char_digit_chars [OF assms] assms by (simp add: is_digit_def digit_val_def)

lemma dec_val_ge: "a \<le> dec_val a s"
  unfolding dec_val_def by (rule foldl_mono_acc) simp

lemma parse_uint_loop_ok:
  assumes "\<forall>c \<in> set s. is_digit c" and "dec_val a s \<le> maxv"
  shows "parse_uint_loop maxv a s = Inr (dec_val a s)"
  using assms
proof (induction s arbitrary: a)
  case Nil
  then show ?case by (simp add: dec_val_def)
next
  case (Cons c cs)
  have "10 * a + digit_val c \<le> dec_val (10 * a + digit_val c) cs"
    by (rule dec_val_ge)
  moreover have "dec_val a (c # cs) = dec_val (10 * a + digit_val c) cs"
    by (simp add: dec_val_def)
  ultimately show ?case using Cons by (simp add: Let_def)
qed

lemma parse_uint_loop_result:
  "parse_uint_loop maxv a s = Inr n \<Longrightarrow> n \<le> maxv \<or> (s = [] \<and> n = a)"
  by (induction maxv a s rule: parse_uint_loop.induct) (auto simp: Let_def split: if_splits)

lemma show_nat_digits: "\<forall>c \<in> set (show_nat n). is_digit c"
proof (induction n rule: show_nat.induct)
  case (1 n)
  then show ?case
    by (subst show_nat.simps) (auto simp: digit_chars_nth)
qed

lemma show_nat_nonempty [simp]: "show_nat n \<noteq> []"
  by (subst show_nat.simps) simp

lemma dec_val_show_nat: "dec_val 0 (show_nat n) = n"
proof (induction n rule: show_nat.induct)
  case (1 n)
  show ?case
  proof (cases "n < 10")
    case True
    then show ?thesis
      by (subst show_nat.simps) (simp add: dec_val_def digit_chars_nth)
  next
    case False
    then have "dec_val 0 (show_nat (n div 10)) = n div 10" using "1.IH" by simp
    with False show ?thesis
      by (subst show_nat.simps) (simp add: dec_val_def digit_chars_nth)
  qed
qed

text \<open>Printing and parsing back is the identity on every \<open>uint64\<close>.\<close>

lemma ParseUint64_FormatUint [simp]: "ParseUint64 (FormatUint w) = Inr w"
proof -
  have "dec_val 0 (show_nat (unat w)) \<le> 2 ^ 64 - 1"
    using unsigned_less [where 'a = nat, of w] by (simp add: dec_val_show_nat)
  then have "parse_uint_loop (2 ^ 64 - 1) 0 (show_nat (unat w)) = Inr (unat w)"
    using parse_uint_loop_ok [OF show_nat_digits] by (simp add: dec_val_show_nat)
  then show ?thesis by (simp add: ParseUint64_def FormatUint_def)
qed

text \<open>A successful parse reads a value in range, so no wrap-around happens.\<close>

lemma ParseUint64_Inr_unat:
  "ParseUint64 s = Inr w \<Longrightarrow> parse_uint_loop (2 ^ 64 - 1) 0 s = Inr (unat w)"
proof -
  assume a: "ParseUint64 s = Inr w"
  then obtain n where n: "parse_uint_loop (2 ^ 64 - 1) 0 s = Inr n" and w: "w = word_of_nat n"
    by (auto simp: ParseUint64_def split: if_splits sum.splits)
  have "n \<le> 2 ^ 64 - 1"
    using parse_uint_loop_result [OF n] a by (auto simp: ParseUint64_def)
  then have "unat w = n" using of_nat_inverse [OF w [symmetric]] by simp
  with n show ?thesis by simp
qed

lemma TrimSpace_empty_iff: "TrimSpace s = [] \<longleftrightarrow> (\<forall>c \<in> set s. is_space c)"
proof -
  have "dropWhile is_space (rev (dropWhile is_space s)) = [] \<longleftrightarrow>
        (\<forall>c \<in> set (dropWhile is_space s). is_space c)"
    by simp
  also have "\<dots> \<longleftrightarrow> dropWhile is_space s = []"
  proof
    assume all: "\<forall>c \<in> set (dropWhile is_space s). is_space c"
    show "dropWhile is_space s = []"
    proof (rule ccontr)
      assume ne: "dropWhile is_space s \<noteq> []"
      then have "hd (dropWhile is_space s) \<in> set (dropWhile is_space s)" by simp
      with all dropWhile_hd_not [OF ne] show False by blast
    qed
  next
    assume "dropWhile is_space s = []"
    then show "\<forall>c \<in> set (dropWhile is_space s). is_space c"
      by (simp only: list.set(1) ball_empty)
  qed
  also have "\<dots> \<longleftrightarrow> (\<forall>c \<in> set s. is_space c)"
    by (simp add: dropWhile_eq_Nil_conv)
  finally show ?thesis by (simp add: TrimSpace_def)
qed

lemma Split_nonempty [simp]: "Split s c \<noteq> []"
  by (induction s) (auto simp: Let_def)

lemma Split_append_word:
  "c \<notin> set w \<Longrightarrow> Split (w @ rest) c = (w @ hd (Split rest c)) # tl (Split rest c)"
  by (induction w) (auto simp: Let_def)

text \<open>Splitting a joined list gives the pieces back when no piece holds the separator.\<close>

lemma Split_Join:
  "ws \<noteq> [] \<Longrightarrow> \<forall>w \<in> set ws. c \<notin> set w \<Longrightarrow> Split (Join ws c) c = ws"
proof (induction ws c rule: Join.induct)
  case (2 w c)
  then show ?case using Split_append_word [of c w "[]"] by simp
next
  case (3 w v vs c)
  then have "Split (Join (v # vs) c) c = v # vs" by simp
  moreover have "Split (w @ c # Join (v # vs) c) c = w # Split (Join (v # vs) c) c"
    using 3 Split_append_word [of c w "c # Join (v # vs) c"] by simp
  ultimately show ?case by simp
qed simp

lemma Join_Cons: "Join (w # ws) c = (if ws = [] then w else w @ c # Join ws c)"
  by (cases ws) auto

lemma Join_Split [simp]: "Join (Split s c) c = s"
proof (induction s)
  case (Cons x xs)
  have "Split xs c \<noteq> []" by simp
  then show ?case
    using Cons.IH by (cases "Split xs c") (auto simp: Let_def Join_Cons)
qed simp

lemma length_Split: "length (Split s c) = Suc (count_list s c)"
proof (induction s)
  case (Cons x xs)
  have "Split xs c \<noteq> []" by simp
  with Cons.IH show ?case by (cases "Split xs c") (auto simp: Let_def)
qed simp

lemma Split_append_sep: "Split (xs @ c # ys) c = Split xs c @ Split ys c"
proof (induction xs)
  case (Cons x xs)
  have "Split xs c \<noteq> []" by simp
  with Cons.IH show ?case by (cases "Split xs c") (auto simp: Let_def)
qed simp

lemma Split_no_sep: "c \<notin> set w \<Longrightarrow> Split w c = [w]"
  using Split_append_word [of c w "[]"] by simp

lemma is_digit_not_sep:
  "is_digit c \<Longrightarrow> c \<noteq> CHR '':'' \<and> c \<noteq> CHR ''.'' \<and> c \<noteq> CHR '' ''"
  by (auto simp: is_digit_def)

lemma show_nat_no_sep:
  "CHR '':'' \<notin> set (show_nat n) \<and> CHR ''.'' \<notin> set (show_nat n) \<and> CHR '' '' \<notin> set (show_nat n)"
  using show_nat_digits [of n] is_digit_not_sep by blast

end
