(* ===== verification/Token.thy ===== *)
theory Token
  imports GoStrings
begin
text \<open>
  The token service (package \<open>authentication\<close>: \<open>CreateToken\<close>,
  \<open>ValidateToken\<close>, \<open>ExtractUserID\<close> and the header reader
  \<open>extractToken\<close>). The package is imported by the controllers and the
  middleware but its source is not part of \<open>src/\<close>, so it is modelled from
  the specification (sections 4.2 and 6): a token is three segments joined by
  dots, a fixed header, the claims \<open>userId:iat:exp\<close> in decimal, and the
  signature of the first two segments under the process-wide secret. The
  signature scheme (HMAC-SHA256 in the deployed code) is a parameter
  \<open>mac\<close> of the configuration; nothing is assumed of it but what a lemma
  states as a hypothesis. The clock reading \<open>now\<close> (Unix seconds) is an
  argument of every operation.
\<close>

record token_config =
  secret :: string
  ttl :: nat
  mac :: "string \<Rightarrow> string \<Rightarrow> string"

record jwt_claims =
  claim_user :: uint64
  claim_iat :: nat
  claim_exp :: nat

datatype token_error = InvalidToken | ExpiredToken

definition jwt_header :: string where
  "jwt_header = ''HS256''"

subsection \<open>Wire format\<close>

definition parse_nat :: "string \<Rightarrow> nat option" where
  "parse_nat s = (if s \<noteq> [] \<and> list_all is_digit s then Some (dec_val 0 s) else None)"

definition encode_claims :: "jwt_claims \<Rightarrow> string" where
  "encode_claims c =
     Join [FormatUint (claim_user c), show_nat (claim_iat c), show_nat (claim_exp c)] CHR '':''"

definition decode_claims :: "string \<Rightarrow> jwt_claims option" where
  "decode_claims p =
     (case Split p CHR '':'' of
        [u, i, e] \<Rightarrow>
          (case (ParseUint64 u, parse_nat i, parse_nat e) of
             (Inr uid, Some i', Some e') \<Rightarrow>
               Some \<lparr>claim_user = uid, claim_iat = i', claim_exp = e'\<rparr>
           | _ \<Rightarrow> None)
      | _ \<Rightarrow> None)"

definition signing_input :: "string \<Rightarrow> string" where
  "signing_input p = jwt_header @ CHR ''.'' # p"

definition sign_token :: "token_config \<Rightarrow> jwt_claims \<Rightarrow> string" where
  "sign_token cfg c =
     (let p = encode_claims c
      in Join [jwt_header, p, mac cfg (secret cfg) (signing_input p)] CHR ''.'')"

text \<open>\<open>CreateToken(userID)\<close>: claims valid from \<open>now\<close> for \<open>ttl\<close> seconds.\<close>

definition CreateToken :: "token_config \<Rightarrow> nat \<Rightarrow> uint64 \<Rightarrow> string" where
  "CreateToken cfg now uid =
     sign_token cfg \<lparr>claim_user = uid, claim_iat = now, claim_exp = now + ttl cfg\<rparr>"

text \<open>
  \<open>extractToken(r)\<close>: the \<open>Authorization\<close> header is split at blanks and read
  only when it has exactly two fields, scheme and token; otherwise, and when
  the header is absent (Go's \<open>Header.Get\<close> gives \<open>""\<close>), the token is empty.
\<close>

definition extractToken :: "string \<Rightarrow> string" where
  "extractToken hdr = (case Split hdr CHR '' '' of [scheme, tok] \<Rightarrow> tok | _ \<Rightarrow> [])"

definition parse_token :: "string \<Rightarrow> (string \<times> jwt_claims \<times> string) option" where
  "parse_token t =
     (case Split t CHR ''.'' of
        [h, p, sig] \<Rightarrow>
          (if h = jwt_header
           then map_option (\<lambda>c. (signing_input p, c, sig)) (decode_claims p)
           else None)
      | _ \<Rightarrow> None)"

text \<open>
  Parsing a token: a malformed token or a wrong signature is
  \<open>InvalidToken\<close>; the expiry is checked only once the signature holds, and a
  token at or past its \<open>exp\<close> is \<open>ExpiredToken\<close>. There is no lower bound
  from \<open>iat\<close>.
\<close>

definition parse_claims :: "token_config \<Rightarrow> nat \<Rightarrow> string \<Rightarrow> token_error + jwt_claims" where
  "parse_claims cfg now t =
     (case parse_token t of
        None \<Rightarrow> Inl InvalidToken
      | Some (input, c, sig) \<Rightarrow>
          (if sig \<noteq> mac cfg (secret cfg) input then Inl InvalidToken
           else if \<not> now < claim_exp c then Inl ExpiredToken
           else Inr c))"

definition ValidateToken :: "token_config \<Rightarrow> nat \<Rightarrow> string \<Rightarrow> token_error + unit" where
  "ValidateToken cfg now hdr =
     (case parse_claims cfg now (extractToken hdr) of Inl e \<Rightarrow> Inl e | Inr c \<Rightarrow> Inr ())"

definition ExtractUserID :: "token_config \<Rightarrow> nat \<Rightarrow> string \<Rightarrow> token_error + uint64" where
  "ExtractUserID cfg now hdr =
     (case parse_claims cfg now (extractToken hdr) of Inl e \<Rightarrow> Inl e | Inr c \<Rightarrow> Inr (claim_user c))"

definition bearer :: "string \<Rightarrow> string" where
  "bearer tok = ''Bearer '' @ tok"

text \<open>A well-formed MAC output has neither of the two separators.\<close>

definition mac_wf :: "token_config \<Rightarrow> bool" where
  "mac_wf cfg \<longleftrightarrow> (\<forall>m. CHR ''.'' \<notin> set (mac cfg (secret cfg) m) \<and> CHR '' '' \<notin> set (mac cfg (secret cfg) m))"


text \<open>A concrete configuration, used by the witnesses below.\<close>

definition example_token_config :: token_config where
  "example_token_config = \<lparr>secret = ''s3cr3t'', ttl = 21600, mac = (\<lambda>k m. ''sig'' @ show_nat (length k + length m))\<rparr>"

subsection \<open>Properties of the wire format\<close>

lemma parse_nat_show_nat [simp]: "parse_nat (show_nat n) = Some n"
  using show_nat_digits [of n] by (simp add: parse_nat_def list_all_iff dec_val_show_nat)

lemma decode_encode_claims [simp]: "decode_claims (encode_claims c) = Some c"
proof -
  have "Split (encode_claims c) CHR '':'' =
        [FormatUint (claim_user c), show_nat (claim_iat c), show_nat (claim_exp c)]"
    unfolding encode_claims_def FormatUint_def
    by (rule Split_Join) (auto simp: show_nat_no_sep)
  then show ?thesis by (simp add: decode_claims_def)
qed

lemma encode_claims_chars:
  "CHR ''.'' \<notin> set (encode_claims c) \<and> CHR '' '' \<notin> set (encode_claims c)"
  by (auto simp: encode_claims_def FormatUint_def show_nat_no_sep)

lemma jwt_header_chars: "CHR ''.'' \<notin> set jwt_header \<and> CHR '' '' \<notin> set jwt_header"
  by (simp add: jwt_header_def)

lemma parse_sign_token:
  assumes "CHR ''.'' \<notin> set (mac cfg (secret cfg) (signing_input (encode_claims c)))"
  shows "parse_token (sign_token cfg c) =
           Some (signing_input (encode_claims c), c, mac cfg (secret cfg) (signing_input (encode_claims c)))"
proof -
  let ?p = "encode_claims c" and ?s = "mac cfg (secret cfg) (signing_input (encode_claims c))"
  have "Split (Join [jwt_header, ?p, ?s] CHR ''.'') CHR ''.'' = [jwt_header, ?p, ?s]"
    by (rule Split_Join) (use assms encode_claims_chars jwt_header_chars in auto)
  then show ?thesis by (simp add: sign_token_def parse_token_def Let_def)
qed

lemma sign_token_no_blank:
  "CHR '' '' \<notin> set (mac cfg (secret cfg) (signing_input (encode_claims c))) \<Longrightarrow>
   CHR '' '' \<notin> set (sign_token cfg c)"
  using encode_claims_chars [of c] jwt_header_chars
  by (simp add: sign_token_def Let_def)

lemma extractToken_bearer [simp]: "CHR '' '' \<notin> set t \<Longrightarrow> extractToken (bearer t) = t"
proof -
  assume t: "CHR '' '' \<notin> set t"
  have "Split (''Bearer'' @ CHR '' '' # t) CHR '' '' = [''Bearer'', t]"
    using Split_append_word [of "CHR '' ''" "''Bearer''" "CHR '' '' # t"] Split_no_sep [OF t]
    by simp
  then show ?thesis by (simp add: extractToken_def bearer_def)
qed

lemma parse_claims_CreateToken:
  assumes "mac_wf cfg"
  shows "parse_claims cfg t (CreateToken cfg now uid) =
           (if t < now + ttl cfg then Inr \<lparr>claim_user = uid, claim_iat = now, claim_exp = now + ttl cfg\<rparr>
            else Inl ExpiredToken)"
  using assms parse_sign_token
  by (simp add: CreateToken_def parse_claims_def mac_wf_def)

lemma extractToken_CreateToken:
  "mac_wf cfg \<Longrightarrow> extractToken (bearer (CreateToken cfg now uid)) = CreateToken cfg now uid"
  by (simp add: CreateToken_def mac_wf_def sign_token_no_blank)

lemma parse_token_Some:
  assumes "parse_token t = Some (input, c, sig)"
  shows "\<exists>p. t = Join [jwt_header, p, sig] CHR ''.'' \<and> input = signing_input p \<and> decode_claims p = Some c"
proof -
  obtain h p s where sp: "Split t CHR ''.'' = [h, p, s]"
    using assms by (auto simp: parse_token_def split: list.splits)
  with assms have "h = jwt_header" "input = signing_input p" "decode_claims p = Some c" "s = sig"
    by (auto simp: parse_token_def split: if_splits)
  moreover have "t = Join [h, p, s] CHR ''.''"
    using Join_Split [of t "CHR ''.''"] sp by simp
  ultimately show ?thesis by blast
qed

lemma count_Join3:
  "count_list (Join [a, b, d] c) c = count_list a c + count_list b c + count_list d c + 2"
  by simp

lemma ValidateToken_ExtractUserID:
  "ValidateToken cfg t h = (case ExtractUserID cfg t h of Inl e \<Rightarrow> Inl e | Inr u \<Rightarrow> Inr ())"
  by (simp add: ValidateToken_def ExtractUserID_def split: sum.splits)

lemma example_token_config_wf: "mac_wf example_token_config"
  by (simp add: mac_wf_def example_token_config_def show_nat_no_sep)

lemma parse_token_three_segments:
  assumes "parse_token t = Some r"
  shows "count_list t CHR ''.'' = 2"
proof -
  obtain h p s where "Split t CHR ''.'' = [h, p, s]"
    using assms by (auto simp: parse_token_def split: list.splits)
  then show ?thesis using length_Split [of t "CHR ''.''"] by simp
qed

subsection \<open>The token contract\<close>

text \<open>
  Round trip: before its expiry, a token issued by \<open>CreateToken\<close> for a
  user and sent as a bearer header is accepted by \<open>ExtractUserID\<close>, which
  returns exactly that user's id.
\<close>

theorem ExtractUserID_CreateToken:
  assumes "mac_wf cfg" and "t < now + ttl cfg"
  shows "ExtractUserID cfg t (bearer (CreateToken cfg now uid)) = Inr uid"
  using assms by (simp add: ExtractUserID_def extractToken_CreateToken parse_claims_CreateToken)

theorem ExtractUserID_CreateToken_witness:
  "mac_wf example_token_config \<and> (100::nat) < 50 + ttl example_token_config \<and>
   ExtractUserID example_token_config 100 (bearer (CreateToken example_token_config 50 42)) = Inr 42"
proof -
  have "(100::nat) < 50 + ttl example_token_config" by (simp add: example_token_config_def)
  with example_token_config_wf show ?thesis
    using ExtractUserID_CreateToken [of example_token_config 100 50 42] by simp
qed

text \<open>
  Expiry: once the clock has reached the token's \<open>exp\<close> (issue time
  plus the configured lifetime), the same correctly signed token is refused
  with \<open>ExpiredToken\<close>, distinguishable from \<open>InvalidToken\<close>.
\<close>

theorem ExtractUserID_expired:
  assumes "mac_wf cfg" and "now + ttl cfg \<le> t"
  shows "ExtractUserID cfg t (bearer (CreateToken cfg now uid)) = Inl ExpiredToken"
  using assms by (simp add: ExtractUserID_def extractToken_CreateToken parse_claims_CreateToken)

theorem ExtractUserID_expired_witness:
  "mac_wf example_token_config \<and> 50 + ttl example_token_config \<le> (30000::nat) \<and>
   ExtractUserID example_token_config 30000 (bearer (CreateToken example_token_config 50 42)) = Inl ExpiredToken"
proof -
  have "50 + ttl example_token_config \<le> (30000::nat)" by (simp add: example_token_config_def)
  with example_token_config_wf show ?thesis
    using ExtractUserID_expired [of example_token_config 50 30000 42] by simp
qed

text \<open>
  Tampering: a token whose signature segment differs in any way from the
  MAC of its header and claims under the secret is refused with
  \<open>InvalidToken\<close>, whatever the clock says and whatever its claims are.
\<close>

theorem parse_claims_bad_signature:
  assumes "sig \<noteq> mac cfg (secret cfg) (signing_input p)"
  shows "parse_claims cfg t (Join [jwt_header, p, sig] CHR ''.'') = Inl InvalidToken"
proof (cases "CHR ''.'' \<in> set p \<or> CHR ''.'' \<in> set sig")
  case True
  then have "count_list (Join [jwt_header, p, sig] CHR ''.'') CHR ''.'' \<noteq> 2"
    by (auto simp: jwt_header_def count_list_0_iff)
  then have "parse_token (Join [jwt_header, p, sig] CHR ''.'') = None"
    using parse_token_three_segments by (metis not_None_eq)
  then show ?thesis by (simp add: parse_claims_def)
next
  case False
  then have "Split (Join [jwt_header, p, sig] CHR ''.'') CHR ''.'' = [jwt_header, p, sig]"
    by (intro Split_Join) (auto simp: jwt_header_def)
  with assms show ?thesis
    by (auto simp: parse_claims_def parse_token_def split: option.splits)
qed

theorem parse_claims_bad_signature_witness:
  "''forged'' \<noteq> mac example_token_config (secret example_token_config)
                 (signing_input (encode_claims \<lparr>claim_user = 1, claim_iat = 0, claim_exp = 99999\<rparr>)) \<and>
   parse_claims example_token_config 10
     (Join [jwt_header, encode_claims \<lparr>claim_user = 1, claim_iat = 0, claim_exp = 99999\<rparr>, ''forged''] CHR ''.'')
   = Inl InvalidToken"
proof -
  have "''forged'' \<noteq> mac example_token_config (secret example_token_config)
                 (signing_input (encode_claims \<lparr>claim_user = 1, claim_iat = 0, claim_exp = 99999\<rparr>))"
    by (simp add: example_token_config_def)
  then show ?thesis using parse_claims_bad_signature by blast
qed

text \<open>
  Authenticity: every token that \<open>parse_claims\<close> accepts is the header,
  a claims segment that decodes to the returned claims, and the MAC of both
  under the secret, and it is not yet expired. Without the secret, a
  token is accepted only if the MAC can be computed.
\<close>

theorem parse_claims_authentic:
  assumes "parse_claims cfg t tok = Inr c"
  shows "\<exists>p. tok = Join [jwt_header, p, mac cfg (secret cfg) (signing_input p)] CHR ''.'' \<and>
             decode_claims p = Some c \<and> t < claim_exp c"
proof -
  obtain input sig where pt: "parse_token tok = Some (input, c, sig)"
    and sig: "sig = mac cfg (secret cfg) input" and exp: "t < claim_exp c"
    using assms by (auto simp: parse_claims_def split: option.splits if_splits)
  from parse_token_Some [OF pt] sig exp show ?thesis by blast
qed

theorem parse_claims_authentic_witness:
  "parse_claims example_token_config 100 (CreateToken example_token_config 50 42) =
     Inr \<lparr>claim_user = 42, claim_iat = 50, claim_exp = 50 + ttl example_token_config\<rparr> \<and>
   (\<exists>p. CreateToken example_token_config 50 42 =
          Join [jwt_header, p, mac example_token_config (secret example_token_config) (signing_input p)] CHR ''.'' \<and>
        decode_claims p = Some \<lparr>claim_user = 42, claim_iat = 50, claim_exp = 50 + ttl example_token_config\<rparr> \<and>
        (100::nat) < claim_exp \<lparr>claim_user = 42, claim_iat = 50, claim_exp = 50 + ttl example_token_config\<rparr>)"
proof -
  have acc: "parse_claims example_token_config 100 (CreateToken example_token_config 50 42) =
     Inr \<lparr>claim_user = 42, claim_iat = 50, claim_exp = 50 + ttl example_token_config\<rparr>"
    using parse_claims_CreateToken [OF example_token_config_wf]
    by (simp add: example_token_config_def)
  show ?thesis using acc parse_claims_authentic [OF acc] by blast
qed

text \<open>
  A request without an \<open>Authorization\<close> header (Go reads it as the
  empty string) is refused with \<open>InvalidToken\<close>.
\<close>

theorem ExtractUserID_no_header: "ExtractUserID cfg t [] = Inl InvalidToken"
  by (simp add: ExtractUserID_def extractToken_def parse_claims_def parse_token_def)

end
