(* ===== verification/Password.thy ===== *)
theory Password
  imports GoStrings
begin

text \<open>
  The password service: \<open>security.HashPassword\<close> and
  \<open>security.PasswordCheck\<close> (src/src/security/security.go), which call
  \<open>bcrypt.GenerateFromPassword\<close> with \<open>bcrypt.DefaultCost\<close> and
  \<open>bcrypt.CompareHashAndPassword\<close> of golang.org/x/crypto/bcrypt. The bcrypt
  package is not part of the repository; it is modelled from its published
  source as far as the program's behaviour depends on it: the 60-byte
  encoding \<open>$2a$cc$\<close> + 22 salt characters + 31 digest characters
  (\<open>hashed.Hash\<close>), its decoder (\<open>newFromHash\<close>, \<open>decodeVersion\<close>,
  \<open>decodeCost\<close>) with its error values, the 72-byte limit of
  \<open>GenerateFromPassword\<close>, and the key schedule, which uses the password with
  a NUL byte appended, repeated cyclically, of which only the first 72 bytes
  count (\<open>expensiveBlowfishSetup\<close> and Blowfish's \<open>ExpandKey\<close>).
  The EksBlowfish computation itself is a parameter \<open>eks\<close> (cost, encoded
  salt, 72-byte key to the cipher text bytes, \<open>None\<close> when the salt does
  not decode); the 16 random salt bytes that \<open>crypto/rand\<close> supplies are an
  argument \<open>rnd\<close>.
\<close>

datatype bcrypt_error =
    ErrMismatchedHashAndPassword
  | ErrHashTooShort
  | ErrPasswordTooLong
  | InvalidHashPrefixError char
  | HashVersionTooNewError char
  | InvalidCostError int
  | ErrCostSyntax
  | ErrSaltEncoding
  | ErrRandRead

record hashed =
  h_hash :: string
  h_salt :: string
  h_cost :: nat
  h_major :: char
  h_minor :: char

type_synonym eks_cipher = "nat \<Rightarrow> string \<Rightarrow> string \<Rightarrow> nat list option"

definition MinCost :: nat where "MinCost = 4"
definition MaxCost :: nat where "MaxCost = 31"
definition DefaultCost :: nat where "DefaultCost = 10"
definition majorVersion :: char where "majorVersion = CHR ''2''"
definition minorVersion :: char where "minorVersion = CHR ''a''"
definition encodedSaltSize :: nat where "encodedSaltSize = 22"
definition encodedHashSize :: nat where "encodedHashSize = 31"
definition minHashSize :: nat where "minHashSize = 59"

subsection \<open>bcrypt's radix-64 encoding\<close>

definition bcrypt_alphabet :: string where
  "bcrypt_alphabet = ''./ABCDEFGHIJKLMNOPQRSTUVWXYZabcdefghijklmnopqrstuvwxyz0123456789''"

text \<open>\<open>base64Encode\<close>: standard base-64 over bcrypt's alphabet, padding removed.\<close>

fun base64Encode :: "nat list \<Rightarrow> string" where
  "base64Encode (a # b # c # rest) =
     [bcrypt_alphabet ! (a div 4), bcrypt_alphabet ! ((a mod 4) * 16 + b div 16),
      bcrypt_alphabet ! ((b mod 16) * 4 + c div 64), bcrypt_alphabet ! (c mod 64)] @ base64Encode rest"
| "base64Encode [a, b] =
     [bcrypt_alphabet ! (a div 4), bcrypt_alphabet ! ((a mod 4) * 16 + b div 16),
      bcrypt_alphabet ! ((b mod 16) * 4)]"
| "base64Encode [a] = [bcrypt_alphabet ! (a div 4), bcrypt_alphabet ! ((a mod 4) * 16)]"
| "base64Encode [] = []"

text \<open>The salt: the first 16 random bytes, encoded (22 characters).\<close>

definition salt_of :: "nat list \<Rightarrow> string" where
  "salt_of rnd = base64Encode (take 16 rnd)"

subsection \<open>The key schedule and \<open>bcrypt(password, cost, salt)\<close>\<close>

definition bcrypt_key :: "string \<Rightarrow> string" where
  "bcrypt_key p = take 72 (concat (replicate 72 (p @ [CHR 0x00])))"

definition bcrypt_digest :: "eks_cipher \<Rightarrow> string \<Rightarrow> nat \<Rightarrow> string \<Rightarrow> bcrypt_error + string" where
  "bcrypt_digest eks password cost salt =
     (case eks cost salt (bcrypt_key password) of
        None \<Rightarrow> Inl ErrSaltEncoding
      | Some cipherData \<Rightarrow> Inr (base64Encode (take 23 cipherData)))"

subsection \<open>The encoding \<open>hashed.Hash()\<close>\<close>

definition fit :: "nat \<Rightarrow> string \<Rightarrow> string" where
  "fit k s = take k (s @ replicate k (CHR 0x00))"

definition format_cost :: "nat \<Rightarrow> string" where
  "format_cost c = (if c < 10 then CHR ''0'' # show_nat c else show_nat c)"

definition Hash :: "hashed \<Rightarrow> string" where
  "Hash p =
     [CHR ''$'', h_major p] @ (if h_minor p \<noteq> CHR 0x00 then [h_minor p] else []) @
     CHR ''$'' # format_cost (h_cost p) @ CHR ''$'' #
     fit encodedSaltSize (h_salt p) @ fit encodedHashSize (h_hash p)"

subsection \<open>Generating a hash\<close>

definition checkCost :: "int \<Rightarrow> bcrypt_error + nat" where
  "checkCost c = (if c < int MinCost \<or> c > int MaxCost then Inl (InvalidCostError c) else Inr (nat c))"

definition newFromPassword :: "eks_cipher \<Rightarrow> string \<Rightarrow> nat \<Rightarrow> nat list \<Rightarrow> bcrypt_error + hashed" where
  "newFromPassword eks password cost0 rnd =
     (let cost = (if cost0 < MinCost then DefaultCost else cost0) in
      case checkCost (int cost) of
        Inl e \<Rightarrow> Inl e
      | Inr cost \<Rightarrow>
          (if length rnd < 16 then Inl ErrRandRead
           else (let salt = salt_of rnd in
                 case bcrypt_digest eks password cost salt of
                   Inl e \<Rightarrow> Inl e
                 | Inr hsh \<Rightarrow>
                     Inr \<lparr>h_hash = hsh, h_salt = salt, h_cost = cost,
                          h_major = majorVersion, h_minor = minorVersion\<rparr>)))"

definition GenerateFromPassword :: "eks_cipher \<Rightarrow> string \<Rightarrow> nat \<Rightarrow> nat list \<Rightarrow> bcrypt_error + string" where
  "GenerateFromPassword eks password cost rnd =
     (if length password > 72 then Inl ErrPasswordTooLong
      else (case newFromPassword eks password cost rnd of
              Inl e \<Rightarrow> Inl e
            | Inr p \<Rightarrow> Inr (Hash p)))"

subsection \<open>Decoding a stored hash\<close>

text \<open>\<open>strconv.Atoi\<close> on the two cost characters (its short-string path).\<close>

definition Atoi :: "string \<Rightarrow> bcrypt_error + int" where
  "Atoi s0 =
     (if s0 = [] then Inl ErrCostSyntax
      else (let s = (if hd s0 = CHR ''-'' \<or> hd s0 = CHR ''+'' then tl s0 else s0) in
            if s = [] \<or> \<not> list_all is_digit s then Inl ErrCostSyntax
            else Inr (if hd s0 = CHR ''-'' then - int (dec_val 0 s) else int (dec_val 0 s))))"

definition decodeVersion :: "string \<Rightarrow> bcrypt_error + (char \<times> char \<times> nat)" where
  "decodeVersion s =
     (if s ! 0 \<noteq> CHR ''$'' then Inl (InvalidHashPrefixError (s ! 0))
      else if of_char (s ! 1) > (of_char majorVersion :: nat) then Inl (HashVersionTooNewError (s ! 1))
      else if s ! 2 \<noteq> CHR ''$'' then Inr (s ! 1, s ! 2, 4)
      else Inr (s ! 1, CHR 0x00, 3))"

definition decodeCost :: "string \<Rightarrow> bcrypt_error + nat" where
  "decodeCost s =
     (case Atoi (take 2 s) of
        Inl e \<Rightarrow> Inl e
      | Inr c \<Rightarrow> checkCost c)"

text \<open>
  \<open>newFromHash\<close> checks the length first (at least 59 bytes), so the byte
  reads of \<open>decodeVersion\<close> are in range; the cost field is followed by one
  byte that is skipped unread.
\<close>

definition newFromHash :: "string \<Rightarrow> bcrypt_error + hashed" where
  "newFromHash hs =
     (if length hs < minHashSize then Inl ErrHashTooShort
      else (case decodeVersion hs of
              Inl e \<Rightarrow> Inl e
            | Inr (maj, mnr, n) \<Rightarrow>
                (let s = drop n hs in
                 case decodeCost s of
                   Inl e \<Rightarrow> Inl e
                 | Inr cost \<Rightarrow>
                     (let s' = drop 3 s in
                      Inr \<lparr>h_hash = drop encodedSaltSize s', h_salt = take encodedSaltSize s',
                           h_cost = cost, h_major = maj, h_minor = mnr\<rparr>))))"

definition CompareHashAndPassword :: "eks_cipher \<Rightarrow> string \<Rightarrow> string \<Rightarrow> bcrypt_error + unit" where
  "CompareHashAndPassword eks hashedPassword password =
     (case newFromHash hashedPassword of
        Inl e \<Rightarrow> Inl e
      | Inr p \<Rightarrow>
          (case bcrypt_digest eks password (h_cost p) (h_salt p) of
             Inl e \<Rightarrow> Inl e
           | Inr otherHash \<Rightarrow>
               (if Hash p = Hash (p\<lparr>h_hash := otherHash\<rparr>) then Inr ()
                else Inl ErrMismatchedHashAndPassword)))"

subsection \<open>security.go\<close>

definition HashPassword :: "eks_cipher \<Rightarrow> nat list \<Rightarrow> string \<Rightarrow> bcrypt_error + string" where
  "HashPassword eks rnd password = GenerateFromPassword eks password DefaultCost rnd"

definition PasswordCheck :: "eks_cipher \<Rightarrow> string \<Rightarrow> string \<Rightarrow> bcrypt_error + unit" where
  "PasswordCheck eks passwordWithHash passwordString =
     CompareHashAndPassword eks passwordWithHash passwordString"

definition hashed_wf :: "hashed \<Rightarrow> bool" where
  "hashed_wf p \<longleftrightarrow> h_major p = majorVersion \<and> h_minor p = minorVersion \<and>
     MinCost \<le> h_cost p \<and> h_cost p \<le> MaxCost \<and>
     length (h_salt p) = encodedSaltSize \<and> length (h_hash p) = encodedHashSize"

text \<open>
  EksBlowfish yields 24 bytes of cipher text, of which bcrypt encodes 23; a
  cipher model that yields at least 23 is well-formed.
\<close>

definition eks_wf :: "eks_cipher \<Rightarrow> bool" where
  "eks_wf eks \<longleftrightarrow> (\<forall>c s k. case eks c s k of None \<Rightarrow> True | Some cd \<Rightarrow> 23 \<le> length cd)"

text \<open>A toy cipher for the witnesses: it copies the key. It is no hash function.\<close>

definition example_eks :: eks_cipher where
  "example_eks c s k = Some (map of_char (take 24 (k @ replicate 24 (CHR ''x''))))"

definition example_rnd :: "nat list" where
  "example_rnd = [7, 1, 2, 3, 4, 5, 6, 7, 8, 9, 10, 11, 12, 13, 14, 15]"

subsection \<open>Lemmas on the encoding\<close>

lemma length_base64Encode: "length (base64Encode bs) = (4 * length bs + 2) div 3"
  by (induction bs rule: base64Encode.induct) auto

lemma length_show_nat_small:
  "n < 10 \<Longrightarrow> length (show_nat n) = 1"
  "10 \<le> n \<Longrightarrow> n < 100 \<Longrightarrow> length (show_nat n) = 2"
  by (subst show_nat.simps; simp)+

lemma format_cost_length: "c < 100 \<Longrightarrow> length (format_cost c) = 2"
  by (simp add: format_cost_def length_show_nat_small)

lemma dec_val_zero_Cons: "dec_val 0 (CHR ''0'' # s) = dec_val 0 s"
  by (simp add: dec_val_def digit_val_def)

lemma format_cost_digits: "list_all is_digit (format_cost c)"
  using show_nat_digits [of c]
  by (simp add: format_cost_def list_all_iff is_digit_def)

lemma Atoi_format_cost: "c < 100 \<Longrightarrow> Atoi (format_cost c) = Inr (int c)"
proof -
  assume c: "c < 100"
  have hd: "hd (format_cost c) \<noteq> CHR ''-'' \<and> hd (format_cost c) \<noteq> CHR ''+''"
    using format_cost_digits [of c] format_cost_length [OF c]
    by (cases "format_cost c") (auto simp: is_digit_def)
  have "dec_val 0 (format_cost c) = c"
    by (simp add: format_cost_def dec_val_zero_Cons dec_val_show_nat)
  then show ?thesis
    using hd format_cost_digits [of c] format_cost_length [OF c]
    by (auto simp: Atoi_def)
qed

lemma Hash_wf:
  assumes "hashed_wf p"
  shows "Hash p = ''$2a'' @ CHR ''$'' # format_cost (h_cost p) @ CHR ''$'' # h_salt p @ h_hash p"
  using assms by (simp add: hashed_wf_def Hash_def fit_def majorVersion_def minorVersion_def)

text \<open>Decoding the encoding of a well-formed hash gives it back.\<close>

lemma newFromHash_Hash:
  assumes wf: "hashed_wf p"
  shows "newFromHash (Hash p) = Inr p"
proof -
  have c: "4 \<le> h_cost p" "h_cost p \<le> 31" using wf by (auto simp: hashed_wf_def MinCost_def MaxCost_def)
  then have fl: "length (format_cost (h_cost p)) = 2" by (simp add: format_cost_length)
  have len: "length (Hash p) = 60"
    using wf fl by (simp add: Hash_wf hashed_wf_def encodedSaltSize_def encodedHashSize_def)
  have ver: "decodeVersion (Hash p) = Inr (CHR ''2'', CHR ''a'', 4)"
    using wf by (simp add: Hash_wf decodeVersion_def majorVersion_def)
  have cost: "decodeCost (drop 4 (Hash p)) = Inr (h_cost p)"
    using wf c fl Atoi_format_cost [of "h_cost p"]
    by (simp add: Hash_wf decodeCost_def checkCost_def MinCost_def MaxCost_def)
  have rest: "drop 3 (drop 4 (Hash p)) = h_salt p @ h_hash p"
    using wf fl by (simp add: Hash_wf)
  show ?thesis
    using len ver cost rest wf
    by (cases p) (simp add: newFromHash_def minHashSize_def hashed_wf_def majorVersion_def minorVersion_def)
qed

lemma Hash_update_eq: "Hash p = Hash (p\<lparr>h_hash := x\<rparr>) \<longleftrightarrow> fit encodedHashSize (h_hash p) = fit encodedHashSize x"
  by (simp add: Hash_def)

lemma fit_length: "length s = k \<Longrightarrow> fit k s = s"
  by (simp add: fit_def)

subsection \<open>Hashing and checking\<close>

lemma length_salt_of: "16 \<le> length rnd \<Longrightarrow> length (salt_of rnd) = encodedSaltSize"
  by (simp add: salt_of_def length_base64Encode encodedSaltSize_def)

lemma bcrypt_digest_length:
  assumes "eks_wf eks" and "bcrypt_digest eks p c s = Inr d"
  shows "length d = encodedHashSize"
proof -
  have "case eks c s (bcrypt_key p) of None \<Rightarrow> True | Some cd \<Rightarrow> 23 \<le> length cd"
    using assms(1) by (simp add: eks_wf_def)
  then show ?thesis
    using assms(2)
    by (auto simp: bcrypt_digest_def length_base64Encode encodedHashSize_def split: option.splits)
qed

text \<open>What \<open>HashPassword\<close> stores when it succeeds, and when it does.\<close>

lemma HashPassword_Inr:
  "HashPassword eks rnd p = Inr h \<longleftrightarrow>
     length p \<le> 72 \<and> 16 \<le> length rnd \<and>
     (\<exists>d. bcrypt_digest eks p DefaultCost (salt_of rnd) = Inr d \<and>
          h = Hash \<lparr>h_hash = d, h_salt = salt_of rnd, h_cost = DefaultCost,
                    h_major = majorVersion, h_minor = minorVersion\<rparr>)"
  by (auto simp: HashPassword_def GenerateFromPassword_def newFromPassword_def checkCost_def
                 MinCost_def MaxCost_def DefaultCost_def Let_def
           split: sum.splits if_splits)

lemma stored_hashed_wf:
  "eks_wf eks \<Longrightarrow> 16 \<le> length rnd \<Longrightarrow> bcrypt_digest eks p DefaultCost (salt_of rnd) = Inr d \<Longrightarrow>
   hashed_wf \<lparr>h_hash = d, h_salt = salt_of rnd, h_cost = DefaultCost,
              h_major = majorVersion, h_minor = minorVersion\<rparr>"
  by (simp add: hashed_wf_def length_salt_of bcrypt_digest_length DefaultCost_def MinCost_def MaxCost_def)

text \<open>
  Checking a password against a stored hash recomputes the digest with the
  stored cost and salt and compares the 31 digest characters.
\<close>

lemma PasswordCheck_Hash:
  assumes "hashed_wf p"
  shows "PasswordCheck eks (Hash p) q =
           (case bcrypt_digest eks q (h_cost p) (h_salt p) of
              Inl e \<Rightarrow> Inl e
            | Inr d \<Rightarrow> if fit encodedHashSize d = h_hash p then Inr () else Inl ErrMismatchedHashAndPassword)"
proof -
  have "fit encodedHashSize (h_hash p) = h_hash p"
    using assms by (simp add: hashed_wf_def fit_length)
  then show ?thesis
    using assms by (auto simp: PasswordCheck_def CompareHashAndPassword_def newFromHash_Hash
                               Hash_update_eq split: sum.splits)
qed

text \<open>The check sees a candidate password only through its 72-byte key.\<close>

lemma bcrypt_digest_key:
  "bcrypt_key q1 = bcrypt_key q2 \<Longrightarrow> bcrypt_digest eks q1 = bcrypt_digest eks q2"
  by (simp add: bcrypt_digest_def fun_eq_iff)

lemma CompareHashAndPassword_key:
  "bcrypt_key q1 = bcrypt_key q2 \<Longrightarrow>
   CompareHashAndPassword eks h q1 = CompareHashAndPassword eks h q2"
proof -
  assume "bcrypt_key q1 = bcrypt_key q2"
  then have "bcrypt_digest eks q1 = bcrypt_digest eks q2" by (rule bcrypt_digest_key)
  then show ?thesis unfolding CompareHashAndPassword_def by (rule arg_cong)
qed

lemma replicate_72: "replicate 72 x = x # replicate 71 x"
  by (subst replicate_Suc [symmetric]) simp

lemma bcrypt_key_long: "72 \<le> length p \<Longrightarrow> bcrypt_key p = take 72 p"
  by (simp add: bcrypt_key_def replicate_72)

lemma bcrypt_key_short:
  assumes "length p < 72" and "CHR 0x00 \<notin> set p"
  shows "takeWhile (\<lambda>c. c \<noteq> CHR 0x00) (bcrypt_key p) = p"
proof -
  have "72 - length p = Suc (71 - length p)" using assms(1) by arith
  then have "bcrypt_key p = p @ CHR 0x00 # take (71 - length p) (concat (replicate 71 (p @ [CHR 0x00])))"
    by (simp add: bcrypt_key_def replicate_72)
  moreover have "\<forall>x \<in> set p. x \<noteq> CHR 0x00" using assms(2) by blast
  ultimately show ?thesis by (simp add: takeWhile_append2)
qed

lemma example_eks_wf: "eks_wf example_eks"
  unfolding eks_wf_def example_eks_def by (auto simp: min_def)

lemma stored_check:
  assumes "eks_wf eks" and "HashPassword eks rnd p = Inr h"
  obtains d where "bcrypt_digest eks p DefaultCost (salt_of rnd) = Inr d"
    and "\<And>q. PasswordCheck eks h q =
           (case bcrypt_digest eks q DefaultCost (salt_of rnd) of
              Inl e \<Rightarrow> Inl e
            | Inr d' \<Rightarrow> if fit encodedHashSize d' = d then Inr () else Inl ErrMismatchedHashAndPassword)"
proof -
  obtain d where len: "16 \<le> length rnd" and d: "bcrypt_digest eks p DefaultCost (salt_of rnd) = Inr d"
    and h: "h = Hash \<lparr>h_hash = d, h_salt = salt_of rnd, h_cost = DefaultCost,
                      h_major = majorVersion, h_minor = minorVersion\<rparr>"
    using assms(2) by (auto simp: HashPassword_Inr)
  have "hashed_wf \<lparr>h_hash = d, h_salt = salt_of rnd, h_cost = DefaultCost,
                   h_major = majorVersion, h_minor = minorVersion\<rparr>"
    using assms(1) len d by (rule stored_hashed_wf)
  from PasswordCheck_Hash [OF this] d h show ?thesis by (intro that) simp_all
qed

text \<open>What \<open>HashPassword\<close> stores decodes, and checks against the password it hashed.\<close>

lemma HashPassword_decodes:
  assumes "eks_wf eks" and "HashPassword eks rnd p = Inr h"
  shows "case newFromHash h of Inl _ \<Rightarrow> False | Inr hp \<Rightarrow> hashed_wf hp"
proof -
  from assms(2) obtain d where "16 \<le> length rnd" and d: "bcrypt_digest eks p DefaultCost (salt_of rnd) = Inr d"
    and h: "h = Hash \<lparr>h_hash = d, h_salt = salt_of rnd, h_cost = DefaultCost,
                      h_major = majorVersion, h_minor = minorVersion\<rparr>"
    by (auto simp: HashPassword_Inr)
  then show ?thesis using stored_hashed_wf [OF assms(1)] newFromHash_Hash by simp
qed

lemma PasswordCheck_stored:
  assumes "eks_wf eks" and "HashPassword eks rnd p = Inr h"
  shows "PasswordCheck eks h p = Inr ()"
proof -
  obtain d where d: "bcrypt_digest eks p DefaultCost (salt_of rnd) = Inr d"
    and chk: "\<And>q. PasswordCheck eks h q =
           (case bcrypt_digest eks q DefaultCost (salt_of rnd) of
              Inl e \<Rightarrow> Inl e
            | Inr d' \<Rightarrow> if fit encodedHashSize d' = d then Inr () else Inl ErrMismatchedHashAndPassword)"
    using stored_check [OF assms] by blast
  have "fit encodedHashSize d = d"
    using bcrypt_digest_length [OF assms(1) d] by (rule fit_length)
  then show ?thesis using d by (simp add: chk)
qed

lemma PasswordCheck_empty_hash: "PasswordCheck eks [] q = Inl ErrHashTooShort"
  by (simp add: PasswordCheck_def CompareHashAndPassword_def newFromHash_def minHashSize_def)

subsection \<open>The password contract\<close>

text \<open>
  C9. Hash then check: a password of at most 72 bytes is hashed by
  \<open>HashPassword\<close> (given the 16 random bytes), and \<open>PasswordCheck\<close> accepts
  that password against the stored hash.
\<close>

theorem PasswordCheck_HashPassword:
  assumes "eks_wf eks" and "length p \<le> 72" and "16 \<le> length rnd"
    and "eks DefaultCost (salt_of rnd) (bcrypt_key p) \<noteq> None"
  shows "\<exists>h. HashPassword eks rnd p = Inr h \<and> PasswordCheck eks h p = Inr ()"
proof -
  obtain d where d: "bcrypt_digest eks p DefaultCost (salt_of rnd) = Inr d"
    using assms(4) by (auto simp: bcrypt_digest_def)
  let ?h = "Hash \<lparr>h_hash = d, h_salt = salt_of rnd, h_cost = DefaultCost,
                  h_major = majorVersion, h_minor = minorVersion\<rparr>"
  have hp: "HashPassword eks rnd p = Inr ?h"
    using assms(2,3) d by (simp add: HashPassword_Inr)
  obtain d' where d': "bcrypt_digest eks p DefaultCost (salt_of rnd) = Inr d'"
    and chk: "\<And>q. PasswordCheck eks ?h q =
           (case bcrypt_digest eks q DefaultCost (salt_of rnd) of
              Inl e \<Rightarrow> Inl e
            | Inr d'' \<Rightarrow> if fit encodedHashSize d'' = d' then Inr () else Inl ErrMismatchedHashAndPassword)"
    using stored_check [OF assms(1) hp] by blast
  have "fit encodedHashSize d = d"
    using bcrypt_digest_length [OF assms(1) d] by (rule fit_length)
  then have "PasswordCheck eks ?h p = Inr ()"
    using d d' by (simp add: chk)
  with hp show ?thesis by blast
qed

theorem PasswordCheck_HashPassword_witness:
  "\<exists>h. HashPassword example_eks example_rnd ''secret'' = Inr h \<and>
       PasswordCheck example_eks h ''secret'' = Inr ()"
proof (rule PasswordCheck_HashPassword [OF example_eks_wf])
  show "length ''secret'' \<le> 72" by simp
  show "16 \<le> length example_rnd" by (simp add: example_rnd_def)
  show "example_eks DefaultCost (salt_of example_rnd) (bcrypt_key ''secret'') \<noteq> None"
    unfolding example_eks_def by (rule option.distinct(2))
qed

text \<open>
  C32. A wrong password is a mismatch, not a failure: when the digest the
  candidate password yields under the stored salt differs from the stored
  digest, \<open>PasswordCheck\<close> fails with \<open>ErrMismatchedHashAndPassword\<close>.
\<close>

theorem PasswordCheck_mismatch:
  assumes "eks_wf eks" and "HashPassword eks rnd p = Inr h"
    and "bcrypt_digest eks p DefaultCost (salt_of rnd) = Inr dp"
    and "bcrypt_digest eks q DefaultCost (salt_of rnd) = Inr dq" and "dq \<noteq> dp"
  shows "PasswordCheck eks h q = Inl ErrMismatchedHashAndPassword"
proof -
  obtain d where d: "bcrypt_digest eks p DefaultCost (salt_of rnd) = Inr d"
    and chk: "\<And>q. PasswordCheck eks h q =
           (case bcrypt_digest eks q DefaultCost (salt_of rnd) of
              Inl e \<Rightarrow> Inl e
            | Inr d' \<Rightarrow> if fit encodedHashSize d' = d then Inr () else Inl ErrMismatchedHashAndPassword)"
    using stored_check [OF assms(1,2)] by blast
  have "fit encodedHashSize dq = dq"
    using bcrypt_digest_length [OF assms(1,4)] by (rule fit_length)
  with d assms(3-5) show ?thesis by (simp add: chk)
qed

theorem PasswordCheck_mismatch_witness:
  "PasswordCheck example_eks (projr (HashPassword example_eks example_rnd ''secret'')) ''sesame'' =
     Inl ErrMismatchedHashAndPassword"
proof -
  let ?dp = "projr (bcrypt_digest example_eks ''secret'' DefaultCost (salt_of example_rnd))"
  let ?dq = "projr (bcrypt_digest example_eks ''sesame'' DefaultCost (salt_of example_rnd))"
  have h: "HashPassword example_eks example_rnd ''secret'' =
             Inr (projr (HashPassword example_eks example_rnd ''secret''))"
    by code_simp
  have dp: "bcrypt_digest example_eks ''secret'' DefaultCost (salt_of example_rnd) = Inr ?dp"
    by code_simp
  have dq: "bcrypt_digest example_eks ''sesame'' DefaultCost (salt_of example_rnd) = Inr ?dq"
    by code_simp
  have ne: "?dq \<noteq> ?dp" by code_simp
  show ?thesis by (rule PasswordCheck_mismatch [OF example_eks_wf h dp dq ne])
qed

text \<open>
  C33. Only the first 72 bytes count: \<open>PasswordCheck\<close> gives the same answer,
  against any stored hash, for a 72-byte password and for every longer
  password that starts with it. \<open>HashPassword\<close> accepts passwords of up to
  72 bytes, so a stored password of exactly 72 bytes is also matched by all
  its extensions (the specification promises a mismatch for every other
  password).
\<close>

theorem PasswordCheck_72_prefix:
  assumes "length p = 72" and "take 72 q = p"
  shows "PasswordCheck eks h q = PasswordCheck eks h p"
proof -
  have "length (take 72 q) = 72" using assms by simp
  then have "72 \<le> length q" by simp
  then have "bcrypt_key q = p" using assms(2) by (simp add: bcrypt_key_long)
  moreover have "bcrypt_key p = p" using assms(1) by (simp add: bcrypt_key_long)
  ultimately show ?thesis by (simp add: PasswordCheck_def CompareHashAndPassword_key)
qed

theorem PasswordCheck_72_prefix_witness:
  "length (replicate 72 (CHR ''a'')) = 72 \<and> take 72 (replicate 72 (CHR ''a'') @ ''xyz'') = replicate 72 (CHR ''a'') \<and>
   PasswordCheck example_eks (projr (HashPassword example_eks example_rnd (replicate 72 (CHR ''a''))))
     (replicate 72 (CHR ''a'') @ ''xyz'') =
   PasswordCheck example_eks (projr (HashPassword example_eks example_rnd (replicate 72 (CHR ''a''))))
     (replicate 72 (CHR ''a''))"
proof -
  have l: "length (replicate 72 (CHR ''a'')) = 72" by simp
  have t: "take 72 (replicate 72 (CHR ''a'') @ ''xyz'') = replicate 72 (CHR ''a'')" by simp
  show ?thesis using PasswordCheck_72_prefix [OF l t] l t by blast
qed

end
