(* ===== verification/Models.thy ===== *)
theory Models
  imports Password
begin

text \<open>
  The data model (src/src/models/User.go, Publication.go): the structs
  \<open>User\<close> and \<open>Publication\<close> as records with Go's zero values, and their
  \<open>Prepare\<close> methods, which first validate and then format (trim the text
  fields, and at stage \<open>"register"\<close> replace the password by its bcrypt
  hash). \<open>checkmail.ValidateFormat\<close> is an external library; it is a
  parameter \<open>valid_email\<close>. The body of \<open>UpdatePassword\<close> is decoded into
  \<open>models.Password\<close>, whose file is not under src/; its two fields are the
  ones the controller reads.
\<close>

record user =
  user_id :: uint64
  name :: string
  nick :: string
  email :: string
  password :: string
  created_at :: nat

record publication =
  pub_id :: uint64
  title :: string
  content :: string
  author_id :: uint64
  author_nick :: string
  likes :: uint64
  pub_created_at :: nat

record password_change =
  pw_new :: string
  pw_current :: string

datatype model_error =
    ErrNameBlank
  | ErrNickBlank
  | ErrEmailBlank
  | ErrEmailFormat
  | ErrPasswordBlank
  | ErrTitleBlank
  | ErrContentBlank
  | ErrHashing bcrypt_error

definition zero_user :: user where
  "zero_user = \<lparr>user_id = 0, name = [], nick = [], email = [], password = [], created_at = 0\<rparr>"

definition zero_publication :: publication where
  "zero_publication = \<lparr>pub_id = 0, title = [], content = [], author_id = 0, author_nick = [],
                        likes = 0, pub_created_at = 0\<rparr>"

subsection \<open>\<open>User.validate\<close>, \<open>User.format\<close>, \<open>User.Prepare\<close>\<close>

definition user_validate :: "(string \<Rightarrow> bool) \<Rightarrow> string \<Rightarrow> user \<Rightarrow> model_error option" where
  "user_validate valid_email stage u =
     (if name u = [] then Some ErrNameBlank
      else if nick u = [] then Some ErrNickBlank
      else if email u = [] then Some ErrEmailBlank
      else if \<not> valid_email (email u) then Some ErrEmailFormat
      else if stage = ''register'' \<and> password u = [] then Some ErrPasswordBlank
      else None)"

definition user_format :: "eks_cipher \<Rightarrow> nat list \<Rightarrow> string \<Rightarrow> user \<Rightarrow> model_error + user" where
  "user_format eks rnd stage u =
     (let u' = u\<lparr>name := TrimSpace (name u), nick := TrimSpace (nick u), email := TrimSpace (email u)\<rparr> in
      if stage = ''register''
      then (case HashPassword eks rnd (password u') of
              Inl e \<Rightarrow> Inl (ErrHashing e)
            | Inr h \<Rightarrow> Inr (u'\<lparr>password := h\<rparr>))
      else Inr u')"

definition user_Prepare ::
  "(string \<Rightarrow> bool) \<Rightarrow> eks_cipher \<Rightarrow> nat list \<Rightarrow> string \<Rightarrow> user \<Rightarrow> model_error + user" where
  "user_Prepare valid_email eks rnd stage u =
     (case user_validate valid_email stage u of
        Some e \<Rightarrow> Inl e
      | None \<Rightarrow> user_format eks rnd stage u)"

subsection \<open>\<open>Publication.validate\<close>, \<open>format\<close>, \<open>Prepare\<close>\<close>

definition publication_validate :: "publication \<Rightarrow> model_error option" where
  "publication_validate p =
     (if title p = [] then Some ErrTitleBlank
      else if content p = [] then Some ErrContentBlank
      else None)"

definition publication_format :: "publication \<Rightarrow> publication" where
  "publication_format p = p\<lparr>title := TrimSpace (title p), content := TrimSpace (content p)\<rparr>"

definition publication_Prepare :: "publication \<Rightarrow> model_error + publication" where
  "publication_Prepare p =
     (case publication_validate p of
        Some e \<Rightarrow> Inl e
      | None \<Rightarrow> Inr (publication_format p))"

text \<open>A permissive e-mail check, for the witnesses.\<close>

definition example_valid_email :: "string \<Rightarrow> bool" where
  "example_valid_email s \<longleftrightarrow> CHR ''@'' \<in> set s"

subsection \<open>Properties of the models\<close>

lemma user_Prepare_edit:
  "user_Prepare valid_email eks rnd ''edit'' u =
     (case user_validate valid_email ''edit'' u of
        Some e \<Rightarrow> Inl e
      | None \<Rightarrow> Inr (u\<lparr>name := TrimSpace (name u), nick := TrimSpace (nick u), email := TrimSpace (email u)\<rparr>))"
  by (cases "user_validate valid_email ''edit'' u") (simp_all add: user_Prepare_def user_format_def Let_def)

lemma user_Prepare_id:
  "user_Prepare valid_email eks rnd stage u = Inr u' \<Longrightarrow> user_id u' = user_id u \<and> created_at u' = created_at u"
  by (auto simp: user_Prepare_def user_format_def Let_def split: option.splits if_splits sum.splits)

lemma user_Prepare_register_password:
  "user_Prepare valid_email eks rnd ''register'' u = Inr u' \<Longrightarrow>
   HashPassword eks rnd (password u) = Inr (password u')"
  by (auto simp: user_Prepare_def user_format_def Let_def split: option.splits sum.splits)

lemma publication_Prepare_fields:
  "publication_Prepare p = Inr p' \<Longrightarrow>
   p' = p\<lparr>title := TrimSpace (title p), content := TrimSpace (content p)\<rparr>"
  by (auto simp: publication_Prepare_def publication_format_def split: option.splits)

lemma user_Prepare_register:
  "user_Prepare ve ek rs ''register'' u0 = Inr u \<Longrightarrow>
   email u = TrimSpace (email u0) \<and> HashPassword ek rs (password u0) = Inr (password u)"
  by (auto simp: user_Prepare_def user_format_def Let_def split: option.splits sum.splits)

end
