(* ===== verification/Repositories.thy ===== *)
theory Repositories
  imports Models "HOL-Library.Sublist"
begin

text \<open>
  The storage layer (src/src/repositories/users.go, publications.go). The
  MySQL database is an explicit store: each table is a list of rows in
  primary-key order (the order in which the auto-increment counters hand
  out ids, and the order of a plain scan), the \<open>followers\<close> table a list of
  \<open>(user_id, follower_id)\<close> pairs, and \<open>CURRENT_TIMESTAMP\<close> a clock field.
  Each repository method is the SQL statement it runs, evaluated on the
  store; a method that only reads returns its rows, one that writes returns
  the new store. \<open>database.Connect\<close> (not under src/) fails exactly when the
  store is down. String comparison follows MySQL's default case-insensitive
  collation; the schema's foreign keys and unique indexes are not in the
  repository and are not modelled.
\<close>

record db =
  users_tbl :: "user list"
  followers_tbl :: "(uint64 \<times> uint64) list"
  pubs_tbl :: "publication list"
  next_user_id :: uint64
  next_pub_id :: uint64
  clock :: nat
  db_up :: bool

datatype sql_error = ErrConnect | ErrAutoIncrement | ErrOutOfRange

definition Connect :: "db \<Rightarrow> sql_error + unit" where
  "Connect st = (if db_up st then Inr () else Inl ErrConnect)"

definition ci_eq :: "string \<Rightarrow> string \<Rightarrow> bool" where
  "ci_eq a b \<longleftrightarrow> ToLower a = ToLower b"

text \<open>SQL \<open>LIKE\<close>: \<open>%\<close> matches any run, \<open>_\<close> one character, \<open>\\\<close> escapes the next.\<close>

fun like_match :: "string \<Rightarrow> string \<Rightarrow> bool" where
  "like_match [] s = (s = [])"
| "like_match (p # ps) s =
     (if p = CHR ''%'' then like_match ps s \<or> (case s of [] \<Rightarrow> False | c # cs \<Rightarrow> like_match (p # ps) cs)
      else if p = CHR ''_'' then (case s of [] \<Rightarrow> False | c # cs \<Rightarrow> like_match ps cs)
      else if p = CHR 0x5C \<and> ps \<noteq> []
        then (case s of [] \<Rightarrow> False | c # cs \<Rightarrow> lower_char c = lower_char (hd ps) \<and> like_match (tl ps) cs)
      else (case s of [] \<Rightarrow> False | c # cs \<Rightarrow> lower_char c = lower_char p \<and> like_match ps cs))"

text \<open>The columns the \<open>select\<close>s of users.go read: never the password.\<close>

definition user_row_public :: "user \<Rightarrow> user" where
  "user_row_public u = u\<lparr>password := []\<rparr>"

subsection \<open>\<open>repositories.Users\<close>\<close>

definition users_Create :: "user \<Rightarrow> db \<Rightarrow> sql_error + (uint64 \<times> db)" where
  "users_Create u st =
     (if next_user_id st = - 1 then Inl ErrAutoIncrement
      else (let uid = next_user_id st;
                row = \<lparr>user_id = uid, name = name u, nick = nick u, email = email u,
                       password = password u, created_at = clock st\<rparr>
            in Inr (uid, st\<lparr>users_tbl := users_tbl st @ [row], next_user_id := uid + 1\<rparr>)))"

definition users_Search :: "string \<Rightarrow> db \<Rightarrow> user list" where
  "users_Search nameOuNick st =
     (let pat = CHR ''%'' # nameOuNick @ ''%''
      in map user_row_public (filter (\<lambda>u. like_match pat (name u) \<or> like_match pat (nick u)) (users_tbl st)))"

text \<open>
  A search string without the three characters \<open>LIKE\<close> treats specially;
  \<open>SearchUsers\<close> does not escape them, so in other strings they act as
  wildcards.
\<close>

definition no_wildcards :: "string \<Rightarrow> bool" where
  "no_wildcards s \<longleftrightarrow> (\<forall>c \<in> set s. c \<noteq> CHR ''%'' \<and> c \<noteq> CHR ''_'' \<and> c \<noteq> CHR 0x5C)"

text \<open>
  \<open>SearchID\<close>, \<open>SearchEmail\<close>, \<open>SearchPassword\<close>: \<open>if rows.Next()\<close> reads the
  first row, and with no row the zero value is returned without an error.
\<close>

definition users_SearchID :: "uint64 \<Rightarrow> db \<Rightarrow> user" where
  "users_SearchID uid st =
     (case find (\<lambda>u. user_id u = uid) (users_tbl st) of
        None \<Rightarrow> zero_user
      | Some u \<Rightarrow> user_row_public u)"

definition users_SearchEmail :: "string \<Rightarrow> db \<Rightarrow> user" where
  "users_SearchEmail e st =
     (case find (\<lambda>u. ci_eq (email u) e) (users_tbl st) of
        None \<Rightarrow> zero_user
      | Some u \<Rightarrow> zero_user\<lparr>user_id := user_id u, password := password u\<rparr>)"

definition users_Update :: "uint64 \<Rightarrow> user \<Rightarrow> db \<Rightarrow> db" where
  "users_Update uid u st =
     st\<lparr>users_tbl := map (\<lambda>r. if user_id r = uid then r\<lparr>name := name u, nick := nick u, email := email u\<rparr> else r)
                          (users_tbl st)\<rparr>"

definition users_Delete :: "uint64 \<Rightarrow> db \<Rightarrow> db" where
  "users_Delete uid st = st\<lparr>users_tbl := filter (\<lambda>r. user_id r \<noteq> uid) (users_tbl st)\<rparr>"

text \<open>\<open>insert ignore\<close>: an existing pair is left alone.\<close>

definition users_Follow :: "uint64 \<Rightarrow> uint64 \<Rightarrow> db \<Rightarrow> db" where
  "users_Follow uid fid st =
     (if (uid, fid) \<in> set (followers_tbl st) then st
      else st\<lparr>followers_tbl := followers_tbl st @ [(uid, fid)]\<rparr>)"

definition users_Unfollow :: "uint64 \<Rightarrow> uint64 \<Rightarrow> db \<Rightarrow> db" where
  "users_Unfollow uid fid st = st\<lparr>followers_tbl := filter (\<lambda>r. r \<noteq> (uid, fid)) (followers_tbl st)\<rparr>"

text \<open>
  \<open>SearchFollowers\<close> joins \<open>u.id = s.follower_id\<close> and filters
  \<open>s.follower_id = ?\<close>; \<open>SearchFollowing\<close> joins \<open>u.id = s.user_id\<close> and
  filters \<open>s.follower_id = ?\<close>.
\<close>

definition users_SearchFollowers :: "uint64 \<Rightarrow> db \<Rightarrow> user list" where
  "users_SearchFollowers uid st =
     concat (map (\<lambda>(a, b). map user_row_public (filter (\<lambda>u. user_id u = b) (users_tbl st)))
                 (filter (\<lambda>(a, b). b = uid) (followers_tbl st)))"

definition users_SearchFollowing :: "uint64 \<Rightarrow> db \<Rightarrow> user list" where
  "users_SearchFollowing uid st =
     concat (map (\<lambda>(a, b). map user_row_public (filter (\<lambda>u. user_id u = a) (users_tbl st)))
                 (filter (\<lambda>(a, b). b = uid) (followers_tbl st)))"

definition users_UpdatePassword :: "uint64 \<Rightarrow> string \<Rightarrow> db \<Rightarrow> db" where
  "users_UpdatePassword uid pw st =
     st\<lparr>users_tbl := map (\<lambda>r. if user_id r = uid then r\<lparr>password := pw\<rparr> else r) (users_tbl st)\<rparr>"

definition users_SearchPassword :: "uint64 \<Rightarrow> db \<Rightarrow> string" where
  "users_SearchPassword uid st =
     (case find (\<lambda>u. user_id u = uid) (users_tbl st) of None \<Rightarrow> [] | Some u \<Rightarrow> password u)"

subsection \<open>\<open>repositories.Publications\<close>\<close>

definition pubs_Create :: "publication \<Rightarrow> db \<Rightarrow> sql_error + (uint64 \<times> db)" where
  "pubs_Create p st =
     (if next_pub_id st = - 1 then Inl ErrAutoIncrement
      else (let pid = next_pub_id st;
                row = \<lparr>pub_id = pid, title = title p, content = content p, author_id = author_id p,
                       author_nick = [], likes = 0, pub_created_at = clock st\<rparr>
            in Inr (pid, st\<lparr>pubs_tbl := pubs_tbl st @ [row], next_pub_id := pid + 1\<rparr>)))"

text \<open>The join \<open>publications p inner join users u on u.id = p.author_id\<close>.\<close>

definition pubs_with_author :: "db \<Rightarrow> publication list" where
  "pubs_with_author st =
     concat (map (\<lambda>p. map (\<lambda>u. p\<lparr>author_nick := nick u\<rparr>) (filter (\<lambda>u. user_id u = author_id p) (users_tbl st)))
                 (pubs_tbl st))"

definition first_row :: "publication list \<Rightarrow> publication list" where
  "first_row rows = take 1 rows"

definition pubs_SearchID :: "uint64 \<Rightarrow> db \<Rightarrow> publication" where
  "pubs_SearchID pid st =
     (case filter (\<lambda>p. pub_id p = pid) (pubs_with_author st) of
        [] \<Rightarrow> zero_publication
      | p # _ \<Rightarrow> p)"

text \<open>
  \<open>Search\<close> (the feed) joins followers on \<open>p.author_id = s.user_id\<close>,
  filters \<open>p.id = ? or s.follower_id = ?\<close> with the user id in both places,
  removes duplicates, and then reads one row (\<open>if rows.Next()\<close>).
\<close>

definition pubs_Search :: "uint64 \<Rightarrow> db \<Rightarrow> publication list" where
  "pubs_Search uid st =
     first_row (remdups
       (concat (map (\<lambda>p. map (\<lambda>s. p)
                    (filter (\<lambda>(a, b). author_id p = a \<and> (pub_id p = uid \<or> b = uid)) (followers_tbl st)))
                 (pubs_with_author st))))"

definition pubs_Update :: "uint64 \<Rightarrow> publication \<Rightarrow> db \<Rightarrow> db" where
  "pubs_Update pid p st =
     st\<lparr>pubs_tbl := map (\<lambda>r. if pub_id r = pid then r\<lparr>title := title p, content := content p\<rparr> else r)
                         (pubs_tbl st)\<rparr>"

definition pubs_Delete :: "uint64 \<Rightarrow> db \<Rightarrow> db" where
  "pubs_Delete pid st = st\<lparr>pubs_tbl := filter (\<lambda>r. pub_id r \<noteq> pid) (pubs_tbl st)\<rparr>"

definition pubs_SearchUser :: "uint64 \<Rightarrow> db \<Rightarrow> publication list" where
  "pubs_SearchUser uid st = first_row (filter (\<lambda>p. author_id p = uid) (pubs_with_author st))"

text \<open>
  \<open>likes = likes + 1\<close> on a \<open>BIGINT UNSIGNED\<close> column fails with an
  out-of-range error at the maximum; \<open>DislikePublication\<close> saturates at 0.
\<close>

definition pubs_Like :: "uint64 \<Rightarrow> db \<Rightarrow> sql_error + db" where
  "pubs_Like pid st =
     (if (\<exists>r \<in> set (pubs_tbl st). pub_id r = pid \<and> likes r = - 1) then Inl ErrOutOfRange
      else Inr (st\<lparr>pubs_tbl := map (\<lambda>r. if pub_id r = pid then r\<lparr>likes := likes r + 1\<rparr> else r) (pubs_tbl st)\<rparr>))"

definition pubs_Dislike :: "uint64 \<Rightarrow> db \<Rightarrow> db" where
  "pubs_Dislike pid st =
     st\<lparr>pubs_tbl := map (\<lambda>r. if pub_id r = pid then r\<lparr>likes := (if likes r > 0 then likes r - 1 else 0)\<rparr> else r)
                        (pubs_tbl st)\<rparr>"


declare users_Create_def [repo_simps]
  users_Search_def [repo_simps]
  users_SearchID_def [repo_simps]
  users_SearchEmail_def [repo_simps]
  users_Update_def [repo_simps]
  users_Delete_def [repo_simps]
  users_Follow_def [repo_simps]
  users_Unfollow_def [repo_simps]
  users_SearchFollowers_def [repo_simps]
  users_SearchFollowing_def [repo_simps]
  users_UpdatePassword_def [repo_simps]
  users_SearchPassword_def [repo_simps]
  pubs_Create_def [repo_simps]
  pubs_SearchID_def [repo_simps]
  pubs_Search_def [repo_simps]
  pubs_Update_def [repo_simps]
  pubs_Delete_def [repo_simps]
  pubs_SearchUser_def [repo_simps]
  pubs_Like_def [repo_simps]
  pubs_Dislike_def [repo_simps]

subsection \<open>An example store\<close>

text \<open>Two users (1 and 2), user 2 following user 1, a publication by user 2 and one by user 1.\<close>

definition example_db :: db where
  "example_db =
     \<lparr>users_tbl =
        [\<lparr>user_id = 1, name = ''Ana'', nick = ''ana'', email = ''ana@example.org'',
          password = projr (HashPassword example_eks example_rnd ''ana-pw''), created_at = 0\<rparr>,
         \<lparr>user_id = 2, name = ''Bo'', nick = ''bo'', email = ''bo@example.org'',
          password = projr (HashPassword example_eks example_rnd ''bo-pw''), created_at = 0\<rparr>],
      followers_tbl = [(1, 2)],
      pubs_tbl = [\<lparr>pub_id = 1, title = ''Hi'', content = ''First post'', author_id = 2, author_nick = [],
                   likes = 0, pub_created_at = 0\<rparr>,
                  \<lparr>pub_id = 2, title = ''Hey'', content = ''Second post'', author_id = 1, author_nick = [],
                   likes = 3, pub_created_at = 1\<rparr>],
      next_user_id = 3, next_pub_id = 3, clock = 5, db_up = True\<rparr>"


subsection \<open>Properties of the repository methods\<close>

lemma unat_minus_one_pos: "(0 :: uint64) < x \<Longrightarrow> unat (x - 1) = unat x - 1"
  by (simp add: unat_minus_one)

lemma pubs_SearchID_missing:
  "pid \<notin> pub_id ` set (pubs_tbl st) \<Longrightarrow> pubs_SearchID pid st = zero_publication"
proof -
  assume "pid \<notin> pub_id ` set (pubs_tbl st)"
  then have "filter (\<lambda>p. pub_id p = pid) (pubs_with_author st) = []"
    by (auto simp: pubs_with_author_def filter_empty_conv)
  then show ?thesis by (simp add: pubs_SearchID_def)
qed

lemma user_id_row_public [simp]: "user_id \<circ> user_row_public = user_id"
  by (simp add: fun_eq_iff user_row_public_def)

lemma SearchFollowers_rows:
  "map user_id (concat (map (\<lambda>(a, b). map user_row_public (filter (\<lambda>u. user_id u = b) us))
                            (filter (\<lambda>(a, b). b = uid) (fs :: (uint64 \<times> uint64) list)))) =
     replicate (length (filter (\<lambda>(a, b). b = uid) fs) * length (filter (\<lambda>u. user_id u = uid) us)) uid"
  by (induction fs) (auto simp: map_filter_eq_const [of user_id] replicate_add [symmetric])

lemma pubs_Like_Inr:
  "pubs_Like pid st = Inr st' \<longleftrightarrow>
     (\<forall>r \<in> set (pubs_tbl st). pub_id r = pid \<longrightarrow> likes r \<noteq> - 1) \<and>
     st' = st\<lparr>pubs_tbl := map (\<lambda>r. if pub_id r = pid then r\<lparr>likes := likes r + 1\<rparr> else r) (pubs_tbl st)\<rparr>"
  by (auto simp: pubs_Like_def)

lemma users_Create_stored:
  "users_Create u st = Inr (uid, st') \<Longrightarrow>
   users_tbl st' = users_tbl st @ [\<lparr>user_id = uid, name = name u, nick = nick u, email = email u,
                                   password = password u, created_at = clock st\<rparr>]"
  by (auto simp: users_Create_def Let_def split: if_splits)

text \<open>The reads that return users select no password column.\<close>

lemma public_rows_no_password:
  "list_all (\<lambda>u. password u = []) (users_Search q st)"
  "password (users_SearchID uid st) = []"
  "list_all (\<lambda>u. password u = []) (users_SearchFollowers uid st)"
  "list_all (\<lambda>u. password u = []) (users_SearchFollowing uid st)"
  by (auto simp: repo_simps user_row_public_def zero_user_def list_all_iff Let_def split: option.split)

text \<open>Undoing a write: unfollowing removes the pair following added, disliking the like.\<close>

lemma users_Unfollow_Follow:
  "(uid, fid) \<notin> set (followers_tbl st) \<Longrightarrow> users_Unfollow uid fid (users_Follow uid fid st) = st"
proof -
  assume a: "(uid, fid) \<notin> set (followers_tbl st)"
  then have "filter (\<lambda>r. r \<noteq> (uid, fid)) (followers_tbl st) = followers_tbl st"
    by (auto simp: filter_id_conv)
  then show ?thesis using a by (simp add: users_Follow_def users_Unfollow_def)
qed

lemma pubs_Dislike_Like:
  assumes "pubs_Like pid st = Inr st'"
  shows "pubs_Dislike pid st' = st"
proof -
  from assms have nw: "\<forall>r \<in> set (pubs_tbl st). pub_id r = pid \<longrightarrow> likes r \<noteq> - 1"
    and st': "st' = st\<lparr>pubs_tbl := map (\<lambda>r. if pub_id r = pid then r\<lparr>likes := likes r + 1\<rparr> else r) (pubs_tbl st)\<rparr>"
    by (simp_all add: pubs_Like_Inr)
  have "map (\<lambda>r. if pub_id r = pid then r\<lparr>likes := (if likes r > 0 then likes r - 1 else 0)\<rparr> else r)
          (map (\<lambda>r. if pub_id r = pid then r\<lparr>likes := likes r + 1\<rparr> else r) (pubs_tbl st)) = pubs_tbl st"
    unfolding map_map
  proof (rule map_idI)
    fix r assume "r \<in> set (pubs_tbl st)"
    with nw have "pub_id r = pid \<Longrightarrow> 0 < likes r + 1" by (simp add: word_gt_0 eq_neg_iff_add_eq_0)
    then show "((\<lambda>r. if pub_id r = pid then r\<lparr>likes := (if likes r > 0 then likes r - 1 else 0)\<rparr> else r) \<circ>
               (\<lambda>r. if pub_id r = pid then r\<lparr>likes := likes r + 1\<rparr> else r)) r = r"
      by simp
  qed
  with st' show ?thesis by (simp add: pubs_Dislike_def)
qed

text \<open>
  C38. \<open>LikePublication\<close> adds exactly one to the likes of the publication with
  the given id and changes no other count; since it fails at the maximum,
  the count never wraps around to 0.
\<close>

theorem pubs_Like_increments:
  assumes "pubs_Like pid st = Inr st'"
  shows "map (\<lambda>r. unat (likes r)) (pubs_tbl st') =
           map (\<lambda>r. if pub_id r = pid then unat (likes r) + 1 else unat (likes r)) (pubs_tbl st)"
proof -
  have nomax: "\<forall>r \<in> set (pubs_tbl st). pub_id r = pid \<longrightarrow> likes r \<noteq> - 1"
    and st': "st' = st\<lparr>pubs_tbl := map (\<lambda>r. if pub_id r = pid then r\<lparr>likes := likes r + 1\<rparr> else r) (pubs_tbl st)\<rparr>"
    using assms by (simp_all add: pubs_Like_Inr)
  then show ?thesis by (auto simp: unat_plus_one_no_wrap)
qed

theorem pubs_Like_increments_witness:
  "pubs_Like 2 example_db = Inr (projr (pubs_Like 2 example_db)) \<and>
   map (\<lambda>r. unat (likes r)) (pubs_tbl (projr (pubs_Like 2 example_db))) =
     map (\<lambda>r. if pub_id r = 2 then unat (likes r) + 1 else unat (likes r)) (pubs_tbl example_db)"
proof -
  have ok: "pubs_Like 2 example_db = Inr (projr (pubs_Like 2 example_db))"
    by (simp add: pubs_Like_def example_db_def)
  show ?thesis using pubs_Like_increments [OF ok] ok by simp
qed

text \<open>
  C40. \<open>DislikePublication\<close> takes one from the likes of the publication with
  the given id, saturating at 0 (the \<open>case when likes > 0\<close> of its
  statement), and changes no other count.
\<close>

theorem pubs_Dislike_saturates:
  "map (\<lambda>r. unat (likes r)) (pubs_tbl (pubs_Dislike pid st)) =
     map (\<lambda>r. if pub_id r = pid then unat (likes r) - 1 else unat (likes r)) (pubs_tbl st)"
  by (auto simp: pubs_Dislike_def unat_minus_one_pos word_gt_0)

lemma length_take1_remdups: "length (take 1 (remdups xs)) = (if xs = [] then 0 else 1)"
  by (cases "remdups xs") auto

text \<open>
  C37. The feed (\<open>Publications.Search\<close>) returns only publications of the
  join \<open>publications \<bowtie> followers\<close> on the author that pass the filter
  \<open>p.id = ? or s.follower_id = ?\<close>, and exactly one of them when there is one:
  its loop is \<open>if rows.Next()\<close>, not \<open>for rows.Next()\<close>.  The filter
  compares the publication's id with the user's id, so a user's own
  publications are in the feed only by coincidence of ids.
\<close>

theorem pubs_Search_feed:
  "set (pubs_Search uid st) \<subseteq>
     {p \<in> set (pubs_with_author st). \<exists>(a, b) \<in> set (followers_tbl st). author_id p = a \<and> (pub_id p = uid \<or> b = uid)} \<and>
   length (pubs_Search uid st) =
     (if \<exists>p \<in> set (pubs_with_author st). \<exists>(a, b) \<in> set (followers_tbl st). author_id p = a \<and> (pub_id p = uid \<or> b = uid)
      then 1 else 0)"
proof -
  let ?ys = "concat (map (\<lambda>p. map (\<lambda>s. p)
               (filter (\<lambda>(a, b). author_id p = a \<and> (pub_id p = uid \<or> b = uid)) (followers_tbl st)))
             (pubs_with_author st))"
  have ys: "set ?ys =
     {p \<in> set (pubs_with_author st). \<exists>(a, b) \<in> set (followers_tbl st). author_id p = a \<and> (pub_id p = uid \<or> b = uid)}"
    by (auto simp: split_def)
  have r: "pubs_Search uid st = take 1 (remdups ?ys)" by (simp add: pubs_Search_def first_row_def)
  have "set (take 1 (remdups ?ys)) \<subseteq> set ?ys" using set_take_subset [of 1 "remdups ?ys"] by simp
  moreover have "length (take 1 (remdups ?ys)) = (if set ?ys = {} then 0 else 1)"
    by (simp only: length_take1_remdups set_empty)
  ultimately show ?thesis using ys r by auto
qed

text \<open>
  In \<open>example_db\<close> user 2 follows user 1 and sees one publication; user 1
  follows nobody and sees none, not even publication 2, which user 1 wrote.
\<close>

theorem pubs_Search_feed_witness:
  "length (pubs_Search 2 example_db) = 1 \<and> length (pubs_Search 1 example_db) = 0"
  using pubs_Search_feed [of 2 example_db] pubs_Search_feed [of 1 example_db]
  by (simp add: pubs_with_author_def example_db_def)

text \<open>
  C36. \<open>SearchFollowers\<close> joins on the follower column and filters on it too:
  for a user id it lists that same user (once per row of \<open>users\<close> with the
  id, times the number of accounts the user follows), never the user's followers.
\<close>

theorem users_SearchFollowers_self:
  "map user_id (users_SearchFollowers uid st) =
     replicate (length (filter (\<lambda>(a, b). b = uid) (followers_tbl st)) *
                length (filter (\<lambda>u. user_id u = uid) (users_tbl st))) uid"
  by (simp add: users_SearchFollowers_def SearchFollowers_rows)

lemma ci_eq_refl [simp]: "ci_eq s s"
  by (simp add: ci_eq_def)

subsection \<open>\<open>LIKE\<close> as substring search\<close>

lemma like_match_any: "like_match [CHR ''%''] x"
  by (induction x) auto

lemma like_match_percent:
  "like_match (CHR ''%'' # ps) x \<longleftrightarrow> (\<exists>a b. x = a @ b \<and> like_match ps b)"
proof (induction x)
  case Nil then show ?case by simp
next
  case (Cons y ys)
  have "like_match (CHR ''%'' # ps) (y # ys) \<longleftrightarrow> like_match ps (y # ys) \<or> like_match (CHR ''%'' # ps) ys"
    by simp
  also have "\<dots> \<longleftrightarrow> (\<exists>a b. y # ys = a @ b \<and> like_match ps b)"
    using Cons.IH by (auto simp: Cons_eq_append_conv)
  finally show ?case .
qed

lemma like_match_literal:
  "no_wildcards s \<Longrightarrow>
   like_match (s @ ps) x \<longleftrightarrow> (\<exists>a b. x = a @ b \<and> ToLower a = ToLower s \<and> like_match ps b)"
proof (induction s arbitrary: x)
  case Nil then show ?case by (simp add: ToLower_def)
next
  case (Cons c s)
  then have c: "c \<noteq> CHR ''%''" "c \<noteq> CHR ''_''" "c \<noteq> CHR 0x5C" and s: "no_wildcards s"
    by (simp_all add: no_wildcards_def)
  show ?case
  proof (cases x)
    case Nil then show ?thesis using c by (simp add: ToLower_def)
  next
    case (Cons y ys)
    have "like_match ((c # s) @ ps) x \<longleftrightarrow> lower_char y = lower_char c \<and> like_match (s @ ps) ys"
      using c Cons by simp
    also have "\<dots> \<longleftrightarrow> (\<exists>a b. x = a @ b \<and> ToLower a = ToLower (c # s) \<and> like_match ps b)"
      using Cons.IH [OF s, of ys] \<open>x = y # ys\<close>
      by (auto simp: ToLower_def Cons_eq_append_conv map_eq_Cons_conv)
    finally show ?thesis .
  qed
qed

lemma like_match_contains:
  assumes "no_wildcards q"
  shows "like_match (CHR ''%'' # q @ ''%'') x \<longleftrightarrow> sublist (ToLower q) (ToLower x)"
proof -
  have "like_match (CHR ''%'' # q @ ''%'') x \<longleftrightarrow> (\<exists>a b. x = a @ b \<and> like_match (q @ ''%'') b)"
    by (rule like_match_percent)
  also have "\<dots> \<longleftrightarrow> (\<exists>a b. x = a @ b \<and> (\<exists>c d. b = c @ d \<and> ToLower c = ToLower q))"
    by (simp only: like_match_literal [OF assms] like_match_any simp_thms)
  also have "\<dots> \<longleftrightarrow> sublist (ToLower q) (ToLower x)"
  proof
    assume "\<exists>a b. x = a @ b \<and> (\<exists>c d. b = c @ d \<and> ToLower c = ToLower q)"
    then obtain a c d where "x = a @ c @ d" "ToLower c = ToLower q" by blast
    then show "sublist (ToLower q) (ToLower x)" by (auto simp: sublist_def ToLower_def)
  next
    assume "sublist (ToLower q) (ToLower x)"
    then obtain ps ss where "map lower_char x = ps @ map lower_char q @ ss"
      by (auto simp: sublist_def ToLower_def)
    then obtain a y where "x = a @ y" "map lower_char y = map lower_char q @ ss"
      by (fastforce simp: map_eq_append_conv append_eq_map_conv)
    moreover from this(2) obtain c d where "y = c @ d" "map lower_char c = map lower_char q"
      by (fastforce simp: map_eq_append_conv append_eq_map_conv)
    ultimately show "\<exists>a b. x = a @ b \<and> (\<exists>c d. b = c @ d \<and> ToLower c = ToLower q)"
      by (auto simp: ToLower_def)
  qed
  finally show ?thesis .
qed

text \<open>
  C25. \<open>Users.Search\<close> is a case-insensitive substring search: for a search
  string without \<open>LIKE\<close> wildcards, the pattern \<open>%q%\<close> selects exactly the
  users whose name or nick contains \<open>q\<close>, ignoring ASCII case, as the
  reference \<open>sublist\<close> of HOL-Library says.
\<close>

theorem users_Search_substring:
  assumes "no_wildcards q"
  shows "users_Search q st =
           map user_row_public
             (filter (\<lambda>u. sublist (ToLower q) (ToLower (name u)) \<or> sublist (ToLower q) (ToLower (nick u)))
                (users_tbl st))"
  using like_match_contains [OF assms] by (simp add: users_Search_def)

theorem users_Search_substring_witness:
  "no_wildcards ''an'' \<and>
   users_Search ''an'' example_db =
     map user_row_public
       (filter (\<lambda>u. sublist (ToLower ''an'') (ToLower (name u)) \<or> sublist (ToLower ''an'') (ToLower (nick u)))
          (users_tbl example_db))"
proof -
  have w: "no_wildcards ''an''" by (simp add: no_wildcards_def)
  show ?thesis by (rule conjI [OF w users_Search_substring [OF w]])
qed

text \<open>
  \<open>SearchFollowing\<close> lists the accounts a user follows: the users
  whose id is the \<open>user_id\<close> of a \<open>followers\<close> row with the given
  \<open>follower_id\<close>, with the password column left out.
\<close>

lemma users_SearchFollowing_set:
  "set (users_SearchFollowing uid st) =
     user_row_public ` {u \<in> set (users_tbl st). (user_id u, uid) \<in> set (followers_tbl st)}"
  by (auto simp: users_SearchFollowing_def)

end
