(* ===== verification/Http.thy ===== *)
theory Http
  imports Token Repositories
begin

text \<open>
  What the handlers of src/src/controllers share: the request (method, path,
  the path variables that gorilla/mux stores for \<open>mux.Vars\<close>, the query,
  the \<open>Authorization\<close> header, the body, and the two inputs from the
  environment a handler reads, the clock and the random bytes for bcrypt
  salts), the response written through package \<open>answers\<close> (not under src/:
  \<open>answers.Err\<close> writes a status and the error, \<open>answers.JSON\<close> a status and
  a value), the configuration (token service, bcrypt cipher, e-mail check),
  and the steps every handler repeats: reading a path parameter with
  \<open>strconv.ParseUint\<close>, reading the caller's id from the token, reading and
  decoding the body, connecting to the database. A handler maps a request and
  a store to a response and a store. A JSON body is modelled by its
  string-valued members; a member that occurs twice counts with its last
  value, as in \<open>encoding/json\<close>.
\<close>

datatype body = BodyReadError | BodyNotJSON | BodyJSON "(string \<times> string) list"

record request =
  req_method :: string
  req_path :: string
  vars :: "(string \<times> string) list"
  query :: "(string \<times> string) list"
  authorization :: string
  body :: body
  now :: nat
  rnd :: "nat list"

datatype api_error =
    EParam num_error
  | EToken token_error
  | EMessage string
  | EBodyRead
  | EJSON
  | EModel model_error
  | EStorage sql_error
  | EPassword bcrypt_error

datatype payload =
    NoBody
  | ErrBody api_error
  | UserBody user
  | UsersBody "user list"
  | PubBody publication
  | PubsBody "publication list"
  | RawBody string

record response =
  status :: nat
  payload :: payload

record app_config =
  tok_cfg :: token_config
  eks :: eks_cipher
  valid_email :: "string \<Rightarrow> bool"

type_synonym handler = "request \<Rightarrow> db \<Rightarrow> response \<times> db"

definition answer_Err :: "nat \<Rightarrow> api_error \<Rightarrow> response" where
  "answer_Err st e = \<lparr>status = st, payload = ErrBody e\<rparr>"

definition answer_JSON :: "nat \<Rightarrow> payload \<Rightarrow> response" where
  "answer_JSON st v = \<lparr>status = st, payload = v\<rparr>"

definition lookup_last :: "(string \<times> string) list \<Rightarrow> string \<Rightarrow> string" where
  "lookup_last kvs k = (case map_of (rev kvs) k of None \<Rightarrow> [] | Some v \<Rightarrow> v)"

definition mux_var :: "request \<Rightarrow> string \<Rightarrow> string" where
  "mux_var r k = (case map_of (vars r) k of None \<Rightarrow> [] | Some v \<Rightarrow> v)"

definition query_get :: "request \<Rightarrow> string \<Rightarrow> string" where
  "query_get r k = (case map_of (query r) k of None \<Rightarrow> [] | Some v \<Rightarrow> v)"

definition unmarshal_user :: "(string \<times> string) list \<Rightarrow> user" where
  "unmarshal_user fs =
     zero_user\<lparr>name := lookup_last fs ''name'', nick := lookup_last fs ''nick'',
               email := lookup_last fs ''email'', password := lookup_last fs ''password''\<rparr>"

definition unmarshal_publication :: "(string \<times> string) list \<Rightarrow> publication" where
  "unmarshal_publication fs =
     zero_publication\<lparr>title := lookup_last fs ''title'', content := lookup_last fs ''content''\<rparr>"

definition unmarshal_password :: "(string \<times> string) list \<Rightarrow> password_change" where
  "unmarshal_password fs = \<lparr>pw_new = lookup_last fs ''new'', pw_current = lookup_last fs ''current''\<rparr>"

subsection \<open>The steps the handlers repeat\<close>

text \<open>
  \<open>then_do r st k\<close> is Go's \<open>x, err := ...; if err != nil { answers.Err(...);
  return }\<close>: an error response ends the handler with the store unchanged.
\<close>

definition then_do :: "response + 'a \<Rightarrow> db \<Rightarrow> ('a \<Rightarrow> response \<times> db) \<Rightarrow> response \<times> db" where
  "then_do x st k = (case x of Inl resp \<Rightarrow> (resp, st) | Inr v \<Rightarrow> k v)"

definition parse_param :: "request \<Rightarrow> string \<Rightarrow> response + uint64" where
  "parse_param r k =
     (case ParseUint64 (mux_var r k) of
        Inl e \<Rightarrow> Inl (answer_Err StatusBadRequest (EParam e))
      | Inr v \<Rightarrow> Inr v)"

definition token_user :: "app_config \<Rightarrow> request \<Rightarrow> response + uint64" where
  "token_user cfg r =
     (case ExtractUserID (tok_cfg cfg) (now r) (authorization r) of
        Inl e \<Rightarrow> Inl (answer_Err StatusUnauthorized (EToken e))
      | Inr v \<Rightarrow> Inr v)"

definition read_body :: "request \<Rightarrow> response + (string \<times> string) list" where
  "read_body r =
     (case body r of
        BodyReadError \<Rightarrow> Inl (answer_Err StatusUnprocessableEntity EBodyRead)
      | BodyNotJSON \<Rightarrow> Inl (answer_Err StatusBadRequest EJSON)
      | BodyJSON fs \<Rightarrow> Inr fs)"

definition db_connect :: "db \<Rightarrow> response + unit" where
  "db_connect st =
     (case Connect st of
        Inl e \<Rightarrow> Inl (answer_Err StatusInternalServerError (EStorage e))
      | Inr u \<Rightarrow> Inr u)"

text \<open>
  The password strings a response's JSON carries: \<open>models.User\<close> tags its
  \<open>Password\<close> field \<open>json:"password,omitempty"\<close>, so a user value in a
  payload shows its password whenever it is not empty.
\<close>

definition payload_passwords :: "payload \<Rightarrow> string list" where
  "payload_passwords p = (case p of UserBody u \<Rightarrow> [password u] | UsersBody us \<Rightarrow> map password us | _ \<Rightarrow> [])"

definition no_password :: "response \<Rightarrow> bool" where
  "no_password resp \<longleftrightarrow> list_all (\<lambda>p. p = []) (payload_passwords (payload resp))"

subsection \<open>Examples for the witnesses\<close>

definition example_app_config :: app_config where
  "example_app_config = \<lparr>tok_cfg = example_token_config, eks = example_eks, valid_email = example_valid_email\<rparr>"

text \<open>A request from user 1, whose token was issued at time 0 and is read at time 10.\<close>

definition example_req :: "(string \<times> string) list \<Rightarrow> body \<Rightarrow> request" where
  "example_req vs b =
     \<lparr>req_method = [], req_path = [], vars = vs, query = [],
      authorization = bearer (CreateToken example_token_config 0 1), body = b, now = 10, rnd = example_rnd\<rparr>"

subsection \<open>Lemmas on the steps\<close>

lemma then_do_Inl [simp]: "then_do (Inl resp) st k = (resp, st)"
  by (simp add: then_do_def)

lemma then_do_Inr [simp]: "then_do (Inr v) st k = k v"
  by (simp add: then_do_def)

lemma then_do_changed:
  "then_do x st k = (resp, st') \<Longrightarrow> st' \<noteq> st \<Longrightarrow> \<exists>v. x = Inr v \<and> k v = (resp, st')"
  by (cases x) auto

lemma token_user_Inr [simp]:
  "token_user cfg r = Inr v \<longleftrightarrow> ExtractUserID (tok_cfg cfg) (now r) (authorization r) = Inr v"
  by (simp add: token_user_def split: sum.splits)

lemma parse_param_Inr [simp]:
  "parse_param r k = Inr v \<longleftrightarrow> ParseUint64 (mux_var r k) = Inr v"
  by (simp add: parse_param_def split: sum.splits)

lemma db_connect_Inr [simp]: "db_connect st = Inr u \<longleftrightarrow> db_up st"
  by (simp add: db_connect_def Connect_def)

lemma db_connect_up [simp]: "db_up st \<Longrightarrow> db_connect st = Inr ()"
  by (simp add: db_connect_def Connect_def)

lemma db_connect_down: "\<not> db_up st \<Longrightarrow> db_connect st = Inl (answer_Err StatusInternalServerError (EStorage ErrConnect))"
  by (simp add: db_connect_def Connect_def)


text \<open>
  The shape shared by the handlers that check ownership: a path id, the
  caller's id from the token, a refusal when they differ. Whatever such a
  handler writes, it writes for a caller whose token names the path id.
\<close>

lemma owner_guard_changed:
  assumes "then_do (parse_param r k) st (\<lambda>p. then_do (token_user cfg r) st (\<lambda>t.
             if p \<noteq> t then (resp0, st) else K p)) = (resp, st')"
    and "st' \<noteq> st"
  shows "\<exists>p. ParseUint64 (mux_var r k) = Inr p \<and>
             ExtractUserID (tok_cfg cfg) (now r) (authorization r) = Inr p \<and> K p = (resp, st')"
  using assms by (auto simp: then_do_def split: sum.splits if_splits)

lemma owner_guard_forbidden:
  assumes "ParseUint64 (mux_var r k) = Inr p" and "ExtractUserID (tok_cfg cfg) (now r) (authorization r) = Inr t"
    and "p \<noteq> t"
  shows "then_do (parse_param r k) st (\<lambda>p. then_do (token_user cfg r) st (\<lambda>t.
             if p \<noteq> t then (resp0, st) else K p)) = (resp0, st)"
  using assms by (simp add: parse_param_def token_user_def)

text \<open>
  Rules that carry a property of the store through the shape every handler
  has (early returns, branches on the request and on results), one rule per
  construct; instantiated with a fixed property they make a preservation
  proof a single \<open>intro\<close> followed by the repository lemmas.
\<close>

lemma then_do_inv: "P st \<Longrightarrow> (\<And>v. x = Inr v \<Longrightarrow> P (snd (k v))) \<Longrightarrow> P (snd (then_do x st k))"
  by (cases x) auto

lemma if_inv: "(b \<Longrightarrow> P (snd x)) \<Longrightarrow> (\<not> b \<Longrightarrow> P (snd y)) \<Longrightarrow> P (snd (if b then x else y))"
  by simp

lemma sum_inv:
  "(\<And>e. s = Inl e \<Longrightarrow> P (snd (f e))) \<Longrightarrow> (\<And>u. s = Inr u \<Longrightarrow> P (snd (g u))) \<Longrightarrow>
   P (snd (case s of Inl e \<Rightarrow> f e | Inr u \<Rightarrow> g u))"
  by (cases s) auto

lemma prod_inv: "(\<And>a b. x = (a, b) \<Longrightarrow> P (snd (g a b))) \<Longrightarrow> P (snd (case x of (a, b) \<Rightarrow> g a b))"
  by (cases x) auto

lemma option_inv:
  "(s = None \<Longrightarrow> P (snd y)) \<Longrightarrow> (\<And>u. s = Some u \<Longrightarrow> P (snd (g u))) \<Longrightarrow>
   P (snd (case s of None \<Rightarrow> y | Some u \<Rightarrow> g u))"
  by (cases s) auto

lemma body_inv:
  "(s = BodyReadError \<Longrightarrow> P (snd a)) \<Longrightarrow> (s = BodyNotJSON \<Longrightarrow> P (snd b)) \<Longrightarrow>
   (\<And>fs. s = BodyJSON fs \<Longrightarrow> P (snd (g fs))) \<Longrightarrow>
   P (snd (case s of BodyReadError \<Rightarrow> a | BodyNotJSON \<Rightarrow> b | BodyJSON fs \<Rightarrow> g fs))"
  by (cases s) auto

lemmas handler_inv = then_do_inv if_inv sum_inv prod_inv option_inv body_inv

text \<open>
  The same rules for a property of the response: an early return answers
  with the error response of the failed step.
\<close>

lemma then_do_resp: "(\<And>e. x = Inl e \<Longrightarrow> Q e) \<Longrightarrow> (\<And>v. x = Inr v \<Longrightarrow> Q (fst (k v))) \<Longrightarrow> Q (fst (then_do x st k))"
  by (cases x) auto

lemma if_resp: "(b \<Longrightarrow> Q (fst x)) \<Longrightarrow> (\<not> b \<Longrightarrow> Q (fst y)) \<Longrightarrow> Q (fst (if b then x else y))"
  by simp

lemma sum_resp:
  "(\<And>e. s = Inl e \<Longrightarrow> Q (fst (f e))) \<Longrightarrow> (\<And>u. s = Inr u \<Longrightarrow> Q (fst (g u))) \<Longrightarrow>
   Q (fst (case s of Inl e \<Rightarrow> f e | Inr u \<Rightarrow> g u))"
  by (cases s) auto

lemma prod_resp: "(\<And>a b. x = (a, b) \<Longrightarrow> Q (fst (g a b))) \<Longrightarrow> Q (fst (case x of (a, b) \<Rightarrow> g a b))"
  by (cases x) auto

lemma option_resp:
  "(s = None \<Longrightarrow> Q (fst y)) \<Longrightarrow> (\<And>u. s = Some u \<Longrightarrow> Q (fst (g u))) \<Longrightarrow>
   Q (fst (case s of None \<Rightarrow> y | Some u \<Rightarrow> g u))"
  by (cases s) auto

lemma body_resp:
  "(s = BodyReadError \<Longrightarrow> Q (fst a)) \<Longrightarrow> (s = BodyNotJSON \<Longrightarrow> Q (fst b)) \<Longrightarrow>
   (\<And>fs. s = BodyJSON fs \<Longrightarrow> Q (fst (g fs))) \<Longrightarrow>
   Q (fst (case s of BodyReadError \<Rightarrow> a | BodyNotJSON \<Rightarrow> b | BodyJSON fs \<Rightarrow> g fs))"
  by (cases s) auto

lemmas handler_resp = then_do_resp if_resp sum_resp prod_resp option_resp body_resp

lemma step_Inl_answer_Err:
  "parse_param r k = Inl e \<Longrightarrow> \<exists>s a. e = answer_Err s a"
  "token_user cfg r = Inl e \<Longrightarrow> \<exists>s a. e = answer_Err s a"
  "read_body r = Inl e \<Longrightarrow> \<exists>s a. e = answer_Err s a"
  "db_connect st = Inl e \<Longrightarrow> \<exists>s a. e = answer_Err s a"
  by (auto simp: parse_param_def token_user_def read_body_def db_connect_def split: sum.splits body.splits)

lemma no_password_answers [simp]:
  "no_password (answer_Err s a)" "no_password (answer_JSON s NoBody)"
  "no_password (answer_JSON s (RawBody t))" "no_password (answer_JSON s (PubBody p))"
  "no_password \<lparr>status = s, payload = RawBody t\<rparr>"
  "no_password (answer_JSON s (PubsBody ps))"
  "no_password (answer_JSON s (UsersBody us)) \<longleftrightarrow> list_all (\<lambda>u. password u = []) us"
  "no_password (answer_JSON s (UserBody u)) \<longleftrightarrow> password u = []"
  by (simp_all add: no_password_def payload_passwords_def answer_Err_def answer_JSON_def list_all_iff)

lemma example_req_fields [simp]:
  "vars (example_req vs b) = vs" "body (example_req vs b) = b"
  "now (example_req vs b) = 10" "rnd (example_req vs b) = example_rnd"
  by (simp_all add: example_req_def)

lemma example_req_user:
  "ExtractUserID (tok_cfg example_app_config) (now (example_req vs b)) (authorization (example_req vs b)) = Inr 1"
  using ExtractUserID_CreateToken [OF example_token_config_wf, of 10 0 1]
  by (simp add: example_app_config_def example_req_def example_token_config_def)

lemma ParseUint64_small:
  "ParseUint64 ''1'' = Inr 1" "ParseUint64 ''2'' = Inr 2" "ParseUint64 ''3'' = Inr 3"
  by (simp_all add: go_simps)

end
