(* ===== verification/Middlewares.thy ===== *)
theory Middlewares
  imports Http
begin

text \<open>
  Package \<open>middlewares\<close> is imported by src/src/router/routers/router.go
  but is not under src/; it is modelled from the specification (section 4.3).
  \<open>Logger next\<close> records the start and the end of every call and returns
  what \<open>next\<close> returns; \<open>Authenticate next\<close> validates the token of the
  \<open>Authorization\<close> header and, when that fails, answers 401 without calling
  \<open>next\<close>. The server's state is the store together with the log, so that a
  served handler maps a request and a server state to a response and a
  server state; the inner handlers see the store only.
\<close>

datatype log_entry =
    LogStart string string
  | LogEnd string string nat

record server =
  store :: db
  log :: "log_entry list"

type_synonym served = "request \<Rightarrow> server \<Rightarrow> response \<times> server"

definition Authenticate :: "app_config \<Rightarrow> handler \<Rightarrow> handler" where
  "Authenticate cfg next r st =
     (case ValidateToken (tok_cfg cfg) (now r) (authorization r) of
        Inl e \<Rightarrow> (answer_Err StatusUnauthorized (EToken e), st)
      | Inr _ \<Rightarrow> next r st)"

definition Logger :: "handler \<Rightarrow> served" where
  "Logger next r sv =
     (let (resp, st') = next r (store sv)
      in (resp, \<lparr>store = st',
                 log = log sv @ [LogStart (req_method r) (req_path r),
                                 LogEnd (req_method r) (req_path r) (status resp)]\<rparr>))"

subsection \<open>Lemmas on the two wrappers\<close>

lemma ValidateToken_Inr_iff:
  "(\<exists>u. ValidateToken cfg t hdr = Inr u) \<longleftrightarrow> (\<exists>uid. ExtractUserID cfg t hdr = Inr uid)"
  by (simp add: ValidateToken_def ExtractUserID_def split: sum.splits)

lemma Authenticate_refused:
  "ValidateToken (tok_cfg cfg) (now r) (authorization r) = Inl e \<Longrightarrow>
   Authenticate cfg next r st = (answer_Err StatusUnauthorized (EToken e), st)"
  by (simp add: Authenticate_def)

lemma Authenticate_passed:
  "ValidateToken (tok_cfg cfg) (now r) (authorization r) = Inr u \<Longrightarrow> Authenticate cfg next r st = next r st"
  by (simp add: Authenticate_def)

lemma Authenticate_changed:
  "Authenticate cfg next r st = (resp, st') \<Longrightarrow> st' \<noteq> st \<Longrightarrow>
   (\<exists>uid. ExtractUserID (tok_cfg cfg) (now r) (authorization r) = Inr uid) \<and> next r st = (resp, st')"
  using ValidateToken_Inr_iff [of "tok_cfg cfg" "now r" "authorization r"]
  by (cases "ValidateToken (tok_cfg cfg) (now r) (authorization r)") (auto simp: Authenticate_def)

lemma Logger_result:
  "Logger next r sv =
     (fst (next r (store sv)),
      \<lparr>store = snd (next r (store sv)),
       log = log sv @ [LogStart (req_method r) (req_path r),
                       LogEnd (req_method r) (req_path r) (status (fst (next r (store sv))))]\<rparr>)"
  by (simp add: Logger_def split: prod.splits)

end
