(* ===== verification/UsersController.thy ===== *)
theory UsersController
  imports Http
begin

text \<open>
  The handlers of src/src/controllers/users.go, one definition each, with
  Go's early returns in the source's order: every \<open>if err != nil\<close> and every
  ownership or self-reference check is a branch that answers and leaves the
  store unchanged.
\<close>

definition CreateUser :: "app_config \<Rightarrow> handler" where
  "CreateUser cfg r st =
     then_do (read_body r) st (\<lambda>fs.
       (case user_Prepare (valid_email cfg) (eks cfg) (rnd r) ''register'' (unmarshal_user fs) of
          Inl e \<Rightarrow> (answer_Err StatusBadRequest (EModel e), st)
        | Inr u \<Rightarrow>
            then_do (db_connect st) st (\<lambda>_.
              (case users_Create u st of
                 Inl e \<Rightarrow> (answer_Err StatusInternalServerError (EStorage e), st)
               | Inr (uid, st') \<Rightarrow> (answer_JSON StatusCreated (UserBody (u\<lparr>user_id := uid\<rparr>)), st')))))"

definition SearchUsers :: "app_config \<Rightarrow> handler" where
  "SearchUsers cfg r st =
     (let nameOuNick = ToLower (query_get r ''user'') in
      then_do (db_connect st) st (\<lambda>_.
        (answer_JSON StatusOK (UsersBody (users_Search nameOuNick st)), st)))"

definition SearchUser :: "app_config \<Rightarrow> handler" where
  "SearchUser cfg r st =
     then_do (parse_param r ''userId'') st (\<lambda>userID.
       then_do (db_connect st) st (\<lambda>_.
         (answer_JSON StatusOK (UserBody (users_SearchID userID st)), st)))"

definition UpdateUser :: "app_config \<Rightarrow> handler" where
  "UpdateUser cfg r st =
     then_do (parse_param r ''userId'') st (\<lambda>userID.
       then_do (token_user cfg r) st (\<lambda>userIDToken.
         if userID \<noteq> userIDToken
         then (answer_Err StatusForbidden (EMessage ''you cannot change a user other than yours''), st)
         else then_do (read_body r) st (\<lambda>fs.
           (case user_Prepare (valid_email cfg) (eks cfg) (rnd r) ''edit'' (unmarshal_user fs) of
              Inl e \<Rightarrow> (answer_Err StatusBadRequest (EModel e), st)
            | Inr u \<Rightarrow>
                then_do (db_connect st) st (\<lambda>_.
                  (answer_JSON StatusNoContent NoBody, users_Update userID u st))))))"

definition DeleteUser :: "app_config \<Rightarrow> handler" where
  "DeleteUser cfg r st =
     then_do (parse_param r ''userId'') st (\<lambda>userID.
       then_do (token_user cfg r) st (\<lambda>userIDToken.
         if userID \<noteq> userIDToken
         then (answer_Err StatusForbidden (EMessage ''you cannot delete a user other than yours''), st)
         else then_do (db_connect st) st (\<lambda>_.
           (answer_JSON StatusNoContent NoBody, users_Delete userID st))))"

definition FollowUser :: "app_config \<Rightarrow> handler" where
  "FollowUser cfg r st =
     then_do (parse_param r ''userId'') st (\<lambda>userID.
       then_do (token_user cfg r) st (\<lambda>followerID.
         if userID = followerID
         then (answer_Err StatusForbidden (EMessage ''you cannot follow your own username''), st)
         else then_do (db_connect st) st (\<lambda>_.
           (answer_JSON StatusNoContent NoBody, users_Follow userID followerID st))))"

definition UnfollowUser :: "app_config \<Rightarrow> handler" where
  "UnfollowUser cfg r st =
     then_do (parse_param r ''userId'') st (\<lambda>userID.
       then_do (token_user cfg r) st (\<lambda>followerID.
         if userID = followerID
         then (answer_Err StatusForbidden (EMessage ''you can't stop following your own username''), st)
         else then_do (db_connect st) st (\<lambda>_.
           (answer_JSON StatusNoContent NoBody, users_Unfollow userID followerID st))))"

definition SearchFollowers :: "app_config \<Rightarrow> handler" where
  "SearchFollowers cfg r st =
     then_do (parse_param r ''userId'') st (\<lambda>userID.
       then_do (db_connect st) st (\<lambda>_.
         (answer_JSON StatusOK (UsersBody (users_SearchFollowers userID st)), st)))"

definition SearchFollowing :: "app_config \<Rightarrow> handler" where
  "SearchFollowing cfg r st =
     then_do (parse_param r ''userId'') st (\<lambda>userID.
       then_do (db_connect st) st (\<lambda>_.
         (answer_JSON StatusOK (UsersBody (users_SearchFollowing userID st)), st)))"

text \<open>
  \<open>UpdatePassword\<close> ignores the error of \<open>ioutil.ReadAll\<close>: whatever was read
  goes to \<open>json.Unmarshal\<close>, and a body cut off by a read error does not
  decode (400).
\<close>

definition UpdatePassword :: "app_config \<Rightarrow> handler" where
  "UpdatePassword cfg r st =
     then_do (parse_param r ''userId'') st (\<lambda>userID.
       then_do (token_user cfg r) st (\<lambda>userIDToken.
         if userID \<noteq> userIDToken
         then (answer_Err StatusForbidden
                 (EMessage ''you are not allowed to update the password of a user other than yours''), st)
         else (case body r of
                 BodyJSON fs \<Rightarrow>
                   (let pw = unmarshal_password fs in
                    then_do (db_connect st) st (\<lambda>_.
                      (let passwordSavedDatabase = users_SearchPassword userID st in
                       case PasswordCheck (eks cfg) passwordSavedDatabase (pw_current pw) of
                         Inl e \<Rightarrow> (answer_Err StatusUnauthorized
                                   (EMessage ''the new password does not match the current password''), st)
                       | Inr _ \<Rightarrow>
                           (case HashPassword (eks cfg) (rnd r) (pw_new pw) of
                              Inl e \<Rightarrow> (answer_Err StatusBadRequest (EPassword e), st)
                            | Inr passwordWithHash \<Rightarrow>
                                (answer_JSON StatusNoContent NoBody,
                                 users_UpdatePassword userID passwordWithHash st)))))
               | _ \<Rightarrow> (answer_Err StatusBadRequest EJSON, st))))"


declare CreateUser_def [handler_simps]
  SearchUsers_def [handler_simps]
  SearchUser_def [handler_simps]
  UpdateUser_def [handler_simps]
  DeleteUser_def [handler_simps]
  FollowUser_def [handler_simps]
  UnfollowUser_def [handler_simps]
  SearchFollowers_def [handler_simps]
  SearchFollowing_def [handler_simps]
  UpdatePassword_def [handler_simps]

subsection \<open>Ownership guards\<close>

text \<open>
  C26. \<open>UpdateUser\<close> refuses a caller whose token names another user than the
  path's \<open>userId\<close>: the answer is 403 and the store is unchanged.
\<close>

theorem UpdateUser_other_forbidden:
  assumes "ParseUint64 (mux_var r ''userId'') = Inr uid"
    and "ExtractUserID (tok_cfg cfg) (now r) (authorization r) = Inr tid" and "uid \<noteq> tid"
  shows "UpdateUser cfg r st =
           (answer_Err StatusForbidden (EMessage ''you cannot change a user other than yours''), st)"
  unfolding UpdateUser_def by (rule owner_guard_forbidden [OF assms])

theorem UpdateUser_other_forbidden_witness:
  "ParseUint64 (mux_var (example_req [(''userId'', ''2'')] BodyNotJSON) ''userId'') = Inr 2 \<and>
   ExtractUserID (tok_cfg example_app_config) (now (example_req [(''userId'', ''2'')] BodyNotJSON))
     (authorization (example_req [(''userId'', ''2'')] BodyNotJSON)) = Inr 1 \<and> (2::uint64) \<noteq> 1 \<and>
   UpdateUser example_app_config (example_req [(''userId'', ''2'')] BodyNotJSON) example_db =
     (answer_Err StatusForbidden (EMessage ''you cannot change a user other than yours''), example_db)"
proof -
  have p: "ParseUint64 (mux_var (example_req [(''userId'', ''2'')] BodyNotJSON) ''userId'') = Inr 2"
    by (simp add: mux_var_def example_req_def ParseUint64_small)
  have t: "ExtractUserID (tok_cfg example_app_config) (now (example_req [(''userId'', ''2'')] BodyNotJSON))
             (authorization (example_req [(''userId'', ''2'')] BodyNotJSON)) = Inr 1"
    by (rule example_req_user)
  have ne: "(2::uint64) \<noteq> 1" by simp
  show ?thesis using UpdateUser_other_forbidden [OF p t ne] p t ne by blast
qed

text \<open>
  C15. Whatever \<open>UpdateUser\<close> writes, it writes for the caller: if the store
  changes, the token's user is the path's \<open>userId\<close> and the new store is
  that user's row updated.
\<close>

theorem UpdateUser_writes_own:
  assumes "UpdateUser cfg r st = (resp, st')" and "st' \<noteq> st"
  shows "\<exists>uid. ParseUint64 (mux_var r ''userId'') = Inr uid \<and>
               ExtractUserID (tok_cfg cfg) (now r) (authorization r) = Inr uid \<and>
               (\<exists>u. st' = users_Update uid u st)"
proof -
  from owner_guard_changed [OF assms(1) [unfolded UpdateUser_def] assms(2)]
  obtain uid where p: "ParseUint64 (mux_var r ''userId'') = Inr uid"
    and t: "ExtractUserID (tok_cfg cfg) (now r) (authorization r) = Inr uid"
    and k: "then_do (read_body r) st (\<lambda>fs.
           (case user_Prepare (valid_email cfg) (eks cfg) (rnd r) ''edit'' (unmarshal_user fs) of
              Inl e \<Rightarrow> (answer_Err StatusBadRequest (EModel e), st)
            | Inr u \<Rightarrow> then_do (db_connect st) st (\<lambda>_.
                  (answer_JSON StatusNoContent NoBody, users_Update uid u st)))) = (resp, st')"
    by blast
  from k assms(2) have "\<exists>u. st' = users_Update uid u st"
    by (auto simp: then_do_def split: sum.splits)
  with p t show ?thesis by blast
qed

theorem UpdateUser_writes_own_witness:
  "snd (UpdateUser example_app_config
          (example_req [(''userId'', ''1'')] (BodyJSON [(''name'', ''Ann''), (''nick'', ''ann''), (''email'', ''ann@example.org'')]))
          example_db) \<noteq> example_db \<and>
   (\<exists>uid. ParseUint64 (mux_var (example_req [(''userId'', ''1'')]
              (BodyJSON [(''name'', ''Ann''), (''nick'', ''ann''), (''email'', ''ann@example.org'')])) ''userId'') = Inr uid \<and>
          ExtractUserID (tok_cfg example_app_config) 10 (bearer (CreateToken example_token_config 0 1)) = Inr uid \<and>
          (\<exists>u. snd (UpdateUser example_app_config
                  (example_req [(''userId'', ''1'')] (BodyJSON [(''name'', ''Ann''), (''nick'', ''ann''), (''email'', ''ann@example.org'')]))
                  example_db) = users_Update uid u example_db))"
proof -
  let ?fs = "[(''name'', ''Ann''), (''nick'', ''ann''), (''email'', ''ann@example.org'')]"
  let ?r = "example_req [(''userId'', ''1'')] (BodyJSON ?fs)"
  let ?u = "zero_user\<lparr>name := ''Ann'', nick := ''ann'', email := ''ann@example.org''\<rparr>"
  have p: "ParseUint64 (mux_var ?r ''userId'') = Inr 1"
    by (simp add: mux_var_def example_req_def ParseUint64_small)
  have t: "ExtractUserID (tok_cfg example_app_config) (now ?r) (authorization ?r) = Inr 1"
    by (rule example_req_user)
  have prep: "user_Prepare (valid_email example_app_config) (eks example_app_config) (rnd ?r) ''edit''
                (unmarshal_user ?fs) = Inr ?u"
    by (simp add: user_Prepare_edit user_validate_def unmarshal_user_def lookup_last_def zero_user_def
                  example_app_config_def example_valid_email_def go_simps)
  have up: "db_up example_db" by (simp add: example_db_def)
  have run: "UpdateUser example_app_config ?r example_db =
               (answer_JSON StatusNoContent NoBody, users_Update 1 ?u example_db)"
    using p t prep up by (simp add: UpdateUser_def parse_param_def token_user_def read_body_def example_req_def)
  have ne: "users_Update 1 ?u example_db \<noteq> example_db"
  proof
    assume "users_Update 1 ?u example_db = example_db"
    then have "map name (users_tbl (users_Update 1 ?u example_db)) = map name (users_tbl example_db)" by simp
    then show False by (simp add: users_Update_def example_db_def)
  qed
  have "UpdateUser example_app_config ?r example_db = (answer_JSON StatusNoContent NoBody, users_Update 1 ?u example_db)"
    by (rule run)
  from UpdateUser_writes_own [OF this ne] run ne show ?thesis
    by (simp add: example_req_def)
qed

text \<open>
  C27. \<open>DeleteUser\<close> refuses a caller whose token names another user than the
  path's \<open>userId\<close>: the answer is 403 and no row is deleted.
\<close>

theorem DeleteUser_other_forbidden:
  assumes "ParseUint64 (mux_var r ''userId'') = Inr uid"
    and "ExtractUserID (tok_cfg cfg) (now r) (authorization r) = Inr tid" and "uid \<noteq> tid"
  shows "DeleteUser cfg r st =
           (answer_Err StatusForbidden (EMessage ''you cannot delete a user other than yours''), st)"
  unfolding DeleteUser_def by (rule owner_guard_forbidden [OF assms])

theorem DeleteUser_other_forbidden_witness:
  "ParseUint64 (mux_var (example_req [(''userId'', ''2'')] BodyNotJSON) ''userId'') = Inr 2 \<and>
   ExtractUserID (tok_cfg example_app_config) (now (example_req [(''userId'', ''2'')] BodyNotJSON))
     (authorization (example_req [(''userId'', ''2'')] BodyNotJSON)) = Inr 1 \<and> (2::uint64) \<noteq> 1 \<and>
   DeleteUser example_app_config (example_req [(''userId'', ''2'')] BodyNotJSON) example_db =
     (answer_Err StatusForbidden (EMessage ''you cannot delete a user other than yours''), example_db)"
proof -
  have p: "ParseUint64 (mux_var (example_req [(''userId'', ''2'')] BodyNotJSON) ''userId'') = Inr 2"
    by (simp add: mux_var_def example_req_def ParseUint64_small)
  have t: "ExtractUserID (tok_cfg example_app_config) (now (example_req [(''userId'', ''2'')] BodyNotJSON))
             (authorization (example_req [(''userId'', ''2'')] BodyNotJSON)) = Inr 1"
    by (rule example_req_user)
  have ne: "(2::uint64) \<noteq> 1" by simp
  show ?thesis using DeleteUser_other_forbidden [OF p t ne] p t ne by blast
qed

subsection \<open>The self-reference guard of following\<close>

text \<open>
  C28. \<open>FollowUser\<close> refuses a caller who asks to follow the user named by
  their own token: 403, and no row is added to \<open>followers\<close>.
\<close>

theorem FollowUser_self_forbidden:
  assumes "ParseUint64 (mux_var r ''userId'') = Inr uid"
    and "ExtractUserID (tok_cfg cfg) (now r) (authorization r) = Inr uid"
  shows "FollowUser cfg r st =
           (answer_Err StatusForbidden (EMessage ''you cannot follow your own username''), st)"
  using assms by (simp add: FollowUser_def parse_param_def token_user_def)

theorem FollowUser_self_forbidden_witness:
  "ParseUint64 (mux_var (example_req [(''userId'', ''1'')] BodyNotJSON) ''userId'') = Inr 1 \<and>
   ExtractUserID (tok_cfg example_app_config) (now (example_req [(''userId'', ''1'')] BodyNotJSON))
     (authorization (example_req [(''userId'', ''1'')] BodyNotJSON)) = Inr 1 \<and>
   FollowUser example_app_config (example_req [(''userId'', ''1'')] BodyNotJSON) example_db =
     (answer_Err StatusForbidden (EMessage ''you cannot follow your own username''), example_db)"
proof -
  have p: "ParseUint64 (mux_var (example_req [(''userId'', ''1'')] BodyNotJSON) ''userId'') = Inr 1"
    by (simp add: mux_var_def example_req_def ParseUint64_small)
  have t: "ExtractUserID (tok_cfg example_app_config) (now (example_req [(''userId'', ''1'')] BodyNotJSON))
             (authorization (example_req [(''userId'', ''1'')] BodyNotJSON)) = Inr 1"
    by (rule example_req_user)
  show ?thesis using FollowUser_self_forbidden [OF p t] p t by blast
qed

text \<open>
  C17. Every change \<open>FollowUser\<close> makes is the pair (path user, caller) with
  two different ids: the handler never writes a self-follow.
\<close>

theorem FollowUser_writes:
  assumes "FollowUser cfg r st = (resp, st')" and "st' \<noteq> st"
  shows "\<exists>uid fid. ParseUint64 (mux_var r ''userId'') = Inr uid \<and>
            ExtractUserID (tok_cfg cfg) (now r) (authorization r) = Inr fid \<and>
            uid \<noteq> fid \<and> st' = users_Follow uid fid st"
  using assms by (auto simp: FollowUser_def then_do_def split: sum.splits if_splits)

theorem FollowUser_writes_witness:
  "snd (FollowUser example_app_config (example_req [(''userId'', ''2'')] BodyNotJSON) example_db) \<noteq> example_db \<and>
   (\<exists>uid fid. ParseUint64 (mux_var (example_req [(''userId'', ''2'')] BodyNotJSON) ''userId'') = Inr uid \<and>
      ExtractUserID (tok_cfg example_app_config) 10 (bearer (CreateToken example_token_config 0 1)) = Inr fid \<and>
      uid \<noteq> fid \<and>
      snd (FollowUser example_app_config (example_req [(''userId'', ''2'')] BodyNotJSON) example_db) =
        users_Follow uid fid example_db)"
proof -
  let ?r = "example_req [(''userId'', ''2'')] BodyNotJSON"
  have p: "ParseUint64 (mux_var ?r ''userId'') = Inr 2"
    by (simp add: mux_var_def example_req_def ParseUint64_small)
  have t: "ExtractUserID (tok_cfg example_app_config) (now ?r) (authorization ?r) = Inr 1"
    by (rule example_req_user)
  have up: "db_up example_db" by (simp add: example_db_def)
  have run: "FollowUser example_app_config ?r example_db =
               (answer_JSON StatusNoContent NoBody, users_Follow 2 1 example_db)"
    using p t up by (simp add: FollowUser_def parse_param_def token_user_def)
  have ne: "users_Follow 2 1 example_db \<noteq> example_db"
  proof
    assume "users_Follow 2 1 example_db = example_db"
    then have "followers_tbl (users_Follow 2 1 example_db) = followers_tbl example_db" by simp
    then show False by (simp add: users_Follow_def example_db_def)
  qed
  from FollowUser_writes [OF run ne] run ne show ?thesis
    by (simp add: example_req_def)
qed

subsection \<open>Changing a password\<close>

text \<open>
  C20. A password change whose "current" password does not check against the
  stored hash is refused with 401, and the stored hash is unchanged.
\<close>

theorem UpdatePassword_wrong_current:
  assumes "ParseUint64 (mux_var r ''userId'') = Inr uid"
    and "ExtractUserID (tok_cfg cfg) (now r) (authorization r) = Inr uid"
    and "body r = BodyJSON fs" and "db_up st"
    and "PasswordCheck (eks cfg) (users_SearchPassword uid st) (pw_current (unmarshal_password fs)) = Inl e"
  shows "UpdatePassword cfg r st =
           (answer_Err StatusUnauthorized (EMessage ''the new password does not match the current password''), st)"
  using assms by (simp add: UpdatePassword_def parse_param_def token_user_def db_connect_def Connect_def)

theorem UpdatePassword_wrong_current_witness:
  "UpdatePassword example_app_config
     (example_req [(''userId'', ''1'')] (BodyJSON [(''current'', ''wrong''), (''new'', ''n3w'')])) example_db =
   (answer_Err StatusUnauthorized (EMessage ''the new password does not match the current password''), example_db)"
proof (rule UpdatePassword_wrong_current)
  show "ParseUint64 (mux_var (example_req [(''userId'', ''1'')] (BodyJSON [(''current'', ''wrong''), (''new'', ''n3w'')])) ''userId'') = Inr 1"
    by (simp add: mux_var_def example_req_def ParseUint64_small)
  show "ExtractUserID (tok_cfg example_app_config) (now (example_req [(''userId'', ''1'')] (BodyJSON [(''current'', ''wrong''), (''new'', ''n3w'')])))
          (authorization (example_req [(''userId'', ''1'')] (BodyJSON [(''current'', ''wrong''), (''new'', ''n3w'')]))) = Inr 1"
    by (rule example_req_user)
  show "body (example_req [(''userId'', ''1'')] (BodyJSON [(''current'', ''wrong''), (''new'', ''n3w'')])) =
          BodyJSON [(''current'', ''wrong''), (''new'', ''n3w'')]"
    by (simp add: example_req_def)
  show "db_up example_db" by (simp add: example_db_def)
  show "PasswordCheck (eks example_app_config) (users_SearchPassword 1 example_db)
          (pw_current (unmarshal_password [(''current'', ''wrong''), (''new'', ''n3w'')])) = Inl ErrMismatchedHashAndPassword"
    by code_simp
qed

text \<open>
  C31. A password change by the owner with the right current password
  answers 204 and stores exactly the bcrypt hash of the new password.
\<close>

theorem UpdatePassword_success:
  assumes "ParseUint64 (mux_var r ''userId'') = Inr uid"
    and "ExtractUserID (tok_cfg cfg) (now r) (authorization r) = Inr uid"
    and "body r = BodyJSON fs" and "db_up st"
    and "PasswordCheck (eks cfg) (users_SearchPassword uid st) (pw_current (unmarshal_password fs)) = Inr ()"
    and "HashPassword (eks cfg) (rnd r) (pw_new (unmarshal_password fs)) = Inr h"
  shows "UpdatePassword cfg r st = (answer_JSON StatusNoContent NoBody, users_UpdatePassword uid h st)"
  using assms by (simp add: UpdatePassword_def parse_param_def token_user_def db_connect_def Connect_def)

theorem UpdatePassword_success_witness:
  "UpdatePassword example_app_config
     (example_req [(''userId'', ''1'')] (BodyJSON [(''current'', ''ana-pw''), (''new'', ''n3w'')])) example_db =
   (answer_JSON StatusNoContent NoBody,
    users_UpdatePassword 1 (projr (HashPassword example_eks example_rnd ''n3w'')) example_db)"
proof (rule UpdatePassword_success)
  show "ParseUint64 (mux_var (example_req [(''userId'', ''1'')] (BodyJSON [(''current'', ''ana-pw''), (''new'', ''n3w'')])) ''userId'') = Inr 1"
    by (simp add: mux_var_def example_req_def ParseUint64_small)
  show "ExtractUserID (tok_cfg example_app_config) (now (example_req [(''userId'', ''1'')] (BodyJSON [(''current'', ''ana-pw''), (''new'', ''n3w'')])))
          (authorization (example_req [(''userId'', ''1'')] (BodyJSON [(''current'', ''ana-pw''), (''new'', ''n3w'')]))) = Inr 1"
    by (rule example_req_user)
  show "body (example_req [(''userId'', ''1'')] (BodyJSON [(''current'', ''ana-pw''), (''new'', ''n3w'')])) =
          BodyJSON [(''current'', ''ana-pw''), (''new'', ''n3w'')]"
    by (simp add: example_req_def)
  show "db_up example_db" by (simp add: example_db_def)
  show "PasswordCheck (eks example_app_config) (users_SearchPassword 1 example_db)
          (pw_current (unmarshal_password [(''current'', ''ana-pw''), (''new'', ''n3w'')])) = Inr ()"
    by code_simp
  show "HashPassword (eks example_app_config)
          (rnd (example_req [(''userId'', ''1'')] (BodyJSON [(''current'', ''ana-pw''), (''new'', ''n3w'')])))
          (pw_new (unmarshal_password [(''current'', ''ana-pw''), (''new'', ''n3w'')])) =
        Inr (projr (HashPassword example_eks example_rnd ''n3w''))"
    unfolding example_req_fields by code_simp
qed

lemma CreateUser_created:
  assumes "CreateUser cfg r st = (resp, st')" and "status resp = StatusCreated"
  shows "\<exists>fs u uid. body r = BodyJSON fs \<and>
           user_Prepare (valid_email cfg) (eks cfg) (rnd r) ''register'' (unmarshal_user fs) = Inr u \<and>
           users_Create u st = Inr (uid, st') \<and> payload resp = UserBody (u\<lparr>user_id := uid\<rparr>)"
  using assms
  by (auto simp: CreateUser_def read_body_def answer_Err_def answer_JSON_def then_do_def db_connect_def
           split: body.splits sum.splits prod.splits)

text \<open>The only response that carries a password: the 201 answer of \<open>CreateUser\<close>.\<close>

lemma CreateUser_password:
  assumes "CreateUser cfg r st = (resp, st')" and "p \<in> set (payload_passwords (payload resp))" and "p \<noteq> []"
  shows "status resp = StatusCreated \<and> (\<exists>u \<in> set (users_tbl st'). password u = p) \<and>
         (\<exists>fs. body r = BodyJSON fs \<and> HashPassword (eks cfg) (rnd r) (password (unmarshal_user fs)) = Inr p)"
proof -
  have "status (fst (CreateUser cfg r st)) = StatusCreated \<or> no_password (fst (CreateUser cfg r st))"
    unfolding CreateUser_def
    by (intro handler_resp [where Q = "\<lambda>resp. status resp = StatusCreated \<or> no_password resp"])
       (auto dest: step_Inl_answer_Err simp: answer_JSON_def)
  moreover have "\<not> no_password resp" using assms(2,3) by (auto simp: no_password_def list_all_iff)
  ultimately have s: "status resp = StatusCreated" using assms(1) by simp
  obtain fs u uid where b: "body r = BodyJSON fs"
    and prep: "user_Prepare (valid_email cfg) (eks cfg) (rnd r) ''register'' (unmarshal_user fs) = Inr u"
    and cr: "users_Create u st = Inr (uid, st')" and pl: "payload resp = UserBody (u\<lparr>user_id := uid\<rparr>)"
    using CreateUser_created [OF assms(1) s] by blast
  have p: "p = password u" using assms(2) pl by (simp add: payload_passwords_def)
  show ?thesis
    using s b p users_Create_stored [OF cr] user_Prepare_register [OF prep] by auto
qed

text \<open>
  C19. A deletion that succeeds deletes the caller's own row: when
  \<open>DeleteUser\<close> answers 204, the path's \<open>userId\<close> is the token's user, and
  the store loses exactly the rows of \<open>users\<close> with that id; its follow
  pairs and publications stay (\<open>Users.Delete\<close> deletes from \<open>users\<close>
  only).
\<close>

theorem DeleteUser_deletes_own:
  assumes "DeleteUser cfg r st = (resp, st')" and "status resp = StatusNoContent"
  shows "\<exists>uid. ParseUint64 (mux_var r ''userId'') = Inr uid \<and>
           ExtractUserID (tok_cfg cfg) (now r) (authorization r) = Inr uid \<and>
           users_tbl st' = filter (\<lambda>u. user_id u \<noteq> uid) (users_tbl st) \<and>
           followers_tbl st' = followers_tbl st \<and> pubs_tbl st' = pubs_tbl st"
  using assms by (auto simp: DeleteUser_def parse_param_def token_user_def answer_Err_def answer_JSON_def
                             db_connect_def Connect_def users_Delete_def split: if_splits sum.splits)

theorem DeleteUser_deletes_own_witness:
  "\<exists>uid. ParseUint64 (mux_var (example_req [(''userId'', ''1'')] BodyNotJSON) ''userId'') = Inr uid \<and>
     ExtractUserID (tok_cfg example_app_config) 10 (bearer (CreateToken example_token_config 0 1)) = Inr uid \<and>
     users_tbl (snd (DeleteUser example_app_config (example_req [(''userId'', ''1'')] BodyNotJSON) example_db)) =
       filter (\<lambda>u. user_id u \<noteq> uid) (users_tbl example_db) \<and>
     followers_tbl (snd (DeleteUser example_app_config (example_req [(''userId'', ''1'')] BodyNotJSON) example_db)) =
       followers_tbl example_db \<and>
     pubs_tbl (snd (DeleteUser example_app_config (example_req [(''userId'', ''1'')] BodyNotJSON) example_db)) =
       pubs_tbl example_db"
proof -
  let ?r = "example_req [(''userId'', ''1'')] BodyNotJSON"
  have p: "ParseUint64 (mux_var ?r ''userId'') = Inr 1" by (simp add: mux_var_def ParseUint64_small)
  have t: "ExtractUserID (tok_cfg example_app_config) (now ?r) (authorization ?r) = Inr 1"
    by (rule example_req_user)
  have up: "db_up example_db" by (simp add: example_db_def)
  have s: "status (fst (DeleteUser example_app_config ?r example_db)) = StatusNoContent"
    using p t up by (simp add: DeleteUser_def parse_param_def token_user_def answer_JSON_def)
  show ?thesis using DeleteUser_deletes_own [OF surjective_pairing s] by (simp add: example_req_def)
qed

lemma FollowUser_NoContent:
  assumes "FollowUser cfg r st = (resp, st')" and "status resp = StatusNoContent"
    and "ParseUint64 (mux_var r ''userId'') = Inr uid" and "ExtractUserID (tok_cfg cfg) (now r) (authorization r) = Inr fid"
  shows "uid \<noteq> fid \<and> db_up st \<and> st' = users_Follow uid fid st"
  using assms by (auto simp: FollowUser_def parse_param_def token_user_def answer_Err_def answer_JSON_def
                             db_connect_def Connect_def split: if_splits sum.splits)

text \<open>
  C18. Unfollowing undoes following: when \<open>FollowUser\<close> answers 204 for a
  pair (path user, caller) that was not yet stored, \<open>UnfollowUser\<close> on the
  same request answers 204 and gives back the store as it was before.
\<close>

theorem UnfollowUser_undoes_FollowUser:
  assumes "FollowUser cfg r st = (resp, st')" and "status resp = StatusNoContent"
    and "ParseUint64 (mux_var r ''userId'') = Inr uid" and "ExtractUserID (tok_cfg cfg) (now r) (authorization r) = Inr fid"
    and "(uid, fid) \<notin> set (followers_tbl st)"
  shows "UnfollowUser cfg r st' = (answer_JSON StatusNoContent NoBody, st)"
proof -
  have f: "uid \<noteq> fid" "db_up st" "st' = users_Follow uid fid st"
    using FollowUser_NoContent [OF assms(1-4)] by simp_all
  then have "db_up st'" by (simp add: users_Follow_def)
  then show ?thesis
    using assms(3,4) f users_Unfollow_Follow [OF assms(5)]
    by (simp add: UnfollowUser_def parse_param_def token_user_def)
qed

theorem UnfollowUser_undoes_FollowUser_witness:
  "UnfollowUser example_app_config (example_req [(''userId'', ''2'')] BodyNotJSON)
     (snd (FollowUser example_app_config (example_req [(''userId'', ''2'')] BodyNotJSON) example_db)) =
   (answer_JSON StatusNoContent NoBody, example_db)"
proof -
  let ?r = "example_req [(''userId'', ''2'')] BodyNotJSON"
  have p: "ParseUint64 (mux_var ?r ''userId'') = Inr 2"
    by (simp add: mux_var_def ParseUint64_small)
  have t: "ExtractUserID (tok_cfg example_app_config) (now ?r) (authorization ?r) = Inr 1"
    by (rule example_req_user)
  have up: "db_up example_db" by (simp add: example_db_def)
  have s: "status (fst (FollowUser example_app_config ?r example_db)) = StatusNoContent"
    using p t up by (simp add: FollowUser_def parse_param_def token_user_def answer_JSON_def)
  have n: "(2, 1) \<notin> set (followers_tbl example_db)" by (simp add: example_db_def)
  show ?thesis by (rule UnfollowUser_undoes_FollowUser [OF surjective_pairing s p t n])
qed

end
