(* ===== verification/PublicationsController.thy ===== *)
theory PublicationsController
  imports Http
begin

text \<open>
  The handlers of src/src/controllers/publications.go. \<open>UpdatePublication\<close>
  and \<open>DeletePublication\<close> read the caller's id from the token first, then the
  path's \<open>publicationId\<close>, fetch the stored publication and compare its
  \<open>AuthorID\<close> with the caller before any write.
\<close>

definition CreatePublication :: "app_config \<Rightarrow> handler" where
  "CreatePublication cfg r st =
     then_do (token_user cfg r) st (\<lambda>userID.
       then_do (read_body r) st (\<lambda>fs.
         (case publication_Prepare ((unmarshal_publication fs)\<lparr>author_id := userID\<rparr>) of
            Inl e \<Rightarrow> (answer_Err StatusBadRequest (EModel e), st)
          | Inr p \<Rightarrow>
              then_do (db_connect st) st (\<lambda>_.
                (case pubs_Create p st of
                   Inl e \<Rightarrow> (answer_Err StatusInternalServerError (EStorage e), st)
                 | Inr (pid, st') \<Rightarrow> (answer_JSON StatusCreated (PubBody (p\<lparr>pub_id := pid\<rparr>)), st'))))))"

definition SearchPublications :: "app_config \<Rightarrow> handler" where
  "SearchPublications cfg r st =
     then_do (token_user cfg r) st (\<lambda>userID.
       then_do (db_connect st) st (\<lambda>_.
         (answer_JSON StatusOK (PubsBody (pubs_Search userID st)), st)))"

definition SearchPublication :: "app_config \<Rightarrow> handler" where
  "SearchPublication cfg r st =
     then_do (parse_param r ''publicationId'') st (\<lambda>publicationID.
       then_do (db_connect st) st (\<lambda>_.
         (answer_JSON StatusOK (PubBody (pubs_SearchID publicationID st)), st)))"

definition UpdatePublication :: "app_config \<Rightarrow> handler" where
  "UpdatePublication cfg r st =
     then_do (token_user cfg r) st (\<lambda>userID.
       then_do (parse_param r ''publicationId'') st (\<lambda>publicationID.
         then_do (db_connect st) st (\<lambda>_.
           (let publicationSavedDatabase = pubs_SearchID publicationID st in
            if userID \<noteq> author_id publicationSavedDatabase
            then (answer_Err StatusForbidden (EMessage ''you cannot change a post that is not yours''), st)
            else then_do (read_body r) st (\<lambda>fs.
              (case publication_Prepare (unmarshal_publication fs) of
                 Inl e \<Rightarrow> (answer_Err StatusBadRequest (EModel e), st)
               | Inr p \<Rightarrow> (answer_JSON StatusNoContent NoBody, pubs_Update publicationID p st)))))))"

definition DeletePublication :: "app_config \<Rightarrow> handler" where
  "DeletePublication cfg r st =
     then_do (token_user cfg r) st (\<lambda>userID.
       then_do (parse_param r ''publicationId'') st (\<lambda>publicationID.
         then_do (db_connect st) st (\<lambda>_.
           (let publicationSavedDatabase = pubs_SearchID publicationID st in
            if userID \<noteq> author_id publicationSavedDatabase
            then (answer_Err StatusForbidden (EMessage ''you cannot delete a post that is not yours''), st)
            else (answer_JSON StatusNoContent NoBody, pubs_Delete publicationID st)))))"

definition SearchPublicationsUser :: "app_config \<Rightarrow> handler" where
  "SearchPublicationsUser cfg r st =
     then_do (parse_param r ''userId'') st (\<lambda>userID.
       then_do (db_connect st) st (\<lambda>_.
         (answer_JSON StatusOK (PubsBody (pubs_SearchUser userID st)), st)))"

definition LikePublication :: "app_config \<Rightarrow> handler" where
  "LikePublication cfg r st =
     then_do (parse_param r ''publicationId'') st (\<lambda>publicationID.
       then_do (db_connect st) st (\<lambda>_.
         (case pubs_Like publicationID st of
            Inl e \<Rightarrow> (answer_Err StatusInternalServerError (EStorage e), st)
          | Inr st' \<Rightarrow> (answer_JSON StatusNoContent NoBody, st'))))"

definition DislikePublication :: "app_config \<Rightarrow> handler" where
  "DislikePublication cfg r st =
     then_do (parse_param r ''publicationId'') st (\<lambda>publicationID.
       then_do (db_connect st) st (\<lambda>_.
         (answer_JSON StatusNoContent NoBody, pubs_Dislike publicationID st)))"


text \<open>
  The two phases of \<open>UpdatePublication\<close> and \<open>DeletePublication\<close>: the
  checks up to the author comparison, which read the store, and the rest,
  which writes it. net/http serves every request in a goroutine of its
  own, so the statements of other requests can run between the phases
  (\<open>UpdatePublication\<close> reads the request body there). A write that
  fails because the database went away answers 500, as the code's
  \<open>repository.Update\<close> and \<open>repository.Delete\<close> branches do.
\<close>

definition UpdatePublication_check :: "app_config \<Rightarrow> request \<Rightarrow> db \<Rightarrow> response + uint64" where
  "UpdatePublication_check cfg r st =
     (case token_user cfg r of
        Inl resp \<Rightarrow> Inl resp
      | Inr userID \<Rightarrow>
          (case parse_param r ''publicationId'' of
             Inl resp \<Rightarrow> Inl resp
           | Inr publicationID \<Rightarrow>
               (case db_connect st of
                  Inl resp \<Rightarrow> Inl resp
                | Inr _ \<Rightarrow>
                    (let publicationSavedDatabase = pubs_SearchID publicationID st in
                     if userID \<noteq> author_id publicationSavedDatabase
                     then Inl (answer_Err StatusForbidden (EMessage ''you cannot change a post that is not yours''))
                     else Inr publicationID))))"

definition UpdatePublication_finish :: "request \<Rightarrow> uint64 \<Rightarrow> db \<Rightarrow> response \<times> db" where
  "UpdatePublication_finish r publicationID st =
     then_do (read_body r) st (\<lambda>fs.
       (case publication_Prepare (unmarshal_publication fs) of
          Inl e \<Rightarrow> (answer_Err StatusBadRequest (EModel e), st)
        | Inr p \<Rightarrow>
            (case Connect st of
               Inl e \<Rightarrow> (answer_Err StatusInternalServerError (EStorage e), st)
             | Inr _ \<Rightarrow> (answer_JSON StatusNoContent NoBody, pubs_Update publicationID p st))))"

definition DeletePublication_check :: "app_config \<Rightarrow> request \<Rightarrow> db \<Rightarrow> response + uint64" where
  "DeletePublication_check cfg r st =
     (case token_user cfg r of
        Inl resp \<Rightarrow> Inl resp
      | Inr userID \<Rightarrow>
          (case parse_param r ''publicationId'' of
             Inl resp \<Rightarrow> Inl resp
           | Inr publicationID \<Rightarrow>
               (case db_connect st of
                  Inl resp \<Rightarrow> Inl resp
                | Inr _ \<Rightarrow>
                    (let publicationSavedDatabase = pubs_SearchID publicationID st in
                     if userID \<noteq> author_id publicationSavedDatabase
                     then Inl (answer_Err StatusForbidden (EMessage ''you cannot delete a post that is not yours''))
                     else Inr publicationID))))"

definition DeletePublication_finish :: "uint64 \<Rightarrow> db \<Rightarrow> response \<times> db" where
  "DeletePublication_finish publicationID st =
     (case Connect st of
        Inl e \<Rightarrow> (answer_Err StatusInternalServerError (EStorage e), st)
      | Inr _ \<Rightarrow> (answer_JSON StatusNoContent NoBody, pubs_Delete publicationID st))"

declare CreatePublication_def [handler_simps]
  SearchPublications_def [handler_simps]
  SearchPublication_def [handler_simps]
  UpdatePublication_def [handler_simps]
  DeletePublication_def [handler_simps]
  SearchPublicationsUser_def [handler_simps]
  LikePublication_def [handler_simps]
  DislikePublication_def [handler_simps]

subsection \<open>Ownership guards\<close>

lemma example_pub_authors:
  "author_id (pubs_SearchID 1 example_db) = 2" "author_id (pubs_SearchID 2 example_db) = 1"
  by (simp_all add: pubs_SearchID_def pubs_with_author_def example_db_def)

text \<open>
  C29. \<open>UpdatePublication\<close> refuses a caller who is not the stored author of
  the publication: 403, and the store is unchanged.
\<close>

theorem UpdatePublication_not_author_forbidden:
  assumes "ExtractUserID (tok_cfg cfg) (now r) (authorization r) = Inr uid"
    and "ParseUint64 (mux_var r ''publicationId'') = Inr pid" and "db_up st"
    and "author_id (pubs_SearchID pid st) \<noteq> uid"
  shows "UpdatePublication cfg r st =
           (answer_Err StatusForbidden (EMessage ''you cannot change a post that is not yours''), st)"
  using assms by (simp add: UpdatePublication_def token_user_def parse_param_def)

theorem UpdatePublication_not_author_forbidden_witness:
  "UpdatePublication example_app_config (example_req [(''publicationId'', ''1'')] BodyNotJSON) example_db =
     (answer_Err StatusForbidden (EMessage ''you cannot change a post that is not yours''), example_db)"
proof (rule UpdatePublication_not_author_forbidden)
  show "ExtractUserID (tok_cfg example_app_config) (now (example_req [(''publicationId'', ''1'')] BodyNotJSON))
          (authorization (example_req [(''publicationId'', ''1'')] BodyNotJSON)) = Inr 1"
    by (rule example_req_user)
  show "ParseUint64 (mux_var (example_req [(''publicationId'', ''1'')] BodyNotJSON) ''publicationId'') = Inr 1"
    by (simp add: mux_var_def ParseUint64_small)
  show "db_up example_db" by (simp add: example_db_def)
  show "author_id (pubs_SearchID 1 example_db) \<noteq> 1" by (simp add: example_pub_authors)
qed

text \<open>
  C16. Whatever \<open>UpdatePublication\<close> writes, it writes for the publication's
  stored author: if the store changes, the token's user is the author that
  \<open>SearchID\<close> returned for the path's id, and the change is \<open>Update\<close> of that id.
\<close>

theorem UpdatePublication_writes_own:
  assumes "UpdatePublication cfg r st = (resp, st')" and "st' \<noteq> st"
  shows "\<exists>uid pid. ExtractUserID (tok_cfg cfg) (now r) (authorization r) = Inr uid \<and>
           ParseUint64 (mux_var r ''publicationId'') = Inr pid \<and>
           author_id (pubs_SearchID pid st) = uid \<and> (\<exists>p. st' = pubs_Update pid p st)"
  using assms by (auto simp: UpdatePublication_def then_do_def Let_def split: sum.splits if_splits)

theorem UpdatePublication_writes_own_witness:
  "snd (UpdatePublication example_app_config
          (example_req [(''publicationId'', ''2'')] (BodyJSON [(''title'', ''New''), (''content'', ''Text'')])) example_db)
     \<noteq> example_db \<and>
   (\<exists>uid pid. ExtractUserID (tok_cfg example_app_config) 10 (bearer (CreateToken example_token_config 0 1)) = Inr uid \<and>
      ParseUint64 ''2'' = Inr pid \<and> author_id (pubs_SearchID pid example_db) = uid \<and>
      (\<exists>p. snd (UpdatePublication example_app_config
               (example_req [(''publicationId'', ''2'')] (BodyJSON [(''title'', ''New''), (''content'', ''Text'')])) example_db)
            = pubs_Update pid p example_db))"
proof -
  let ?r = "example_req [(''publicationId'', ''2'')] (BodyJSON [(''title'', ''New''), (''content'', ''Text'')])"
  let ?p = "zero_publication\<lparr>title := ''New'', content := ''Text''\<rparr>"
  have t: "ExtractUserID (tok_cfg example_app_config) (now ?r) (authorization ?r) = Inr 1"
    by (rule example_req_user)
  have prep: "publication_Prepare (unmarshal_publication [(''title'', ''New''), (''content'', ''Text'')]) = Inr ?p"
    by (simp add: publication_Prepare_def publication_validate_def publication_format_def unmarshal_publication_def
                  lookup_last_def zero_publication_def go_simps)
  have up: "db_up example_db" by (simp add: example_db_def)
  have run: "UpdatePublication example_app_config ?r example_db =
               (answer_JSON StatusNoContent NoBody, pubs_Update 2 ?p example_db)"
    using t prep up example_pub_authors
    by (simp add: UpdatePublication_def token_user_def parse_param_def mux_var_def ParseUint64_small read_body_def)
  have ne: "pubs_Update 2 ?p example_db \<noteq> example_db"
  proof
    assume "pubs_Update 2 ?p example_db = example_db"
    then have "map title (pubs_tbl (pubs_Update 2 ?p example_db)) = map title (pubs_tbl example_db)" by simp
    then show False by (simp add: pubs_Update_def example_db_def zero_publication_def)
  qed
  from UpdatePublication_writes_own [OF run ne] run ne show ?thesis
    by (simp add: example_req_def mux_var_def)
qed

text \<open>
  C30. \<open>DeletePublication\<close> refuses a caller who is not the stored author of
  the publication: 403, and nothing is deleted.
\<close>

theorem DeletePublication_not_author_forbidden:
  assumes "ExtractUserID (tok_cfg cfg) (now r) (authorization r) = Inr uid"
    and "ParseUint64 (mux_var r ''publicationId'') = Inr pid" and "db_up st"
    and "author_id (pubs_SearchID pid st) \<noteq> uid"
  shows "DeletePublication cfg r st =
           (answer_Err StatusForbidden (EMessage ''you cannot delete a post that is not yours''), st)"
  using assms by (simp add: DeletePublication_def token_user_def parse_param_def)

theorem DeletePublication_not_author_forbidden_witness:
  "DeletePublication example_app_config (example_req [(''publicationId'', ''1'')] BodyNotJSON) example_db =
     (answer_Err StatusForbidden (EMessage ''you cannot delete a post that is not yours''), example_db)"
proof (rule DeletePublication_not_author_forbidden)
  show "ExtractUserID (tok_cfg example_app_config) (now (example_req [(''publicationId'', ''1'')] BodyNotJSON))
          (authorization (example_req [(''publicationId'', ''1'')] BodyNotJSON)) = Inr 1"
    by (rule example_req_user)
  show "ParseUint64 (mux_var (example_req [(''publicationId'', ''1'')] BodyNotJSON) ''publicationId'') = Inr 1"
    by (simp add: mux_var_def ParseUint64_small)
  show "db_up example_db" by (simp add: example_db_def)
  show "author_id (pubs_SearchID 1 example_db) \<noteq> 1" by (simp add: example_pub_authors)
qed

text \<open>
  C35. A publication id that is not in the table reads as the zero value
  (author 0), so \<open>DeletePublication\<close> of a missing publication answers 403
  "not yours" to every caller whose id is not 0, instead of a not-found.
\<close>

theorem DeletePublication_missing_forbidden:
  assumes "ExtractUserID (tok_cfg cfg) (now r) (authorization r) = Inr uid" and "uid \<noteq> 0"
    and "ParseUint64 (mux_var r ''publicationId'') = Inr pid" and "db_up st"
    and "pid \<notin> pub_id ` set (pubs_tbl st)"
  shows "DeletePublication cfg r st =
           (answer_Err StatusForbidden (EMessage ''you cannot delete a post that is not yours''), st)"
proof (rule DeletePublication_not_author_forbidden [OF assms(1) assms(3) assms(4)])
  show "author_id (pubs_SearchID pid st) \<noteq> uid"
    using assms(2) pubs_SearchID_missing [OF assms(5)] by (simp add: zero_publication_def)
qed

theorem DeletePublication_missing_forbidden_witness:
  "DeletePublication example_app_config (example_req [(''publicationId'', ''3'')] BodyNotJSON) example_db =
     (answer_Err StatusForbidden (EMessage ''you cannot delete a post that is not yours''), example_db)"
proof (rule DeletePublication_missing_forbidden)
  show "ExtractUserID (tok_cfg example_app_config) (now (example_req [(''publicationId'', ''3'')] BodyNotJSON))
          (authorization (example_req [(''publicationId'', ''3'')] BodyNotJSON)) = Inr 1"
    by (rule example_req_user)
  show "(1::uint64) \<noteq> 0" by simp
  show "ParseUint64 (mux_var (example_req [(''publicationId'', ''3'')] BodyNotJSON) ''publicationId'') = Inr 3"
    by (simp add: mux_var_def ParseUint64_small)
  show "db_up example_db" by (simp add: example_db_def)
  show "3 \<notin> pub_id ` set (pubs_tbl example_db)" by (simp add: example_db_def)
qed

text \<open>
  C39. Disliking undoes liking: when \<open>LikePublication\<close> answers 204,
  \<open>DislikePublication\<close> on the same request answers 204 and gives back the
  store as it was before; the like did not wrap, so the dislike does not
  saturate.
\<close>

theorem DislikePublication_undoes_LikePublication:
  assumes "LikePublication cfg r st = (resp, st')" and "status resp = StatusNoContent"
  shows "DislikePublication cfg r st' = (answer_JSON StatusNoContent NoBody, st)"
proof -
  obtain pid st'' where p: "ParseUint64 (mux_var r ''publicationId'') = Inr pid" and up: "db_up st"
    and l: "pubs_Like pid st = Inr st''" and st': "st' = st''"
    using assms by (auto simp: LikePublication_def parse_param_def answer_Err_def answer_JSON_def
                               db_connect_def Connect_def split: sum.splits if_splits)
  have "db_up st'" using l up st' by (auto simp: pubs_Like_def split: if_splits)
  then show ?thesis using p st' pubs_Dislike_Like [OF l] by (simp add: DislikePublication_def parse_param_def)
qed

theorem DislikePublication_undoes_LikePublication_witness:
  "DislikePublication example_app_config (example_req [(''publicationId'', ''2'')] BodyNotJSON)
     (snd (LikePublication example_app_config (example_req [(''publicationId'', ''2'')] BodyNotJSON) example_db)) =
   (answer_JSON StatusNoContent NoBody, example_db)"
proof -
  let ?r = "example_req [(''publicationId'', ''2'')] BodyNotJSON"
  have s: "status (fst (LikePublication example_app_config ?r example_db)) = StatusNoContent"
    by (simp add: LikePublication_def parse_param_def mux_var_def ParseUint64_small example_db_def pubs_Like_def
                  answer_JSON_def)
  show ?thesis by (rule DislikePublication_undoes_LikePublication [OF surjective_pairing s])
qed

text \<open>Run in one piece, each handler is its check followed by its write.\<close>

lemma UpdatePublication_split:
  "UpdatePublication cfg r st =
     (case UpdatePublication_check cfg r st of
        Inl resp \<Rightarrow> (resp, st)
      | Inr publicationID \<Rightarrow> UpdatePublication_finish r publicationID st)"
  by (cases "token_user cfg r"; cases "parse_param r ''publicationId''"; cases "db_up st")
     (simp_all add: UpdatePublication_def UpdatePublication_check_def UpdatePublication_finish_def Let_def
                    db_connect_def Connect_def then_do_def split: sum.split del: token_user_Inr parse_param_Inr)

lemma DeletePublication_split:
  "DeletePublication cfg r st =
     (case DeletePublication_check cfg r st of
        Inl resp \<Rightarrow> (resp, st)
      | Inr publicationID \<Rightarrow> DeletePublication_finish publicationID st)"
  by (cases "token_user cfg r"; cases "parse_param r ''publicationId''"; cases "db_up st")
     (simp_all add: DeletePublication_def DeletePublication_check_def DeletePublication_finish_def Let_def
                    db_connect_def Connect_def then_do_def split: sum.split del: token_user_Inr parse_param_Inr)

lemma publication_checks_Inr:
  "UpdatePublication_check cfg r st = Inr pid \<Longrightarrow>
   ExtractUserID (tok_cfg cfg) (now r) (authorization r) = Inr (author_id (pubs_SearchID pid st))"
  "DeletePublication_check cfg r st = Inr pid \<Longrightarrow>
   ExtractUserID (tok_cfg cfg) (now r) (authorization r) = Inr (author_id (pubs_SearchID pid st))"
  by (auto simp: UpdatePublication_check_def DeletePublication_check_def token_user_def parse_param_def
                 db_connect_def split: sum.splits if_splits)

end
