(* ===== verification/LoginController.thy ===== *)
theory LoginController
  imports Http
begin

text \<open>
  \<open>controllers.Login\<close> (src/src/controllers/login.go): decode the body into a
  user, fetch id and hash by e-mail, check the password, and write a token
  for the stored id. An unknown e-mail gives the zero user, whose empty
  hash \<open>PasswordCheck\<close> refuses as too short, so it ends in 401 like a
  wrong password. \<open>CreateToken\<close> signs with an HMAC key and cannot fail, so
  its error branch is absent; \<open>w.Write\<close> without \<open>WriteHeader\<close> answers 200.
\<close>

definition Login :: "app_config \<Rightarrow> handler" where
  "Login cfg r st =
     then_do (read_body r) st (\<lambda>fs.
       (let user = unmarshal_user fs in
        then_do (db_connect st) st (\<lambda>_.
          (let userSaveDatabase = users_SearchEmail (email user) st in
           case PasswordCheck (eks cfg) (password userSaveDatabase) (password user) of
             Inl e \<Rightarrow> (answer_Err StatusUnauthorized (EPassword e), st)
           | Inr _ \<Rightarrow>
               (\<lparr>status = StatusOK,
                 payload = RawBody (CreateToken (tok_cfg cfg) (now r) (user_id userSaveDatabase))\<rparr>, st)))))"


declare Login_def [handler_simps]

subsection \<open>What a successful login proves\<close>

lemma Login_result:
  assumes "body r = BodyJSON fs" and "db_up st"
  shows "Login cfg r st =
    (case find (\<lambda>u. ci_eq (email u) (email (unmarshal_user fs))) (users_tbl st) of
       None \<Rightarrow> (answer_Err StatusUnauthorized (EPassword ErrHashTooShort), st)
     | Some u \<Rightarrow>
         (case PasswordCheck (eks cfg) (password u) (password (unmarshal_user fs)) of
            Inl e \<Rightarrow> (answer_Err StatusUnauthorized (EPassword e), st)
          | Inr _ \<Rightarrow> (\<lparr>status = StatusOK, payload = RawBody (CreateToken (tok_cfg cfg) (now r) (user_id u))\<rparr>, st)))"
  using assms
  by (simp add: Login_def read_body_def users_SearchEmail_def zero_user_def PasswordCheck_empty_hash
           split: option.splits sum.splits)

text \<open>Login only reads the store.\<close>

lemma Login_store: "snd (Login cfg r st) = st"
  by (simp add: Login_def then_do_def Let_def split: sum.splits)

lemma example_login_lookup:
  "find (\<lambda>u. ci_eq (email u) ''ana@example.org'') (users_tbl example_db) =
     Some (hd (users_tbl example_db))"
  by (simp add: example_db_def ci_eq_def)

text \<open>
  C7. A login that answers 200 has changed nothing, and the token it
  returns identifies, until it expires, exactly the stored user whose
  e-mail the body names and whose hash the body's password checks against.
\<close>

theorem Login_token_identifies:
  assumes "mac_wf (tok_cfg cfg)" and "Login cfg r st = (resp, st')" and "status resp = StatusOK"
    and "t < now r + ttl (tok_cfg cfg)"
  shows "st' = st \<and>
         (\<exists>fs u tok. body r = BodyJSON fs \<and>
            find (\<lambda>u. ci_eq (email u) (email (unmarshal_user fs))) (users_tbl st) = Some u \<and>
            PasswordCheck (eks cfg) (password u) (password (unmarshal_user fs)) = Inr () \<and>
            payload resp = RawBody tok \<and> ExtractUserID (tok_cfg cfg) t (bearer tok) = Inr (user_id u))"
proof -
  obtain fs where b: "body r = BodyJSON fs"
    using assms(2,3) by (cases "body r") (auto simp: Login_def read_body_def answer_Err_def)
  have up: "db_up st"
    using assms(2,3) b by (cases "db_up st") (auto simp: Login_def read_body_def db_connect_down answer_Err_def)
  obtain u where f: "find (\<lambda>u. ci_eq (email u) (email (unmarshal_user fs))) (users_tbl st) = Some u"
    using assms(2,3) Login_result [OF b up, of cfg]
    by (cases "find (\<lambda>u. ci_eq (email u) (email (unmarshal_user fs))) (users_tbl st)") (auto simp: answer_Err_def)
  have pc: "PasswordCheck (eks cfg) (password u) (password (unmarshal_user fs)) = Inr ()"
    using assms(2,3) Login_result [OF b up, of cfg] f
    by (cases "PasswordCheck (eks cfg) (password u) (password (unmarshal_user fs))") (auto simp: answer_Err_def)
  have res: "resp = \<lparr>status = StatusOK, payload = RawBody (CreateToken (tok_cfg cfg) (now r) (user_id u))\<rparr>"
    and st: "st' = st"
    using assms(2) Login_result [OF b up, of cfg] f pc by simp_all
  have "ExtractUserID (tok_cfg cfg) t (bearer (CreateToken (tok_cfg cfg) (now r) (user_id u))) = Inr (user_id u)"
    using ExtractUserID_CreateToken [OF assms(1) assms(4)] .
  with b f pc res st show ?thesis by auto
qed

theorem Login_token_identifies_witness:
  "snd (Login example_app_config (example_req [] (BodyJSON [(''email'', ''ana@example.org''), (''password'', ''ana-pw'')]))
          example_db) = example_db \<and>
   (\<exists>fs u tok. BodyJSON [(''email'', ''ana@example.org''), (''password'', ''ana-pw'')] = BodyJSON fs \<and>
      find (\<lambda>u. ci_eq (email u) (email (unmarshal_user fs))) (users_tbl example_db) = Some u \<and>
      PasswordCheck example_eks (password u) (password (unmarshal_user fs)) = Inr () \<and>
      payload (fst (Login example_app_config
        (example_req [] (BodyJSON [(''email'', ''ana@example.org''), (''password'', ''ana-pw'')])) example_db)) = RawBody tok \<and>
      ExtractUserID example_token_config 20 (bearer tok) = Inr (user_id u))"
proof -
  let ?fs = "[(''email'', ''ana@example.org''), (''password'', ''ana-pw'')]"
  let ?r = "example_req [] (BodyJSON ?fs)"
  have em: "email (unmarshal_user ?fs) = ''ana@example.org''" "password (unmarshal_user ?fs) = ''ana-pw''"
    by (simp_all add: unmarshal_user_def lookup_last_def)
  have pc: "PasswordCheck example_eks (password (hd (users_tbl example_db))) ''ana-pw'' = Inr ()"
    by code_simp
  have up: "db_up example_db" by (simp add: example_db_def)
  have run: "Login example_app_config ?r example_db =
     (\<lparr>status = StatusOK, payload = RawBody (CreateToken example_token_config 10 (user_id (hd (users_tbl example_db))))\<rparr>,
      example_db)"
    using Login_result [of ?r ?fs example_db example_app_config] up em pc example_login_lookup
    by (simp add: example_app_config_def)
  have wf: "mac_wf (tok_cfg example_app_config)" by (simp add: example_app_config_def example_token_config_wf)
  have t: "(20::nat) < now ?r + ttl (tok_cfg example_app_config)"
    by (simp add: example_app_config_def example_token_config_def)
  have st: "status (fst (Login example_app_config ?r example_db)) = StatusOK" using run by simp
  have "Login example_app_config ?r example_db =
          (fst (Login example_app_config ?r example_db), snd (Login example_app_config ?r example_db))" by simp
  from Login_token_identifies [OF wf this st t] show ?thesis
    by (simp add: example_app_config_def)
qed

text \<open>
  C34. A login with an e-mail that no stored user has answers 401 (the zero
  user's empty hash is too short for bcrypt), like a wrong password, and
  changes nothing.
\<close>

theorem Login_unknown_email:
  assumes "body r = BodyJSON fs" and "db_up st"
    and "find (\<lambda>u. ci_eq (email u) (email (unmarshal_user fs))) (users_tbl st) = None"
  shows "Login cfg r st = (answer_Err StatusUnauthorized (EPassword ErrHashTooShort), st)"
  using Login_result [OF assms(1,2), of cfg] assms(3) by simp

theorem Login_unknown_email_witness:
  "Login example_app_config (example_req [] (BodyJSON [(''email'', ''eve@example.org''), (''password'', ''x'')]))
     example_db = (answer_Err StatusUnauthorized (EPassword ErrHashTooShort), example_db)"
proof (rule Login_unknown_email)
  show "body (example_req [] (BodyJSON [(''email'', ''eve@example.org''), (''password'', ''x'')])) =
          BodyJSON [(''email'', ''eve@example.org''), (''password'', ''x'')]" by simp
  show "db_up example_db" by (simp add: example_db_def)
  show "find (\<lambda>u. ci_eq (email u) (email (unmarshal_user [(''email'', ''eve@example.org''), (''password'', ''x'')])))
          (users_tbl example_db) = None"
    by (simp add: example_db_def ci_eq_def unmarshal_user_def lookup_last_def go_simps)
qed

end
