(* ===== verification/Router.thy ===== *)
theory Router
  imports Middlewares UsersController PublicationsController LoginController
begin

text \<open>
  The route tables of src/src/router/routers (\<open>routerUser\<close>, \<open>routerLogin\<close>,
  \<open>routerPublication\<close>), \<open>Configure\<close>, which wraps each route's handler
  as \<open>Logger (Authenticate h)\<close> or \<open>Logger h\<close> by its flag, and the
  dispatch of gorilla/mux: a route matches when its template matches the
  path segment by segment (a \<open>{name}\<close> segment matches a non-empty
  segment and binds it) and its method is the request's. The first route
  that matches serves the request. When none does, the answer is 405 if some
  route matched the path with another method, and 404 otherwise. A route
  whose template does not start with \<open>/\<close> carries mux's registration error
  and never matches. The routes name their handlers by a datatype, so
  the route tables are data that can be compared.
\<close>

datatype controller =
    HCreateUser | HSearchUsers | HSearchUser | HUpdateUser | HDeleteUser | HFollowUser
  | HUnfollowUser | HSearchFollowers | HSearchFollowing | HUpdatePassword | HLogin
  | HCreatePublication | HSearchPublications | HSearchPublication | HUpdatePublication
  | HDeletePublication | HSearchPublicationsUser | HLikePublication | HDislikePublication

record route =
  URI :: string
  Methods :: string
  Function :: controller
  RequiresAuthentication :: bool

primrec run_controller :: "app_config \<Rightarrow> controller \<Rightarrow> handler" where
  "run_controller cfg HCreateUser = CreateUser cfg"
| "run_controller cfg HSearchUsers = SearchUsers cfg"
| "run_controller cfg HSearchUser = SearchUser cfg"
| "run_controller cfg HUpdateUser = UpdateUser cfg"
| "run_controller cfg HDeleteUser = DeleteUser cfg"
| "run_controller cfg HFollowUser = FollowUser cfg"
| "run_controller cfg HUnfollowUser = UnfollowUser cfg"
| "run_controller cfg HSearchFollowers = SearchFollowers cfg"
| "run_controller cfg HSearchFollowing = SearchFollowing cfg"
| "run_controller cfg HUpdatePassword = UpdatePassword cfg"
| "run_controller cfg HLogin = Login cfg"
| "run_controller cfg HCreatePublication = CreatePublication cfg"
| "run_controller cfg HSearchPublications = SearchPublications cfg"
| "run_controller cfg HSearchPublication = SearchPublication cfg"
| "run_controller cfg HUpdatePublication = UpdatePublication cfg"
| "run_controller cfg HDeletePublication = DeletePublication cfg"
| "run_controller cfg HSearchPublicationsUser = SearchPublicationsUser cfg"
| "run_controller cfg HLikePublication = LikePublication cfg"
| "run_controller cfg HDislikePublication = DislikePublication cfg"

definition routerUser :: "route list" where
  "routerUser =
    [\<lparr>URI = ''/users'', Methods = ''POST'', Function = HCreateUser, RequiresAuthentication = False\<rparr>,
     \<lparr>URI = ''/users'', Methods = ''GET'', Function = HSearchUsers, RequiresAuthentication = True\<rparr>,
     \<lparr>URI = ''/users/{userId}'', Methods = ''GET'', Function = HSearchUser, RequiresAuthentication = True\<rparr>,
     \<lparr>URI = ''/users/{userId}'', Methods = ''PUT'', Function = HUpdateUser, RequiresAuthentication = True\<rparr>,
     \<lparr>URI = ''/users/{userId}'', Methods = ''DELETE'', Function = HDeleteUser, RequiresAuthentication = True\<rparr>,
     \<lparr>URI = ''/users/{userId}/seguir'', Methods = ''POST'', Function = HFollowUser, RequiresAuthentication = True\<rparr>,
     \<lparr>URI = ''/users/{userId}/parar-de-seguir'', Methods = ''POST'', Function = HUnfollowUser,
      RequiresAuthentication = True\<rparr>,
     \<lparr>URI = ''/users/{userId}/followers'', Methods = ''POST'', Function = HSearchFollowers,
      RequiresAuthentication = True\<rparr>,
     \<lparr>URI = ''/users/{userId}/following'', Methods = ''POST'', Function = HSearchFollowing,
      RequiresAuthentication = True\<rparr>,
     \<lparr>URI = ''/users/{userId}/update-password'', Methods = ''POST'', Function = HUpdatePassword,
      RequiresAuthentication = True\<rparr>]"

definition routerLogin :: route where
  "routerLogin = \<lparr>URI = ''/login'', Methods = ''POST'', Function = HLogin, RequiresAuthentication = False\<rparr>"

definition routerPublication :: "route list" where
  "routerPublication =
    [\<lparr>URI = ''/publications'', Methods = ''POST'', Function = HCreatePublication, RequiresAuthentication = True\<rparr>,
     \<lparr>URI = ''/publications'', Methods = ''GET'', Function = HSearchPublications, RequiresAuthentication = True\<rparr>,
     \<lparr>URI = ''/publications/{publicationId}'', Methods = ''POST'', Function = HSearchPublication,
      RequiresAuthentication = True\<rparr>,
     \<lparr>URI = ''/publications/{publicationId}'', Methods = ''PUT'', Function = HUpdatePublication,
      RequiresAuthentication = True\<rparr>,
     \<lparr>URI = ''/publications/{publicationId}'', Methods = ''DELETE'', Function = HDeletePublication,
      RequiresAuthentication = True\<rparr>,
     \<lparr>URI = ''users/{usersId}/publications'', Methods = ''GET'', Function = HSearchPublicationsUser,
      RequiresAuthentication = True\<rparr>,
     \<lparr>URI = ''publications/{publicationId}/like'', Methods = ''POST'', Function = HLikePublication,
      RequiresAuthentication = True\<rparr>,
     \<lparr>URI = ''publications/{publicationId}/dislike'', Methods = ''POST'', Function = HDislikePublication,
      RequiresAuthentication = True\<rparr>]"

text \<open>\<open>Configure\<close>: the three tables in order, each handler wrapped by its flag.\<close>

definition route_handler :: "app_config \<Rightarrow> route \<Rightarrow> served" where
  "route_handler cfg rt =
     (if RequiresAuthentication rt then Logger (Authenticate cfg (run_controller cfg (Function rt)))
      else Logger (run_controller cfg (Function rt)))"

definition all_routes :: "route list" where
  "all_routes = routerUser @ [routerLogin] @ routerPublication"

definition Configure :: "app_config \<Rightarrow> (route \<times> served) list" where
  "Configure cfg = map (\<lambda>rt. (rt, route_handler cfg rt)) all_routes"

definition Generate :: "app_config \<Rightarrow> (route \<times> served) list" where
  "Generate cfg = Configure cfg"

subsection \<open>gorilla/mux path templates and dispatch\<close>

datatype tpl_seg = Lit string | Var string

definition parse_seg :: "string \<Rightarrow> tpl_seg" where
  "parse_seg s =
     (if 2 \<le> length s \<and> hd s = CHR ''{'' \<and> last s = CHR ''}'' then Var (butlast (tl s)) else Lit s)"

text \<open>mux refuses a path template that does not start with a slash.\<close>

definition template_ok :: "string \<Rightarrow> bool" where
  "template_ok tpl \<longleftrightarrow> tpl = [] \<or> hd tpl = CHR ''/''"

fun match_segs :: "tpl_seg list \<Rightarrow> string list \<Rightarrow> (string \<times> string) list option" where
  "match_segs [] [] = Some []"
| "match_segs (Lit l # ts) (p # ps) = (if l = p then match_segs ts ps else None)"
| "match_segs (Var v # ts) (p # ps) =
     (if p = [] then None else map_option (\<lambda>vs. (v, p) # vs) (match_segs ts ps))"
| "match_segs _ _ = None"

definition path_match :: "string \<Rightarrow> string \<Rightarrow> (string \<times> string) list option" where
  "path_match tpl path =
     (if template_ok tpl then match_segs (map parse_seg (Split tpl CHR ''/'')) (Split path CHR ''/'') else None)"

datatype match_result = Matched route served "(string \<times> string) list" | MethodMismatch | NoMatch

fun mux_match :: "(route \<times> served) list \<Rightarrow> request \<Rightarrow> bool \<Rightarrow> match_result" where
  "mux_match [] r mm = (if mm then MethodMismatch else NoMatch)"
| "mux_match ((rt, h) # rs) r mm =
     (case path_match (URI rt) (req_path r) of
        None \<Rightarrow> mux_match rs r mm
      | Some vs \<Rightarrow> if Methods rt = req_method r then Matched rt h vs else mux_match rs r True)"

definition ServeHTTP :: "(route \<times> served) list \<Rightarrow> served" where
  "ServeHTTP rs r sv =
     (case mux_match rs r False of
        Matched rt h vs \<Rightarrow> h (r\<lparr>vars := vs\<rparr>) sv
      | MethodMismatch \<Rightarrow> (\<lparr>status = StatusMethodNotAllowed, payload = NoBody\<rparr>, sv)
      | NoMatch \<Rightarrow> (\<lparr>status = StatusNotFound, payload = RawBody ''404 page not found''\<rparr>, sv))"

subsection \<open>Dispatch lemmas\<close>

lemma mux_match_Matched:
  "mux_match rs r mm = Matched rt h vs \<Longrightarrow>
   (rt, h) \<in> set rs \<and> path_match (URI rt) (req_path r) = Some vs \<and> Methods rt = req_method r"
  by (induction rs r mm rule: mux_match.induct) (auto split: option.splits if_splits)

lemma mux_match_NoMatch:
  "\<forall>x\<in>set rs. path_match (URI (fst x)) (req_path r) = None \<Longrightarrow>
   mux_match rs r mm = (if mm then MethodMismatch else NoMatch)"
  by (induction rs r mm rule: mux_match.induct) auto

lemma Generate_Matched:
  assumes "mux_match (Generate cfg) r mm = Matched rt h vs"
  shows "rt \<in> set all_routes \<and> h = route_handler cfg rt \<and> template_ok (URI rt) \<and>
         path_match (URI rt) (req_path r) = Some vs \<and> Methods rt = req_method r"
  using mux_match_Matched [OF assms]
  by (auto simp: Generate_def Configure_def path_match_def split: if_splits)

lemma ServeHTTP_Matched:
  "mux_match (Generate cfg) r False = Matched rt h vs \<Longrightarrow>
   ServeHTTP (Generate cfg) r sv = route_handler cfg rt (r\<lparr>vars := vs\<rparr>) sv"
  using Generate_Matched by (simp add: ServeHTTP_def)

lemma ServeHTTP_unmatched:
  "\<forall>rt h vs. mux_match (Generate cfg) r False \<noteq> Matched rt h vs \<Longrightarrow> snd (ServeHTTP (Generate cfg) r sv) = sv"
  by (cases "mux_match (Generate cfg) r False") (auto simp: ServeHTTP_def)

lemma route_handler_result:
  "route_handler cfg rt r sv =
     (let (resp, st') = (if RequiresAuthentication rt then Authenticate cfg (run_controller cfg (Function rt))
                         else run_controller cfg (Function rt)) r (store sv)
      in (resp, \<lparr>store = st',
                 log = log sv @ [LogStart (req_method r) (req_path r), LogEnd (req_method r) (req_path r) (status resp)]\<rparr>))"
  by (simp add: route_handler_def Logger_def)

lemma route_handler_store:
  "store (snd (route_handler cfg rt r sv)) = store sv \<or>
   store (snd (route_handler cfg rt r sv)) = snd (run_controller cfg (Function rt) r (store sv))"
  by (auto simp: route_handler_def Logger_result Authenticate_def split: sum.splits)

subsection \<open>Path templates\<close>

lemma match_segs_length: "match_segs ts ps = Some vs \<Longrightarrow> length ts = length ps"
  by (induction ts ps arbitrary: vs rule: match_segs.induct) (auto split: if_splits)

lemma match_segs_Lit_nth:
  "match_segs ts ps = Some vs \<Longrightarrow> i < length ts \<Longrightarrow> ts ! i = Lit l \<Longrightarrow> ps ! i = l"
  by (induction ts ps arbitrary: vs i rule: match_segs.induct)
     (auto split: if_splits simp: nth_Cons split: nat.splits)

lemma match_segs_Lit: "match_segs (map Lit ls) ps = Some vs \<Longrightarrow> ps = ls"
proof (induction ls arbitrary: ps vs)
  case Nil then show ?case by (cases ps) auto
next
  case (Cons l ls) then show ?case by (cases ps) (auto split: if_splits)
qed

lemma path_match_users: "path_match ''/users'' p = Some vs \<Longrightarrow> p = ''/users''"
proof -
  assume m: "path_match ''/users'' p = Some vs"
  have "map parse_seg (Split ''/users'' CHR ''/'') = map Lit ['''', ''users'']"
    by (simp add: parse_seg_def)
  with m have "Split p CHR ''/'' = ['''', ''users'']"
    by (simp add: path_match_def template_ok_def match_segs_Lit)
  then have "Join (Split p CHR ''/'') CHR ''/'' = Join ['''', ''users''] CHR ''/''" by simp
  then show ?thesis by simp
qed

subsection \<open>Facts of the route tables, by evaluation\<close>

lemma routes_template_ok:
  "rt \<in> set all_routes \<Longrightarrow> template_ok (URI rt) \<Longrightarrow>
   Function rt \<notin> {HSearchPublicationsUser, HLikePublication, HDislikePublication}"
proof -
  have "list_all (\<lambda>rt. template_ok (URI rt) \<longrightarrow>
          Function rt \<notin> {HSearchPublicationsUser, HLikePublication, HDislikePublication}) all_routes"
    by (simp add: all_routes_def routerUser_def routerLogin_def routerPublication_def template_ok_def)
  then show "rt \<in> set all_routes \<Longrightarrow> template_ok (URI rt) \<Longrightarrow> ?thesis" by (simp add: list_all_iff)
qed

lemma public_routes:
  "rt \<in> set all_routes \<Longrightarrow> \<not> RequiresAuthentication rt \<Longrightarrow>
   Function rt = HLogin \<or> (Function rt = HCreateUser \<and> URI rt = ''/users'' \<and> Methods rt = ''POST'')"
proof -
  have "list_all (\<lambda>rt. \<not> RequiresAuthentication rt \<longrightarrow>
          Function rt = HLogin \<or> (Function rt = HCreateUser \<and> URI rt = ''/users'' \<and> Methods rt = ''POST'')) all_routes"
    by (simp add: all_routes_def routerUser_def routerLogin_def routerPublication_def)
  then show "rt \<in> set all_routes \<Longrightarrow> \<not> RequiresAuthentication rt \<Longrightarrow> ?thesis" by (simp add: list_all_iff)
qed

lemma long_templates:
  "list_all (\<lambda>rt. template_ok (URI rt) \<longrightarrow>
     (let ts = map parse_seg (Split (URI rt) CHR ''/'') in
      length ts < 4 \<or>
      (length ts = 4 \<and> (\<exists>l. ts ! 1 = Lit l \<and> l \<noteq> ''publications'') \<and>
       (\<exists>l. ts ! 3 = Lit l \<and> l \<noteq> ''publications'')))) all_routes"
  by (simp add: all_routes_def routerUser_def routerLogin_def routerPublication_def template_ok_def parse_seg_def)

lemma path_match_long_None:
  assumes "4 \<le> length (Split p CHR ''/'')"
    and "Split p CHR ''/'' ! 1 = ''publications'' \<or> last (Split p CHR ''/'') = ''publications''"
    and "rt \<in> set all_routes"
  shows "path_match (URI rt) p = None"
proof (rule ccontr)
  assume "path_match (URI rt) p \<noteq> None"
  then obtain vs where ok: "template_ok (URI rt)"
    and m: "match_segs (map parse_seg (Split (URI rt) CHR ''/'')) (Split p CHR ''/'') = Some vs"
    by (auto simp: path_match_def split: if_splits)
  let ?ts = "map parse_seg (Split (URI rt) CHR ''/'')" and ?ps = "Split p CHR ''/''"
  have len: "length ?ts = length ?ps" using match_segs_length [OF m] .
  from long_templates assms(3) ok obtain l1 l3 where
    l: "length ?ts = 4" "?ts ! 1 = Lit l1" "l1 \<noteq> ''publications''" "?ts ! 3 = Lit l3" "l3 \<noteq> ''publications''"
    using assms(1) len by (auto simp: list_all_iff Let_def)
  have "?ps ! 1 = l1" "?ps ! 3 = l3"
    using match_segs_Lit_nth [OF m] l by simp_all
  moreover have "last ?ps = ?ps ! 3" using l(1) len by (simp add: last_conv_nth)
  ultimately show False using assms(2) l by auto
qed

lemma unregistered_path_segments:
  assumes "req_path r = ''/publications/'' @ n @ ''/like'' \<or> req_path r = ''/publications/'' @ n @ ''/dislike'' \<or>
           req_path r = ''/users/'' @ n @ ''/publications''"
  shows "4 \<le> length (Split (req_path r) CHR ''/'') \<and>
         (Split (req_path r) CHR ''/'' ! 1 = ''publications'' \<or> last (Split (req_path r) CHR ''/'') = ''publications'')"
proof -
  have pub: "''/publications/'' @ n @ CHR ''/'' # s = ''/publications'' @ CHR ''/'' # (n @ CHR ''/'' # s)" for s
    by simp
  have usr: "''/users/'' @ n @ ''/publications'' = ''/users'' @ CHR ''/'' # (n @ CHR ''/'' # ''publications'')"
    by simp
  have "Split n CHR ''/'' \<noteq> []" by simp
  then have ln: "1 \<le> length (Split n CHR ''/'')" by (cases "Split n CHR ''/''") auto
  from assms show ?thesis
  proof (elim disjE)
    assume "req_path r = ''/publications/'' @ n @ ''/like''"
    then show ?thesis using ln pub [of "''like''"] by (simp add: Split_append_sep Split_no_sep nth_append)
  next
    assume "req_path r = ''/publications/'' @ n @ ''/dislike''"
    then show ?thesis using ln pub [of "''dislike''"] by (simp add: Split_append_sep Split_no_sep nth_append)
  next
    assume "req_path r = ''/users/'' @ n @ ''/publications''"
    then show ?thesis using ln usr by (simp add: Split_append_sep Split_no_sep)
  qed
qed

lemma example_get_users:
  "mux_match (Generate cfg) \<lparr>req_method = ''GET'', req_path = ''/users'', vars = [], query = [],
      authorization = hdr, body = BodyNotJSON, now = t, rnd = []\<rparr> False =
   Matched (routerUser ! 1) (route_handler cfg (routerUser ! 1)) []"
  by (simp add: Generate_def Configure_def all_routes_def routerUser_def path_match_def template_ok_def parse_seg_def)

lemma example_no_token: "ValidateToken cfg t [] = Inl InvalidToken"
  by (simp add: ValidateToken_def parse_claims_def extractToken_def parse_token_def)

text \<open>
  C21. The routes of \<open>routerPublication\<close> registered without a leading
  slash are never served: a request for \<open>/publications/{id}/like\<close>,
  \<open>/publications/{id}/dislike\<close> or \<open>/users/{id}/publications\<close> answers 404
  whatever its method and token, and changes neither the store nor the log.
\<close>

theorem ServeHTTP_unregistered_paths:
  assumes "req_path r = ''/publications/'' @ n @ ''/like'' \<or> req_path r = ''/publications/'' @ n @ ''/dislike'' \<or>
           req_path r = ''/users/'' @ n @ ''/publications''"
  shows "ServeHTTP (Generate cfg) r sv = (\<lparr>status = StatusNotFound, payload = RawBody ''404 page not found''\<rparr>, sv)"
proof -
  have "\<forall>x\<in>set (Generate cfg). path_match (URI (fst x)) (req_path r) = None"
    using unregistered_path_segments [OF assms] path_match_long_None
    by (auto simp: Generate_def Configure_def)
  then show ?thesis by (simp add: ServeHTTP_def mux_match_NoMatch)
qed

theorem ServeHTTP_unregistered_paths_witness:
  "ServeHTTP (Generate example_app_config)
     \<lparr>req_method = ''POST'', req_path = ''/publications/1/like'', vars = [], query = [],
      authorization = [], body = BodyNotJSON, now = 0, rnd = []\<rparr> \<lparr>store = example_db, log = []\<rparr> =
   (\<lparr>status = StatusNotFound, payload = RawBody ''404 page not found''\<rparr>, \<lparr>store = example_db, log = []\<rparr>)"
  by (rule ServeHTTP_unregistered_paths [of _ "''1''"]) simp

text \<open>
  C22. No request is dispatched to \<open>SearchPublicationsUser\<close>,
  \<open>LikePublication\<close> or \<open>DislikePublication\<close>: a route that mux matches
  is a route of the tables with a template that starts with a slash.
\<close>

theorem Router_unreachable:
  assumes "mux_match (Generate cfg) r False = Matched rt h vs"
  shows "Function rt \<notin> {HSearchPublicationsUser, HLikePublication, HDislikePublication}"
  using Generate_Matched [OF assms] routes_template_ok by blast

theorem Router_unreachable_witness:
  "Function (routerUser ! 1) \<notin> {HSearchPublicationsUser, HLikePublication, HDislikePublication}"
  by (rule Router_unreachable [OF example_get_users [where cfg = example_app_config and hdr = "[]" and t = 0]])

text \<open>
  C3. Authentication comes before the handler: on a route flagged
  \<open>RequiresAuthentication\<close>, a request whose token does not validate is
  answered 401 with the token error, the store is unchanged, and the
  logger records the call.
\<close>

theorem ServeHTTP_unauthenticated:
  assumes "mux_match (Generate cfg) r False = Matched rt h vs" and "RequiresAuthentication rt"
    and "ValidateToken (tok_cfg cfg) (now r) (authorization r) = Inl e"
  shows "ServeHTTP (Generate cfg) r sv =
           (answer_Err StatusUnauthorized (EToken e),
            sv\<lparr>log := log sv @ [LogStart (req_method r) (req_path r),
                                LogEnd (req_method r) (req_path r) StatusUnauthorized]\<rparr>)"
  using assms
  by (simp add: ServeHTTP_Matched route_handler_def Logger_def Authenticate_refused answer_Err_def)

theorem ServeHTTP_unauthenticated_witness:
  "ServeHTTP (Generate example_app_config)
     \<lparr>req_method = ''GET'', req_path = ''/users'', vars = [], query = [],
      authorization = [], body = BodyNotJSON, now = 0, rnd = []\<rparr> \<lparr>store = example_db, log = []\<rparr> =
   (answer_Err StatusUnauthorized (EToken InvalidToken),
    \<lparr>store = example_db, log = [LogStart ''GET'' ''/users'', LogEnd ''GET'' ''/users'' StatusUnauthorized]\<rparr>)"
proof -
  let ?r = "\<lparr>req_method = ''GET'', req_path = ''/users'', vars = [], query = [],
      authorization = [], body = BodyNotJSON, now = 0, rnd = []\<rparr>"
  have a: "RequiresAuthentication (routerUser ! 1)" by (simp add: routerUser_def)
  have v: "ValidateToken (tok_cfg example_app_config) (now ?r) (authorization ?r) = Inl InvalidToken"
    by (simp add: example_no_token)
  from ServeHTTP_unauthenticated [OF example_get_users a v] show ?thesis by simp
qed

text \<open>
  C2. Without a valid token the store changes only through the one public
  route that writes, \<open>POST /users\<close> (\<open>CreateUser\<close>): whenever serving a
  request changes the store, either the request's token yields a user id,
  or the request is \<open>POST /users\<close>.
\<close>

theorem ServeHTTP_store_change:
  assumes "ServeHTTP (Generate cfg) r sv = (resp, sv')" and "store sv' \<noteq> store sv"
  shows "(\<exists>uid. ExtractUserID (tok_cfg cfg) (now r) (authorization r) = Inr uid) \<or>
         (req_method r = ''POST'' \<and> req_path r = ''/users'')"
proof (cases "mux_match (Generate cfg) r False")
  case (Matched rt h vs)
  note g = Generate_Matched [OF Matched]
  have run: "route_handler cfg rt (r\<lparr>vars := vs\<rparr>) sv = (resp, sv')"
    using assms(1) ServeHTTP_Matched [OF Matched] by simp
  show ?thesis
  proof (cases "RequiresAuthentication rt")
    case True
    obtain resp0 st0 where
      inner: "Authenticate cfg (run_controller cfg (Function rt)) (r\<lparr>vars := vs\<rparr>) (store sv) = (resp0, st0)"
      by fastforce
    with run True have "st0 = store sv'" by (auto simp: route_handler_def Logger_def)
    with inner assms(2) show ?thesis by (auto dest: Authenticate_changed)
  next
    case False
    with g public_routes consider (login) "Function rt = HLogin"
      | (create) "Function rt = HCreateUser" "URI rt = ''/users''" "Methods rt = ''POST''" by blast
    then show ?thesis
    proof cases
      case login
      then have "store sv' = store sv" using run False by (auto simp: route_handler_def Logger_result Login_store)
      with assms(2) show ?thesis by simp
    next
      case create
      with g show ?thesis using path_match_users by auto
    qed
  qed
qed (use assms in \<open>auto simp: ServeHTTP_def\<close>)

lemma example_follow_route:
  "mux_match (Generate cfg) \<lparr>req_method = ''POST'', req_path = ''/users/2/seguir'', vars = [], query = [],
      authorization = hdr, body = b, now = t, rnd = rs\<rparr> False =
   Matched (routerUser ! 5) (route_handler cfg (routerUser ! 5)) [(''userId'', ''2'')]"
  by (simp add: Generate_def Configure_def all_routes_def routerUser_def path_match_def template_ok_def parse_seg_def)

theorem ServeHTTP_store_change_witness:
  "store (snd (ServeHTTP (Generate example_app_config)
     \<lparr>req_method = ''POST'', req_path = ''/users/2/seguir'', vars = [], query = [],
      authorization = bearer (CreateToken example_token_config 0 1), body = BodyNotJSON, now = 10,
      rnd = example_rnd\<rparr> \<lparr>store = example_db, log = []\<rparr>)) \<noteq> example_db \<and>
   ((\<exists>uid. ExtractUserID (tok_cfg example_app_config) 10 (bearer (CreateToken example_token_config 0 1)) = Inr uid) \<or>
    (''POST'' = ''POST'' \<and> ''/users/2/seguir'' = ''/users''))"
proof -
  let ?r = "\<lparr>req_method = ''POST'', req_path = ''/users/2/seguir'', vars = [], query = [],
      authorization = bearer (CreateToken example_token_config 0 1), body = BodyNotJSON, now = 10,
      rnd = example_rnd\<rparr>"
  let ?sv = "\<lparr>store = example_db, log = []\<rparr>"
  have t: "ExtractUserID (tok_cfg example_app_config) 10 (bearer (CreateToken example_token_config 0 1)) = Inr 1"
    using example_req_user [of "[]" BodyNotJSON] by (simp add: example_req_def)
  then have v: "ValidateToken (tok_cfg example_app_config) 10 (bearer (CreateToken example_token_config 0 1)) = Inr ()"
    using ValidateToken_Inr_iff by (metis old.unit.exhaust)
  have up: "db_up example_db" by (simp add: example_db_def)
  have a: "RequiresAuthentication (routerUser ! 5) \<and> Function (routerUser ! 5) = HFollowUser"
    by (simp add: routerUser_def)
  have run: "ServeHTTP (Generate example_app_config) ?r ?sv =
     (answer_JSON StatusNoContent NoBody,
      \<lparr>store = users_Follow 2 1 example_db,
       log = [LogStart ''POST'' ''/users/2/seguir'', LogEnd ''POST'' ''/users/2/seguir'' StatusNoContent]\<rparr>)"
    using t v up a
    by (simp add: ServeHTTP_Matched [OF example_follow_route] route_handler_def Logger_def Authenticate_def
                  FollowUser_def parse_param_def token_user_def mux_var_def ParseUint64_small answer_JSON_def)
  have ne: "users_Follow 2 1 example_db \<noteq> example_db"
  proof
    assume "users_Follow 2 1 example_db = example_db"
    then have "followers_tbl (users_Follow 2 1 example_db) = followers_tbl example_db" by simp
    then show False by (simp add: users_Follow_def example_db_def)
  qed
  from ServeHTTP_store_change [OF run] ne run show ?thesis by simp
qed

text \<open>
  C23. The logger wraps every route: a request that mux dispatches is
  logged with its start and with its end and the status it was answered
  with, whatever the handler and the authentication did; a request that
  no route matches (404, 405) reaches no logger.
\<close>

theorem ServeHTTP_logged:
  assumes "ServeHTTP (Generate cfg) r sv = (resp, sv')"
  shows "log sv' =
           (case mux_match (Generate cfg) r False of
              Matched rt h vs \<Rightarrow>
                log sv @ [LogStart (req_method r) (req_path r), LogEnd (req_method r) (req_path r) (status resp)]
            | _ \<Rightarrow> log sv)"
proof (cases "mux_match (Generate cfg) r False")
  case (Matched rt h vs)
  with assms show ?thesis
    by (cases "RequiresAuthentication rt") (auto simp: ServeHTTP_Matched route_handler_def Logger_result)
qed (use assms in \<open>auto simp: ServeHTTP_def\<close>)

theorem ServeHTTP_logged_witness:
  "log (snd (ServeHTTP (Generate example_app_config)
     \<lparr>req_method = ''GET'', req_path = ''/users'', vars = [], query = [],
      authorization = [], body = BodyNotJSON, now = 0, rnd = []\<rparr> \<lparr>store = example_db, log = []\<rparr>)) =
   [LogStart ''GET'' ''/users'', LogEnd ''GET'' ''/users''
      (status (fst (ServeHTTP (Generate example_app_config)
         \<lparr>req_method = ''GET'', req_path = ''/users'', vars = [], query = [],
          authorization = [], body = BodyNotJSON, now = 0, rnd = []\<rparr> \<lparr>store = example_db, log = []\<rparr>)))]"
  using ServeHTTP_logged [OF surjective_pairing] by (simp add: example_get_users)

subsection \<open>Method checks, valid tokens, and what responses carry\<close>

lemma Split_users_path:
  "CHR ''/'' \<notin> set n \<Longrightarrow> Split (''/users/'' @ n @ CHR ''/'' # s) CHR ''/'' = ['''', ''users'', n] @ Split s CHR ''/''"
proof -
  assume n: "CHR ''/'' \<notin> set n"
  have "''/users/'' @ n @ CHR ''/'' # s = [] @ CHR ''/'' # (''users'' @ CHR ''/'' # (n @ CHR ''/'' # s))" by simp
  then show ?thesis using n by (simp only: Split_append_sep) (simp add: Split_no_sep)
qed

lemma create_route:
  "rt \<in> set all_routes \<Longrightarrow> Function rt = HCreateUser \<Longrightarrow>
   URI rt = ''/users'' \<and> Methods rt = ''POST'' \<and> \<not> RequiresAuthentication rt"
proof -
  have "list_all (\<lambda>rt. Function rt = HCreateUser \<longrightarrow>
          URI rt = ''/users'' \<and> Methods rt = ''POST'' \<and> \<not> RequiresAuthentication rt) all_routes"
    by (simp add: all_routes_def routerUser_def routerLogin_def routerPublication_def)
  then show "rt \<in> set all_routes \<Longrightarrow> Function rt = HCreateUser \<Longrightarrow> ?thesis" by (simp add: list_all_iff)
qed

lemma route_handler_resp:
  "fst (route_handler cfg rt r sv) = fst (run_controller cfg (Function rt) r (store sv)) \<and>
     store (snd (route_handler cfg rt r sv)) = snd (run_controller cfg (Function rt) r (store sv)) \<or>
   no_password (fst (route_handler cfg rt r sv))"
  by (auto simp: route_handler_def Logger_result Authenticate_def split: sum.splits)

lemma no_password_controller:
  "c \<noteq> HCreateUser \<Longrightarrow> no_password (fst (run_controller cfg c r st))"
  by (cases c; simp only: run_controller.simps handler_simps Let_def;
      (intro handler_resp [where Q = no_password])?;
      auto simp: public_rows_no_password dest: step_Inl_answer_Err)

text \<open>
  C24. The two follow lists answer only POST: \<open>routerUser\<close> registers
  \<open>/users/{userId}/followers\<close> and \<open>/users/{userId}/following\<close> with
  \<open>http.MethodPost\<close>, so a GET on them, whatever the token, is 405 Method Not
  Allowed and changes neither the store nor the log.
\<close>

theorem ServeHTTP_GET_follow_lists:
  assumes "n \<noteq> []" and "CHR ''/'' \<notin> set n" and "req_method r = ''GET''"
    and "req_path r = ''/users/'' @ n @ ''/followers'' \<or> req_path r = ''/users/'' @ n @ ''/following''"
  shows "ServeHTTP (Generate cfg) r sv = (\<lparr>status = StatusMethodNotAllowed, payload = NoBody\<rparr>, sv)"
proof -
  from assms(4) obtain l where l: "l = ''followers'' \<or> l = ''following''"
    and p: "req_path r = ''/users/'' @ n @ CHR ''/'' # l" by auto
  have sp: "Split (req_path r) CHR ''/'' = ['''', ''users'', n, l]"
    using p l Split_users_path [OF assms(2), of l] by (auto simp: Split_no_sep)
  from l show ?thesis
  proof (elim disjE)
    assume "l = ''followers''"
    then show ?thesis using assms(1,3) sp by (simp add: ServeHTTP_def Generate_def Configure_def
      all_routes_def routerUser_def routerLogin_def routerPublication_def path_match_def template_ok_def parse_seg_def)
  next
    assume "l = ''following''"
    then show ?thesis using assms(1,3) sp by (simp add: ServeHTTP_def Generate_def Configure_def
      all_routes_def routerUser_def routerLogin_def routerPublication_def path_match_def template_ok_def parse_seg_def)
  qed
qed

theorem ServeHTTP_GET_follow_lists_witness:
  "ServeHTTP (Generate example_app_config)
     \<lparr>req_method = ''GET'', req_path = ''/users/1/followers'', vars = [], query = [],
      authorization = [], body = BodyNotJSON, now = 0, rnd = []\<rparr> \<lparr>store = example_db, log = []\<rparr> =
   (\<lparr>status = StatusMethodNotAllowed, payload = NoBody\<rparr>, \<lparr>store = example_db, log = []\<rparr>)"
  by (rule ServeHTTP_GET_follow_lists [of "''1''"]) simp_all

text \<open>
  C14. A valid token reaches the controller: for a request that mux routes
  and whose bearer token \<open>CreateToken\<close> issued before its expiry,
  \<open>ServeHTTP\<close> answers what the route's controller answers, with the
  store it leaves, and logs the call.
\<close>

theorem ServeHTTP_valid_token:
  assumes "mac_wf (tok_cfg cfg)" and "authorization r = bearer (CreateToken (tok_cfg cfg) issued uid)"
    and "now r < issued + ttl (tok_cfg cfg)" and "mux_match (Generate cfg) r False = Matched rt h vs"
  shows "ServeHTTP (Generate cfg) r sv =
           (fst (run_controller cfg (Function rt) (r\<lparr>vars := vs\<rparr>) (store sv)),
            \<lparr>store = snd (run_controller cfg (Function rt) (r\<lparr>vars := vs\<rparr>) (store sv)),
             log = log sv @ [LogStart (req_method r) (req_path r),
                             LogEnd (req_method r) (req_path r)
                               (status (fst (run_controller cfg (Function rt) (r\<lparr>vars := vs\<rparr>) (store sv))))]\<rparr>)"
proof -
  have "ExtractUserID (tok_cfg cfg) (now r) (authorization r) = Inr uid"
    using ExtractUserID_CreateToken [OF assms(1,3)] assms(2) by simp
  then have "ValidateToken (tok_cfg cfg) (now r) (authorization r) = Inr ()"
    by (simp add: ValidateToken_ExtractUserID)
  then show ?thesis
    using ServeHTTP_Matched [OF assms(4)] by (simp add: route_handler_def Logger_result Authenticate_passed)
qed

theorem ServeHTTP_valid_token_witness:
  "ServeHTTP (Generate example_app_config)
     \<lparr>req_method = ''GET'', req_path = ''/users'', vars = [], query = [],
      authorization = bearer (CreateToken example_token_config 0 1), body = BodyNotJSON, now = 10, rnd = []\<rparr>
     \<lparr>store = example_db, log = []\<rparr> =
   (fst (run_controller example_app_config (Function (routerUser ! 1))
          \<lparr>req_method = ''GET'', req_path = ''/users'', vars = [], query = [],
           authorization = bearer (CreateToken example_token_config 0 1), body = BodyNotJSON, now = 10, rnd = []\<rparr>
          example_db),
    \<lparr>store = snd (run_controller example_app_config (Function (routerUser ! 1))
          \<lparr>req_method = ''GET'', req_path = ''/users'', vars = [], query = [],
           authorization = bearer (CreateToken example_token_config 0 1), body = BodyNotJSON, now = 10, rnd = []\<rparr>
          example_db),
     log = [LogStart ''GET'' ''/users'',
            LogEnd ''GET'' ''/users''
              (status (fst (run_controller example_app_config (Function (routerUser ! 1))
                 \<lparr>req_method = ''GET'', req_path = ''/users'', vars = [], query = [],
                  authorization = bearer (CreateToken example_token_config 0 1), body = BodyNotJSON, now = 10, rnd = []\<rparr>
                 example_db)))]\<rparr>)"
proof -
  have c: "tok_cfg example_app_config = example_token_config" by (simp add: example_app_config_def)
  have "(10::nat) < 0 + ttl example_token_config" by (simp add: example_token_config_def)
  then show ?thesis
    using ServeHTTP_valid_token [where issued = 0 and uid = 1 and sv = "\<lparr>store = example_db, log = []\<rparr>",
            OF _ _ _ example_get_users [of example_app_config "bearer (CreateToken example_token_config 0 1)" 10]]
          example_token_config_wf c
    by simp
qed

end
