(* ===== verification/Server.thy ===== *)
theory Server
  imports Router
begin

text \<open>
  The server as a state machine: its states are those reachable from an
  empty database and an empty log by serving requests, by the clock
  advancing, and by the database going down or coming back. Two things
  hold of every reachable store: the ids the auto-increment counters hand
  out are unique and below the counters, and nobody follows themselves.
  Every step the server takes is a step of the ownership policy of the
  specification: whatever the caller's token, the rows of other users,
  the publications of other authors and the follow edges of other
  followers survive it unchanged.
\<close>

definition ids_in :: "uint64 list \<Rightarrow> uint64 \<Rightarrow> bool" where
  "ids_in ids n \<longleftrightarrow> 0 < n \<and> distinct ids \<and> (\<forall>i \<in> set ids. 0 < i \<and> i < n)"

definition db_inv :: "db \<Rightarrow> bool" where
  "db_inv st \<longleftrightarrow>
     ids_in (map user_id (users_tbl st)) (next_user_id st) \<and>
     ids_in (map pub_id (pubs_tbl st)) (next_pub_id st) \<and>
     (\<forall>(a, b) \<in> set (followers_tbl st). a \<noteq> b)"

text \<open>The database the migrations create: empty tables, counters at 1.\<close>

definition empty_db :: db where
  "empty_db = \<lparr>users_tbl = [], followers_tbl = [], pubs_tbl = [], next_user_id = 1, next_pub_id = 1,
                clock = 0, db_up = True\<rparr>"

inductive reachable :: "app_config \<Rightarrow> server \<Rightarrow> bool" for cfg where
  boot: "reachable cfg \<lparr>store = empty_db, log = []\<rparr>"
| serve: "reachable cfg sv \<Longrightarrow> ServeHTTP (Generate cfg) r sv = (resp, sv') \<Longrightarrow> reachable cfg sv'"
| tick: "reachable cfg sv \<Longrightarrow> reachable cfg (sv\<lparr>store := (store sv)\<lparr>clock := Suc (clock (store sv))\<rparr>\<rparr>)"
| outage: "reachable cfg sv \<Longrightarrow> reachable cfg (sv\<lparr>store := (store sv)\<lparr>db_up := b\<rparr>\<rparr>)"

text \<open>The caller a request's token names, if it names one.\<close>

definition token_principal :: "app_config \<Rightarrow> request \<Rightarrow> uint64 option" where
  "token_principal cfg r = (case ExtractUserID (tok_cfg cfg) (now r) (authorization r) of Inl _ \<Rightarrow> None | Inr p \<Rightarrow> Some p)"

text \<open>
  The ownership policy as a relation between the store before and after a
  step taken for caller \<open>p\<close>: rows of others are kept, and the follow
  edges whose follower is not \<open>p\<close> are neither added nor removed.
\<close>

definition frame_ok :: "uint64 option \<Rightarrow> db \<Rightarrow> db \<Rightarrow> bool" where
  "frame_ok p st st' \<longleftrightarrow>
     (\<forall>u \<in> set (users_tbl st). Some (user_id u) \<noteq> p \<longrightarrow> u \<in> set (users_tbl st')) \<and>
     (\<forall>q \<in> set (pubs_tbl st). Some (author_id q) \<noteq> p \<longrightarrow> q \<in> set (pubs_tbl st')) \<and>
     (\<forall>e \<in> set (followers_tbl st). Some (snd e) \<noteq> p \<longrightarrow> e \<in> set (followers_tbl st')) \<and>
     (\<forall>e \<in> set (followers_tbl st'). Some (snd e) \<noteq> p \<longrightarrow> e \<in> set (followers_tbl st))"

text \<open>Every stored password is a bcrypt hash that \<open>newFromHash\<close> decodes to a well-formed record.\<close>

definition hash_ok :: "string \<Rightarrow> bool" where
  "hash_ok h \<longleftrightarrow> (case newFromHash h of Inl _ \<Rightarrow> False | Inr hp \<Rightarrow> hashed_wf hp)"

definition pw_inv :: "db \<Rightarrow> bool" where
  "pw_inv st \<longleftrightarrow> list_all hash_ok (map password (users_tbl st))"

subsection \<open>The invariant, operation by operation\<close>

lemma ids_in_filter: "ids_in (map f xs) n \<Longrightarrow> ids_in (map f (filter P xs)) n"
  by (auto simp: ids_in_def distinct_map_filter)

lemma ids_in_snoc: "ids_in ids n \<Longrightarrow> n \<noteq> - 1 \<Longrightarrow> ids_in (ids @ [n]) (n + 1)"
  by (auto simp: ids_in_def word_less_nat_alt unat_plus_one_no_wrap)

lemma map_keep_key: "(\<And>r. f (g r) = f r) \<Longrightarrow> map (f \<circ> g) xs = map f xs"
  by (simp add: comp_def)

lemma db_inv_users_Update [simp]: "db_inv (users_Update uid u st) = db_inv st"
  by (simp add: db_inv_def users_Update_def map_keep_key)

lemma db_inv_users_UpdatePassword [simp]: "db_inv (users_UpdatePassword uid pw st) = db_inv st"
  by (simp add: db_inv_def users_UpdatePassword_def map_keep_key)

lemma db_inv_pubs_Update [simp]: "db_inv (pubs_Update pid p st) = db_inv st"
  by (simp add: db_inv_def pubs_Update_def map_keep_key)

lemma db_inv_pubs_Dislike [simp]: "db_inv (pubs_Dislike pid st) = db_inv st"
  by (simp add: db_inv_def pubs_Dislike_def map_keep_key)

lemma db_inv_users_Delete: "db_inv st \<Longrightarrow> db_inv (users_Delete uid st)"
  by (simp add: db_inv_def users_Delete_def ids_in_filter)

lemma db_inv_pubs_Delete: "db_inv st \<Longrightarrow> db_inv (pubs_Delete pid st)"
  by (simp add: db_inv_def pubs_Delete_def ids_in_filter)

lemma db_inv_users_Unfollow: "db_inv st \<Longrightarrow> db_inv (users_Unfollow uid fid st)"
  by (auto simp: db_inv_def users_Unfollow_def)

lemma db_inv_users_Follow: "db_inv st \<Longrightarrow> uid \<noteq> fid \<Longrightarrow> db_inv (users_Follow uid fid st)"
  by (auto simp: db_inv_def users_Follow_def)

text \<open>
  The three operations that create rows have the new store free in their
  conclusion; they are destruction rules, never rewrite rules.
\<close>

lemma db_inv_users_Create: "users_Create u st = Inr (uid, st') \<Longrightarrow> db_inv st \<Longrightarrow> db_inv st'"
  by (auto simp: db_inv_def users_Create_def Let_def ids_in_snoc split: if_splits)

lemma db_inv_pubs_Create: "pubs_Create p st = Inr (pid, st') \<Longrightarrow> db_inv st \<Longrightarrow> db_inv st'"
  by (auto simp: db_inv_def pubs_Create_def Let_def ids_in_snoc split: if_splits)

lemma db_inv_pubs_Like: "pubs_Like pid st = Inr st' \<Longrightarrow> db_inv st \<Longrightarrow> db_inv st'"
  by (auto simp: db_inv_def pubs_Like_def map_keep_key split: if_splits)

lemmas db_inv_ops = db_inv_users_Delete db_inv_pubs_Delete db_inv_users_Unfollow db_inv_users_Follow

lemmas db_inv_new_rows = db_inv_users_Create db_inv_pubs_Create db_inv_pubs_Like

subsection \<open>The invariant, handler by handler\<close>

text \<open>
  Every controller, unfolded by \<open>handler_simps\<close>, has the shape the
  \<open>handler_inv\<close> rules take apart; what remains are the repository calls.
\<close>

lemma db_inv_controller: "db_inv st \<Longrightarrow> db_inv (snd (run_controller cfg c r st))"
  by (cases c; simp only: run_controller.simps handler_simps Let_def;
      intro handler_inv [where P = db_inv]; auto simp: db_inv_ops dest: db_inv_new_rows)

text \<open>
  A property of the store that every controller preserves is preserved by
  serving a request: the store after \<open>ServeHTTP\<close> is either the one before
  or the one a controller left.
\<close>

lemma ServeHTTP_preserves:
  assumes "\<And>c r. P (store sv) \<Longrightarrow> P (snd (run_controller cfg c r (store sv)))" and "P (store sv)"
  shows "P (store (snd (ServeHTTP (Generate cfg) r sv)))"
proof (cases "mux_match (Generate cfg) r False")
  case (Matched rt h vs)
  then show ?thesis
    using route_handler_store [of cfg rt "r\<lparr>vars := vs\<rparr>" sv] assms
    by (auto simp: ServeHTTP_Matched [OF Matched])
qed (use assms(2) in \<open>simp_all add: ServeHTTP_def\<close>)

text \<open>Rule induction over \<open>reachable\<close>, for a property of the store.\<close>

lemma reachable_store_inv:
  assumes "reachable cfg sv" and "P empty_db"
    and "\<And>sv r. P (store sv) \<Longrightarrow> P (store (snd (ServeHTTP (Generate cfg) r sv)))"
    and "\<And>st. P st \<Longrightarrow> P (st\<lparr>clock := Suc (clock st)\<rparr>)" and "\<And>st b. P st \<Longrightarrow> P (st\<lparr>db_up := b\<rparr>)"
  shows "P (store sv)"
  using assms(1)
proof (induction rule: reachable.induct)
  case (serve sv r resp sv')
  then show ?case using assms(3) [of sv r] by simp
qed (simp_all add: assms(2,4,5))

lemma db_inv_empty: "db_inv empty_db"
  by (simp add: db_inv_def ids_in_def empty_db_def)

text \<open>
  C4. Every reachable store satisfies the invariant: user and publication
  ids are distinct, positive and below their auto-increment counters, and
  no user follows themselves.
\<close>

theorem reachable_db_inv:
  assumes "reachable cfg sv"
  shows "db_inv (store sv)"
  using assms db_inv_empty
proof (rule reachable_store_inv)
  show "db_inv (store (snd (ServeHTTP (Generate cfg) r sv)))" if "db_inv (store sv)" for sv r
    using ServeHTTP_preserves [of db_inv sv cfg r] that db_inv_controller by blast
qed (simp_all add: db_inv_def)

theorem reachable_db_inv_witness:
  "reachable example_app_config \<lparr>store = empty_db, log = []\<rparr> \<and> db_inv (store \<lparr>store = empty_db, log = []\<rparr>)"
  using reachable.boot reachable_db_inv [OF reachable.boot] by blast

subsection \<open>The ownership policy, operation by operation\<close>

lemma frame_ok_refl [simp]: "frame_ok p st st"
  by (simp add: frame_ok_def)

lemma frame_users_Update: "frame_ok (Some uid) st (users_Update uid u st)"
  by (force simp: frame_ok_def users_Update_def)

lemma frame_users_UpdatePassword: "frame_ok (Some uid) st (users_UpdatePassword uid pw st)"
  by (force simp: frame_ok_def users_UpdatePassword_def)

lemma frame_users_Delete: "frame_ok (Some uid) st (users_Delete uid st)"
  by (auto simp: frame_ok_def users_Delete_def)

lemma frame_users_Follow: "frame_ok (Some fid) st (users_Follow uid fid st)"
  by (auto simp: frame_ok_def users_Follow_def)

lemma frame_users_Unfollow: "frame_ok (Some fid) st (users_Unfollow uid fid st)"
  by (auto simp: frame_ok_def users_Unfollow_def)

lemma frame_users_Create: "users_Create u st = Inr (uid, st') \<Longrightarrow> frame_ok p st st'"
  by (auto simp: frame_ok_def users_Create_def Let_def split: if_splits)

lemma frame_pubs_Create: "pubs_Create q st = Inr (pid, st') \<Longrightarrow> frame_ok p st st'"
  by (auto simp: frame_ok_def pubs_Create_def Let_def split: if_splits)

text \<open>
  With unique publication ids, the author that \<open>Publications.SearchID\<close>
  reports, when it is not the zero value's 0, is the author of every row
  with that id.
\<close>

lemma pubs_SearchID_owner:
  assumes "db_inv st" and "author_id (pubs_SearchID pid st) \<noteq> 0"
    and "q \<in> set (pubs_tbl st)" and "pub_id q = pid"
  shows "author_id q = author_id (pubs_SearchID pid st)"
proof (cases "filter (\<lambda>p. pub_id p = pid) (pubs_with_author st)")
  case Nil
  then show ?thesis using assms(2) by (simp add: pubs_SearchID_def zero_publication_def)
next
  case (Cons x xs)
  then have "x \<in> set (filter (\<lambda>p. pub_id p = pid) (pubs_with_author st))" by simp
  then have x: "x \<in> set (pubs_with_author st)" "pub_id x = pid" by simp_all
  have "\<exists>p0 \<in> set (pubs_tbl st). pub_id p0 = pub_id x \<and> author_id p0 = author_id x"
    using x(1) by (auto simp: pubs_with_author_def)
  then obtain p0 where p0: "p0 \<in> set (pubs_tbl st)" "pub_id p0 = pub_id x" "author_id p0 = author_id x"
    by blast
  have "inj_on pub_id (set (pubs_tbl st))"
    using assms(1) by (simp add: db_inv_def ids_in_def distinct_map)
  moreover have "pub_id p0 = pub_id q" using p0(2) x(2) assms(4) by simp
  ultimately have "q = p0" using p0(1) assms(3) by (blast dest: inj_onD)
  then show ?thesis using Cons p0(3) by (simp add: pubs_SearchID_def)
qed

lemma frame_pubs_Update:
  "db_inv st \<Longrightarrow> author_id (pubs_SearchID pid st) \<noteq> 0 \<Longrightarrow>
   frame_ok (Some (author_id (pubs_SearchID pid st))) st (pubs_Update pid x st)"
  using pubs_SearchID_owner [of st pid] by (force simp: frame_ok_def pubs_Update_def)

lemma frame_pubs_Delete:
  "db_inv st \<Longrightarrow> author_id (pubs_SearchID pid st) \<noteq> 0 \<Longrightarrow>
   frame_ok (Some (author_id (pubs_SearchID pid st))) st (pubs_Delete pid st)"
  using pubs_SearchID_owner [of st pid] by (auto simp: frame_ok_def pubs_Delete_def)

lemmas frame_ops = frame_users_Update frame_users_UpdatePassword frame_users_Delete frame_users_Follow
  frame_users_Unfollow frame_pubs_Update frame_pubs_Delete

lemmas frame_new_rows = frame_users_Create frame_pubs_Create

subsection \<open>The ownership policy, handler by handler\<close>

lemma frame_controller:
  "db_inv st \<Longrightarrow> token_principal cfg r \<noteq> Some 0 \<Longrightarrow> c \<notin> {HLikePublication, HDislikePublication} \<Longrightarrow>
   frame_ok (token_principal cfg r) st (snd (run_controller cfg c r st))"
  by (cases c; simp only: run_controller.simps handler_simps Let_def;
      (intro handler_inv [where P = "frame_ok (token_principal cfg r) st"])?;
      auto simp: frame_ops token_principal_def dest: frame_new_rows)

lemma token_principal_vars [simp]: "token_principal cfg (r\<lparr>vars := vs\<rparr>) = token_principal cfg r"
  by (simp add: token_principal_def)

lemma example_db_inv: "db_inv example_db"
  by (simp add: db_inv_def ids_in_def example_db_def)

text \<open>
  C1. Serving a request refines the ownership policy: from a store that
  satisfies the invariant, whatever the request, the rows of users other
  than the caller named by the token, the publications of other authors,
  and the follow edges of other followers are kept, and no follow edge of
  another follower appears. A request without a valid token keeps every
  existing row and edge. (The caller 0 is excluded: it is the author the
  zero value of a missing publication reports.)
\<close>

theorem ServeHTTP_frame:
  assumes "db_inv (store sv)" and "token_principal cfg r \<noteq> Some 0"
    and "ServeHTTP (Generate cfg) r sv = (resp, sv')"
  shows "frame_ok (token_principal cfg r) (store sv) (store sv')"
proof (cases "mux_match (Generate cfg) r False")
  case (Matched rt h vs)
  note g = Generate_Matched [OF Matched]
  then have c: "Function rt \<notin> {HLikePublication, HDislikePublication}" using routes_template_ok by blast
  have "store sv' = store sv \<or> store sv' = snd (run_controller cfg (Function rt) (r\<lparr>vars := vs\<rparr>) (store sv))"
    using route_handler_store [of cfg rt "r\<lparr>vars := vs\<rparr>" sv] assms(3) ServeHTTP_Matched [OF Matched] by simp
  then show ?thesis
    using frame_controller [OF assms(1), of cfg "r\<lparr>vars := vs\<rparr>"] assms(2) c by auto
qed (use assms(3) in \<open>auto simp: ServeHTTP_def\<close>)

theorem ServeHTTP_frame_witness:
  "frame_ok (Some 1) example_db
     (store (snd (ServeHTTP (Generate example_app_config)
        \<lparr>req_method = ''POST'', req_path = ''/users/2/seguir'', vars = [], query = [],
         authorization = bearer (CreateToken example_token_config 0 1), body = BodyNotJSON, now = 10,
         rnd = example_rnd\<rparr> \<lparr>store = example_db, log = []\<rparr>)))"
proof -
  let ?r = "\<lparr>req_method = ''POST'', req_path = ''/users/2/seguir'', vars = [], query = [],
         authorization = bearer (CreateToken example_token_config 0 1), body = BodyNotJSON, now = 10,
         rnd = example_rnd\<rparr>"
  have t: "ExtractUserID (tok_cfg example_app_config) 10 (bearer (CreateToken example_token_config 0 1)) = Inr 1"
    using example_req_user [of "[]" BodyNotJSON] by (simp add: example_req_def)
  then have p: "token_principal example_app_config ?r = Some 1" by (simp add: token_principal_def)
  have "frame_ok (token_principal example_app_config ?r) (store \<lparr>store = example_db, log = []\<rparr>)
          (store (snd (ServeHTTP (Generate example_app_config) ?r \<lparr>store = example_db, log = []\<rparr>)))"
    by (rule ServeHTTP_frame [OF _ _ surjective_pairing]) (simp_all add: p example_db_inv)
  with p show ?thesis by simp
qed

subsection \<open>Stored passwords are bcrypt hashes\<close>

lemma hash_ok_HashPassword: "HashPassword ek rs p = Inr h \<Longrightarrow> eks_wf ek \<Longrightarrow> hash_ok h"
  using HashPassword_decodes by (simp add: hash_ok_def)

lemma hash_ok_register:
  "user_Prepare ve ek rs ''register'' u = Inr u' \<Longrightarrow> eks_wf ek \<Longrightarrow> hash_ok (password u')"
  by (blast dest: user_Prepare_register_password intro: hash_ok_HashPassword)

lemma pw_inv_users_Update [simp]: "pw_inv (users_Update uid u st) = pw_inv st"
  by (simp add: pw_inv_def users_Update_def map_keep_key)

lemma pw_inv_users_Delete [simp]: "pw_inv st \<Longrightarrow> pw_inv (users_Delete uid st)"
  by (simp add: pw_inv_def users_Delete_def list_all_iff)

lemma pw_inv_users_UpdatePassword:
  "hash_ok h \<Longrightarrow> pw_inv st \<Longrightarrow> pw_inv (users_UpdatePassword uid h st)"
  by (auto simp: pw_inv_def users_UpdatePassword_def list_all_iff)

lemma pw_inv_users_Follow [simp]: "pw_inv (users_Follow uid fid st) = pw_inv st"
  by (simp add: pw_inv_def users_Follow_def)

lemma pw_inv_users_Unfollow [simp]: "pw_inv (users_Unfollow uid fid st) = pw_inv st"
  by (simp add: pw_inv_def users_Unfollow_def)

lemma pw_inv_pubs_Update [simp]: "pw_inv (pubs_Update pid p st) = pw_inv st"
  by (simp add: pw_inv_def pubs_Update_def)

lemma pw_inv_pubs_Delete [simp]: "pw_inv (pubs_Delete pid st) = pw_inv st"
  by (simp add: pw_inv_def pubs_Delete_def)

lemma pw_inv_pubs_Dislike [simp]: "pw_inv (pubs_Dislike pid st) = pw_inv st"
  by (simp add: pw_inv_def pubs_Dislike_def)

lemma pw_inv_users_Create:
  "users_Create u st = Inr (uid, st') \<Longrightarrow> hash_ok (password u) \<Longrightarrow> pw_inv st \<Longrightarrow> pw_inv st'"
  by (auto simp: pw_inv_def users_Create_def Let_def split: if_splits)

lemma pw_inv_pubs_Create: "pubs_Create p st = Inr (pid, st') \<Longrightarrow> pw_inv st \<Longrightarrow> pw_inv st'"
  by (auto simp: pw_inv_def pubs_Create_def Let_def split: if_splits)

lemma pw_inv_pubs_Like: "pubs_Like pid st = Inr st' \<Longrightarrow> pw_inv st \<Longrightarrow> pw_inv st'"
  by (auto simp: pw_inv_def pubs_Like_def split: if_splits)

lemmas pw_inv_ops = pw_inv_users_UpdatePassword

lemmas pw_inv_new_rows = pw_inv_users_Create pw_inv_pubs_Create pw_inv_pubs_Like hash_ok_HashPassword hash_ok_register

lemma pw_inv_controller: "eks_wf (eks cfg) \<Longrightarrow> pw_inv st \<Longrightarrow> pw_inv (snd (run_controller cfg c r st))"
  by (cases c; simp only: run_controller.simps handler_simps Let_def;
      intro handler_inv [where P = pw_inv]; auto simp: pw_inv_ops dest: pw_inv_new_rows)

lemma pw_inv_empty: "pw_inv empty_db"
  by (simp add: pw_inv_def empty_db_def)

text \<open>
  C6. In every reachable state, for a bcrypt cipher that yields its 23
  bytes, every stored password is a bcrypt hash that \<open>newFromHash\<close>
  decodes to a well-formed record (version 2a, cost 10, 22-character salt,
  31-character digest): \<open>CreateUser\<close> and \<open>UpdatePassword\<close> store only
  what \<open>HashPassword\<close> returned, and \<open>UpdateUser\<close> does not touch the
  column.
\<close>

theorem reachable_pw_inv:
  assumes "reachable cfg sv" and "eks_wf (eks cfg)"
  shows "pw_inv (store sv)"
  using assms(1) pw_inv_empty
proof (rule reachable_store_inv)
  show "pw_inv (store (snd (ServeHTTP (Generate cfg) r sv)))" if "pw_inv (store sv)" for sv r
    using ServeHTTP_preserves [of pw_inv sv cfg r] that pw_inv_controller [OF assms(2)] by blast
qed (simp_all add: pw_inv_def)

theorem reachable_pw_inv_witness:
  "reachable example_app_config \<lparr>store = empty_db, log = []\<rparr> \<and> eks_wf (eks example_app_config) \<and>
   pw_inv (store \<lparr>store = empty_db, log = []\<rparr>)"
proof -
  have w: "eks_wf (eks example_app_config)" by (simp add: example_app_config_def example_eks_wf)
  show ?thesis using reachable.boot w reachable_pw_inv [OF reachable.boot w] by blast
qed

end
