(* ===== verification/Concurrency.thy ===== *)
theory Concurrency
  imports Server
begin

text \<open>
  Concurrent requests. main serves with \<open>http.ListenAndServe\<close>, which runs
  every request in a goroutine of its own; the statements of one handler
  can be separated by those of others. What happens meanwhile is a list of
  events, each one request served whole, a tick of the clock, or the
  database going down or coming back, run in order as in the trace models
  of the Unix and hotel-key-card developments. \<open>interleaved check finish\<close>
  runs a handler that reads in \<open>check\<close> and writes in \<open>finish\<close> with such a
  list between its two phases. The publication that \<open>check\<close> found to be
  the caller's stays the caller's or disappears, whatever the events
  (\<open>owned\<close> is preserved by every controller, and new publications get
  fresh ids), so the late write of \<open>UpdatePublication\<close> and
  \<open>DeletePublication\<close> still touches only the caller's publication.
\<close>

datatype event = Serve request | Tick | Outage bool

primrec run_event :: "app_config \<Rightarrow> event \<Rightarrow> server \<Rightarrow> server" where
  "run_event cfg (Serve r) sv = snd (ServeHTTP (Generate cfg) r sv)"
| "run_event cfg Tick sv = sv\<lparr>store := (store sv)\<lparr>clock := Suc (clock (store sv))\<rparr>\<rparr>"
| "run_event cfg (Outage b) sv = sv\<lparr>store := (store sv)\<lparr>db_up := b\<rparr>\<rparr>"

definition run_events :: "app_config \<Rightarrow> event list \<Rightarrow> server \<Rightarrow> server" where
  "run_events cfg evs sv = fold (run_event cfg) evs sv"

definition interleaved ::
  "(db \<Rightarrow> response + 'a) \<Rightarrow> ('a \<Rightarrow> db \<Rightarrow> response \<times> db) \<Rightarrow> app_config \<Rightarrow> event list \<Rightarrow> server \<Rightarrow>
   response \<times> server" where
  "interleaved check finish cfg evs sv =
     (case check (store sv) of
        Inl resp \<Rightarrow> (resp, run_events cfg evs sv)
      | Inr x \<Rightarrow>
          (let sv' = run_events cfg evs sv;
               (resp, st'') = finish x (store sv')
           in (resp, sv'\<lparr>store := st''\<rparr>)))"

text \<open>Publication \<open>pid\<close> has been handed out, and every row with that id is \<open>uid\<close>'s.\<close>

definition owned :: "uint64 \<Rightarrow> uint64 \<Rightarrow> db \<Rightarrow> bool" where
  "owned pid uid st \<longleftrightarrow>
     pid < next_pub_id st \<and>
     (\<forall>(i, a) \<in> set (map (\<lambda>q. (pub_id q, author_id q)) (pubs_tbl st)). i = pid \<longrightarrow> a = uid)"

subsection \<open>Ownership is stable\<close>

lemma owned_users_ops [simp]:
  "owned pid uid (users_Update i u st) = owned pid uid st"
  "owned pid uid (users_UpdatePassword i pw st) = owned pid uid st"
  "owned pid uid (users_Delete i st) = owned pid uid st"
  "owned pid uid (users_Unfollow i j st) = owned pid uid st"
  by (simp_all add: owned_def users_Update_def users_UpdatePassword_def users_Delete_def users_Unfollow_def)

lemma owned_users_Follow [simp]: "owned pid uid (users_Follow i j st) = owned pid uid st"
  by (simp add: owned_def users_Follow_def)

lemma owned_pubs_Update [simp]: "owned pid uid (pubs_Update i p st) = owned pid uid st"
  by (simp add: owned_def pubs_Update_def map_keep_key)

lemma owned_pubs_Dislike [simp]: "owned pid uid (pubs_Dislike i st) = owned pid uid st"
  by (simp add: owned_def pubs_Dislike_def map_keep_key)

lemma owned_pubs_Delete: "owned pid uid st \<Longrightarrow> owned pid uid (pubs_Delete i st)"
  by (simp add: owned_def pubs_Delete_def)

text \<open>The operations that create rows, as destruction rules.\<close>

lemma owned_users_Create: "users_Create u st = Inr (i, st') \<Longrightarrow> owned pid uid st \<Longrightarrow> owned pid uid st'"
  by (auto simp: owned_def users_Create_def Let_def split: if_splits)

lemma owned_pubs_Create: "pubs_Create p st = Inr (i, st') \<Longrightarrow> owned pid uid st \<Longrightarrow> owned pid uid st'"
  by (auto simp: owned_def pubs_Create_def Let_def word_less_nat_alt unat_plus_one_no_wrap split: if_splits)

lemma owned_pubs_Like: "pubs_Like i st = Inr st' \<Longrightarrow> owned pid uid st \<Longrightarrow> owned pid uid st'"
  by (simp add: owned_def pubs_Like_Inr map_keep_key)

lemma owned_controller: "owned pid uid st \<Longrightarrow> owned pid uid (snd (run_controller cfg c r st))"
  by (cases c; simp only: run_controller.simps handler_simps Let_def;
      intro handler_inv [where P = "owned pid uid"];
      auto simp: owned_pubs_Delete dest: owned_users_Create owned_pubs_Create owned_pubs_Like)

text \<open>Carried through a list of events, as \<open>transitions_invariant\<close> does in the Unix model.\<close>

lemma run_events_inv:
  assumes "\<And>sv r. P (store sv) \<Longrightarrow> P (store (snd (ServeHTTP (Generate cfg) r sv)))"
    and "\<And>st. P st \<Longrightarrow> P (st\<lparr>clock := Suc (clock st)\<rparr>)" and "\<And>st b. P st \<Longrightarrow> P (st\<lparr>db_up := b\<rparr>)"
  shows "P (store sv) \<Longrightarrow> P (store (run_events cfg evs sv))"
proof (induction evs arbitrary: sv)
  case (Cons e evs)
  have "P (store (run_event cfg e sv))" using Cons.prems assms by (cases e) simp_all
  then show ?case using Cons.IH by (simp add: run_events_def)
qed (simp add: run_events_def)

lemma owned_run_events:
  assumes "owned pid uid (store sv)"
  shows "owned pid uid (store (run_events cfg evs sv))"
  using _ _ _ assms
proof (rule run_events_inv)
  show "owned pid uid (store (snd (ServeHTTP (Generate cfg) r sv)))" if "owned pid uid (store sv)" for sv r
    using ServeHTTP_preserves [of "owned pid uid" sv cfg r] owned_controller that by blast
qed (simp_all add: owned_def)

lemma owned_SearchID:
  assumes "db_inv st" and "author_id (pubs_SearchID pid st) \<noteq> 0"
  shows "owned pid (author_id (pubs_SearchID pid st)) st"
proof -
  have "pid \<in> pub_id ` set (pubs_tbl st)"
  proof (rule ccontr)
    assume "pid \<notin> pub_id ` set (pubs_tbl st)"
    then have "pubs_SearchID pid st = zero_publication" by (rule pubs_SearchID_missing)
    with assms(2) show False by (simp add: zero_publication_def)
  qed
  then have "pid < next_pub_id st" using assms(1) by (auto simp: db_inv_def ids_in_def)
  then show ?thesis using pubs_SearchID_owner [OF assms] by (auto simp: owned_def)
qed

subsection \<open>Late writes\<close>

lemma interleaved_frame:
  assumes "\<And>x. check (store sv) = Inr x \<Longrightarrow> \<exists>uid. p = Some uid \<and> owned x uid (store sv)"
    and "\<And>x uid st. owned x uid st \<Longrightarrow> frame_ok (Some uid) st (snd (finish x st))"
  shows "frame_ok p (store (run_events cfg evs sv)) (store (snd (interleaved check finish cfg evs sv)))"
proof (cases "check (store sv)")
  case (Inr x)
  then obtain uid where "p = Some uid" and "owned x uid (store sv)" using assms(1) by blast
  then have "frame_ok p (store (run_events cfg evs sv)) (snd (finish x (store (run_events cfg evs sv))))"
    using owned_run_events assms(2) by blast
  then show ?thesis using Inr by (simp add: interleaved_def Let_def case_prod_beta)
qed (simp add: interleaved_def)

lemma publication_checks_owned:
  assumes "db_inv st" and "token_principal cfg r \<noteq> Some 0"
  shows "UpdatePublication_check cfg r st = Inr pid \<Longrightarrow> \<exists>uid. token_principal cfg r = Some uid \<and> owned pid uid st"
    and "DeletePublication_check cfg r st = Inr pid \<Longrightarrow> \<exists>uid. token_principal cfg r = Some uid \<and> owned pid uid st"
  using publication_checks_Inr [of cfg r st pid] owned_SearchID [OF assms(1), of pid] assms(2)
  by (auto simp: token_principal_def)

lemma publication_writes_owned:
  "owned pid uid st \<Longrightarrow> frame_ok (Some uid) st (snd (UpdatePublication_finish r pid st))"
  "owned pid uid st \<Longrightarrow> frame_ok (Some uid) st (snd (DeletePublication_finish pid st))"
  by (force simp: owned_def frame_ok_def UpdatePublication_finish_def DeletePublication_finish_def
                  pubs_Update_def pubs_Delete_def then_do_def split: sum.split)+

text \<open>
  C5. Checked, then written late: whatever requests the server serves,
  and whatever happens to the clock and the database, between the
  author check of \<open>UpdatePublication\<close> or \<open>DeletePublication\<close> and its write,
  the write still keeps every row, publication and follow edge of other
  users than the caller the token names. Ownership is never re-checked
  and needs no transaction: the author of a publication never changes and
  ids are never reused. (The caller 0 is excluded, as in C1: it is the
  author the zero value of a missing publication reports.)
\<close>

theorem publication_writes_interleaved:
  assumes "db_inv (store sv)" and "token_principal cfg r \<noteq> Some 0"
  shows "frame_ok (token_principal cfg r) (store (run_events cfg evs sv))
           (store (snd (interleaved (UpdatePublication_check cfg r) (UpdatePublication_finish r) cfg evs sv))) \<and>
         frame_ok (token_principal cfg r) (store (run_events cfg evs sv))
           (store (snd (interleaved (DeletePublication_check cfg r) DeletePublication_finish cfg evs sv)))"
proof
  show "frame_ok (token_principal cfg r) (store (run_events cfg evs sv))
          (store (snd (interleaved (UpdatePublication_check cfg r) (UpdatePublication_finish r) cfg evs sv)))"
  proof (rule interleaved_frame)
    show "\<exists>uid. token_principal cfg r = Some uid \<and> owned x uid (store sv)"
      if "UpdatePublication_check cfg r (store sv) = Inr x" for x
      using publication_checks_owned(1) [OF assms that] .
  qed (rule publication_writes_owned(1))
  show "frame_ok (token_principal cfg r) (store (run_events cfg evs sv))
          (store (snd (interleaved (DeletePublication_check cfg r) DeletePublication_finish cfg evs sv)))"
  proof (rule interleaved_frame)
    show "\<exists>uid. token_principal cfg r = Some uid \<and> owned x uid (store sv)"
      if "DeletePublication_check cfg r (store sv) = Inr x" for x
      using publication_checks_owned(2) [OF assms that] .
  qed (rule publication_writes_owned(2))
qed

theorem publication_writes_interleaved_witness:
  "frame_ok (token_principal example_app_config (example_req [(''publicationId'', ''2'')] BodyNotJSON))
     (store (run_events example_app_config [Serve (example_req [(''userId'', ''2'')] BodyNotJSON), Tick]
               \<lparr>store = example_db, log = []\<rparr>))
     (store (snd (interleaved (UpdatePublication_check example_app_config (example_req [(''publicationId'', ''2'')] BodyNotJSON))
        (UpdatePublication_finish (example_req [(''publicationId'', ''2'')] BodyNotJSON)) example_app_config
        [Serve (example_req [(''userId'', ''2'')] BodyNotJSON), Tick] \<lparr>store = example_db, log = []\<rparr>))) \<and>
   frame_ok (token_principal example_app_config (example_req [(''publicationId'', ''2'')] BodyNotJSON))
     (store (run_events example_app_config [Serve (example_req [(''userId'', ''2'')] BodyNotJSON), Tick]
               \<lparr>store = example_db, log = []\<rparr>))
     (store (snd (interleaved (DeletePublication_check example_app_config (example_req [(''publicationId'', ''2'')] BodyNotJSON))
        DeletePublication_finish example_app_config
        [Serve (example_req [(''userId'', ''2'')] BodyNotJSON), Tick] \<lparr>store = example_db, log = []\<rparr>)))"
proof (rule publication_writes_interleaved)
  show "db_inv (store \<lparr>store = example_db, log = []\<rparr>)" by (simp add: example_db_inv)
  have "token_principal example_app_config (example_req [(''publicationId'', ''2'')] BodyNotJSON) = Some 1"
    using example_req_user by (simp add: token_principal_def)
  then show "token_principal example_app_config (example_req [(''publicationId'', ''2'')] BodyNotJSON) \<noteq> Some 0"
    by simp
qed

end
