(* ===== verification/EksBlowfish.thy ===== *)
theory EksBlowfish
  imports Password "HOL-Library.While_Combinator"
begin

text \<open>
  The EksBlowfish computation of bcrypt (\<open>bcrypt.bcrypt\<close> and
  \<open>expensiveBlowfishSetup\<close> in golang.org/x/crypto/bcrypt, which
  src/src/security/security.go calls and which is not under src/), modelled
  from its source over an abstract Blowfish cipher: a record of the three
  Blowfish operations bcrypt uses (\<open>NewSaltedCipher\<close>, \<open>ExpandKey\<close>,
  \<open>Encrypt\<close>), the salt decoder \<open>base64Decode\<close>, and the key-schedule loop
  \<open>for i := uint64(0); i < rounds; i++\<close> with \<open>rounds = 1 << cost\<close> as a
  \<open>while_option\<close> over a 64-bit counter, so that a loop that did not end
  would be the value None. \<open>eks_of bf\<close> is the cipher the Password theory
  takes as its parameter. The lemmas show that the loop runs exactly
  \<open>2^cost\<close> rounds (so hashing terminates), that base64Decode inverts the
  salt encoding, and that the cipher meets the Password theory's
  \<open>eks_wf\<close> contract whenever Blowfish maps 8-byte blocks to 8-byte blocks.
\<close>

text \<open>The Blowfish operations bcrypt calls, over an abstract cipher state \<open>'c\<close>.\<close>

record 'c blowfish =
  NewSaltedCipher :: "nat list \<Rightarrow> nat list \<Rightarrow> 'c"
  ExpandKey :: "nat list \<Rightarrow> 'c \<Rightarrow> 'c"
  Encrypt :: "'c \<Rightarrow> nat list \<Rightarrow> nat list"

definition b64_index :: "char \<Rightarrow> nat option" where
  "b64_index c = map_of (zip bcrypt_alphabet [0..<64]) c"

fun b64_decode_groups :: "string \<Rightarrow> nat list option" where
  "b64_decode_groups (a # b # c # d # rest) =
     (case (b64_index a, b64_index b, b64_index c, b64_index d) of
        (Some x, Some y, Some z, Some w) \<Rightarrow>
          map_option (\<lambda>r. [x * 4 + y div 16, (y mod 16) * 16 + z div 4, (z mod 4) * 64 + w] @ r)
            (b64_decode_groups rest)
      | _ \<Rightarrow> None)"
| "b64_decode_groups [a, b, c] =
     (case (b64_index a, b64_index b, b64_index c) of
        (Some x, Some y, Some z) \<Rightarrow> Some [x * 4 + y div 16, (y mod 16) * 16 + z div 4]
      | _ \<Rightarrow> None)"
| "b64_decode_groups [a, b] =
     (case (b64_index a, b64_index b) of (Some x, Some y) \<Rightarrow> Some [x * 4 + y div 16] | _ \<Rightarrow> None)"
| "b64_decode_groups [a] = None"
| "b64_decode_groups [] = Some []"

definition base64Decode :: "string \<Rightarrow> nat list option" where
  "base64Decode src = (if length src mod 4 = 0 then None else b64_decode_groups src)"

definition setup_rounds :: "nat \<Rightarrow> 64 word" where
  "setup_rounds cost = push_bit cost 1"

definition key_schedule_loop :: "'c blowfish \<Rightarrow> nat list \<Rightarrow> nat list \<Rightarrow> 64 word \<Rightarrow> 'c \<Rightarrow> (64 word \<times> 'c) option" where
  "key_schedule_loop bf ckey csalt rounds c =
     while_option (\<lambda>(i, c). i < rounds) (\<lambda>(i, c). (i + 1, ExpandKey bf csalt (ExpandKey bf ckey c))) (0, c)"

definition expensiveBlowfishSetup :: "'c blowfish \<Rightarrow> string \<Rightarrow> nat \<Rightarrow> string \<Rightarrow> 'c option" where
  "expensiveBlowfishSetup bf key cost salt =
     (case base64Decode salt of
        None \<Rightarrow> None
      | Some csalt \<Rightarrow>
          (let ckey = map of_char key;
               c = NewSaltedCipher bf ckey csalt
           in map_option snd (key_schedule_loop bf ckey csalt (setup_rounds cost) c)))"

definition magicCipherData :: "nat list" where
  "magicCipherData = map of_char ''OrpheanBeholderScryDoubt''"

definition encrypt_blocks :: "'c blowfish \<Rightarrow> 'c \<Rightarrow> nat list \<Rightarrow> nat list" where
  "encrypt_blocks bf c cd = concat (map (\<lambda>i. (Encrypt bf c ^^ 64) (take 8 (drop i cd))) [0, 8, 16])"

definition eks_of :: "'c blowfish \<Rightarrow> eks_cipher" where
  "eks_of bf cost salt key =
     map_option (\<lambda>c. encrypt_blocks bf c magicCipherData) (expensiveBlowfishSetup bf key cost salt)"

definition blowfish_wf :: "'c blowfish \<Rightarrow> bool" where
  "blowfish_wf bf \<longleftrightarrow> (\<forall>c b. length b = 8 \<longrightarrow> length (Encrypt bf c b) = 8)"

text \<open>A toy cipher for the witnesses: it keeps the key and encrypts nothing.\<close>

definition example_bf :: "nat list blowfish" where
  "example_bf = \<lparr>NewSaltedCipher = (\<lambda>k s. k), ExpandKey = (\<lambda>k c. c), Encrypt = (\<lambda>c b. b)\<rparr>"

subsection \<open>The key schedule loop\<close>

lemma while_count_up:
  fixes n :: "64 word"
  assumes "unat n - unat i = k" and "i \<le> n"
  shows "while_option (\<lambda>(i, c). i < n) (\<lambda>(i, c). (i + 1, f c)) (i, c) = Some (n, (f ^^ k) c)"
  using assms
proof (induction k arbitrary: i c)
  case 0
  then have "i = n" by (simp add: word_le_nat_alt word_unat_eq_iff)
  then show ?case by (simp add: while_option_unfold)
next
  case (Suc k)
  then have lt: "i < n" by (simp add: word_less_nat_alt)
  then have "i \<noteq> - 1" by auto
  then have u: "unat (i + 1) = unat i + 1" by (rule unat_plus_one_no_wrap)
  have "unat n - unat (i + 1) = k" "i + 1 \<le> n" using Suc.prems u lt
    by (simp_all add: word_le_nat_alt word_less_nat_alt)
  then have "while_option (\<lambda>(i, c). i < n) (\<lambda>(i, c). (i + 1, f c)) (i + 1, f c) = Some (n, (f ^^ k) (f c))"
    by (rule Suc.IH)
  with lt show ?case by (subst while_option_unfold) (simp add: funpow_swap1)
qed

lemma key_schedule_loop_rounds:
  "key_schedule_loop bf ckey csalt rounds c =
     Some (rounds, ((\<lambda>c. ExpandKey bf csalt (ExpandKey bf ckey c)) ^^ unat rounds) c)"
  unfolding key_schedule_loop_def by (rule while_count_up) simp_all

lemma unat_setup_rounds: "cost < 64 \<Longrightarrow> unat (setup_rounds cost) = 2 ^ cost"
proof -
  assume "cost < 64"
  then have "(2::nat) ^ cost < 2 ^ 64" by (rule power_strict_increasing) simp
  then show ?thesis
    by (simp only: setup_rounds_def unsigned_push_bit_eq) (simp add: push_bit_of_1 take_bit_eq_mod)
qed

lemma setup_rounds_large: "64 \<le> cost \<Longrightarrow> setup_rounds cost = 0"
  by (simp add: setup_rounds_def push_bit_of_1 exp_eq_zero_iff)

subsection \<open>base64 decoding inverts the encoding\<close>

lemma b64_index_nth: "i < 64 \<Longrightarrow> b64_index (bcrypt_alphabet ! i) = Some i"
proof -
  assume i: "i < 64"
  have "distinct bcrypt_alphabet" "length bcrypt_alphabet = 64" by (simp_all add: bcrypt_alphabet_def)
  with i show ?thesis using map_of_zip_nth [of bcrypt_alphabet "[0..<64]" i] by (simp add: b64_index_def)
qed

lemma digit_split: "r < (k::nat) \<Longrightarrow> (q * k + r) div k = q \<and> (q * k + r) mod k = r"
  by simp
lemma b64_digits:
  fixes a b c :: nat
  assumes "a < 256" "b < 256" "c < 256"
  shows "a div 4 < 64" "(a mod 4) * 16 + b div 16 < 64" "(b mod 16) * 4 + c div 64 < 64" "c mod 64 < 64"
proof -
  have "b div 16 < 16" "c div 64 < 4" "a mod 4 \<le> 3" "b mod 16 \<le> 15" using assms by simp_all
  then show "(a mod 4) * 16 + b div 16 < 64" "(b mod 16) * 4 + c div 64 < 64" by linarith+
qed (use assms in simp_all)
lemma b64_group:
  fixes a b c :: nat
  assumes "a < 256" "b < 256" "c < 256"
  shows "a div 4 * 4 + ((a mod 4) * 16 + b div 16) div 16 = a"
    "((a mod 4) * 16 + b div 16) mod 16 * 16 + ((b mod 16) * 4 + c div 64) div 4 = b"
    "((b mod 16) * 4 + c div 64) mod 4 * 64 + c mod 64 = c"
proof -
  have s: "b div 16 < 16" "c div 64 < 4" using assms(2,3) by simp_all
  show "a div 4 * 4 + ((a mod 4) * 16 + b div 16) div 16 = a"
    using digit_split [OF s(1), of "a mod 4"] by simp
  show "((a mod 4) * 16 + b div 16) mod 16 * 16 + ((b mod 16) * 4 + c div 64) div 4 = b"
    using digit_split [OF s(1), of "a mod 4"] digit_split [OF s(2), of "b mod 16"] by simp
  show "((b mod 16) * 4 + c div 64) mod 4 * 64 + c mod 64 = c"
    using digit_split [OF s(2), of "b mod 16"] by simp
qed
lemma b64_decode_encode:
  "\<forall>x \<in> set bs. x < 256 \<Longrightarrow> b64_decode_groups (base64Encode bs) = Some bs"
proof (induction bs rule: base64Encode.induct)
  case (1 a b c rest)
  then have a: "a < 256" and b: "b < 256" and c: "c < 256" by simp_all
  note d = b64_digits [OF a b c]
  have "b64_index (bcrypt_alphabet ! (a div 4)) = Some (a div 4)"
    "b64_index (bcrypt_alphabet ! ((a mod 4) * 16 + b div 16)) = Some ((a mod 4) * 16 + b div 16)"
    "b64_index (bcrypt_alphabet ! ((b mod 16) * 4 + c div 64)) = Some ((b mod 16) * 4 + c div 64)"
    "b64_index (bcrypt_alphabet ! (c mod 64)) = Some (c mod 64)"
    using b64_index_nth d by blast+
  with 1 show ?case using b64_group [OF a b c] by simp
next
  case (2 a b)
  then have a: "a < 256" and b: "b < 256" and z: "(0::nat) < 256" by simp_all
  then show ?case
    using b64_digits [OF a b z] b64_group [OF a b z] by (simp add: b64_index_nth)
next
  case (3 a)
  then have a: "a < 256" and z: "(0::nat) < 256" by simp_all
  then show ?case
    using b64_digits [OF a z z] b64_group [OF a z z] by (simp add: b64_index_nth)
qed simp

lemma base64Decode_salt_of:
  assumes "16 \<le> length rnd" and "\<forall>x \<in> set (take 16 rnd). x < 256"
  shows "base64Decode (salt_of rnd) = Some (take 16 rnd)"
proof -
  have "length (salt_of rnd) = 22" using length_salt_of [OF assms(1)] by (simp add: encodedSaltSize_def)
  then show ?thesis using b64_decode_encode [OF assms(2)] by (simp add: base64Decode_def salt_of_def)
qed

subsection \<open>The EksBlowfish computation\<close>

lemma eks_of_rounds:
  "eks_of bf cost salt key =
     map_option (\<lambda>csalt. encrypt_blocks bf
        (((\<lambda>c. ExpandKey bf csalt (ExpandKey bf (map of_char key) c)) ^^ unat (setup_rounds cost))
           (NewSaltedCipher bf (map of_char key) csalt)) magicCipherData)
       (base64Decode salt)"
  by (simp add: eks_of_def expensiveBlowfishSetup_def key_schedule_loop_rounds Let_def split: option.split)

lemma length_funpow_block:
  fixes f :: "'a list \<Rightarrow> 'a list"
  assumes "\<And>b. length b = 8 \<Longrightarrow> length (f b) = 8" and "length b = 8"
  shows "length ((f ^^ n) b) = 8"
proof (induction n)
  case 0
  show ?case using assms(2) by simp
next
  case (Suc n)
  then show ?case using assms(1) by simp
qed

lemma length_magicCipherData: "length magicCipherData = 24"
  by (simp add: magicCipherData_def)

lemma length_encrypt_blocks:
  assumes "blowfish_wf bf"
  shows "length (encrypt_blocks bf c magicCipherData) = 24"
proof -
  have "\<And>b. length b = 8 \<Longrightarrow> length (Encrypt bf c b) = 8" using assms by (simp add: blowfish_wf_def)
  moreover have "\<And>i. i \<le> 16 \<Longrightarrow> length (take 8 (drop i magicCipherData)) = 8"
    using length_magicCipherData by simp
  ultimately have "\<And>i. i \<le> 16 \<Longrightarrow> length ((Encrypt bf c ^^ 64) (take 8 (drop i magicCipherData))) = 8"
    by (rule length_funpow_block)
  from this [of 0] this [of 8] this [of 16] show ?thesis by (simp add: encrypt_blocks_def)
qed

lemma eks_of_wf: "blowfish_wf bf \<Longrightarrow> eks_wf (eks_of bf)"
  by (simp add: eks_wf_def eks_of_rounds length_encrypt_blocks split: option.split)

lemma HashPassword_exists:
  assumes "length p \<le> 72" and "16 \<le> length rnd" and "eks DefaultCost (salt_of rnd) (bcrypt_key p) = Some cd"
  shows "HashPassword eks rnd p = Inr (Hash \<lparr>h_hash = base64Encode (take 23 cd), h_salt = salt_of rnd,
           h_cost = DefaultCost, h_major = majorVersion, h_minor = minorVersion\<rparr>)"
  using assms by (simp add: HashPassword_Inr bcrypt_digest_def)

lemma format_DefaultCost: "format_cost DefaultCost = ''10''"
  by (simp add: format_cost_def DefaultCost_def show_nat.simps digit_chars_def)

subsection \<open>Properties\<close>

text \<open>
  C11. Hashing terminates: for a password of at most 72 bytes and 16 random
  bytes, \<open>HashPassword\<close> over the EksBlowfish computation returns a hash; the
  key-schedule loop of \<open>expensiveBlowfishSetup\<close> ends, whatever the cipher.
\<close>

theorem HashPassword_terminates:
  assumes "length p \<le> 72" and "16 \<le> length rnd" and "\<forall>x \<in> set (take 16 rnd). x < 256"
  shows "\<exists>h. HashPassword (eks_of bf) rnd p = Inr h"
proof -
  have "base64Decode (salt_of rnd) = Some (take 16 rnd)" using assms(2,3) by (rule base64Decode_salt_of)
  then obtain cd where "eks_of bf DefaultCost (salt_of rnd) (bcrypt_key p) = Some cd"
    by (simp add: eks_of_rounds)
  with assms(1,2) show ?thesis by (blast dest: HashPassword_exists)
qed

theorem HashPassword_terminates_witness:
  "\<exists>h. HashPassword (eks_of example_bf) example_rnd ''secret'' = Inr h"
  by (rule HashPassword_terminates) (simp_all add: example_rnd_def)

text \<open>
  C12. The stored hash is bcrypt's: for a Blowfish cipher that maps 8-byte
  blocks to 8-byte blocks, \<open>HashPassword\<close> stores \<open>$2a$10$\<close>, the 22-character
  salt, and the base64 encoding of the first 23 bytes of the magic text
  encrypted 64 times per block under the cipher that 1024 = 2^10 rounds of
  \<open>ExpandKey\<close> (key, then salt) made from \<open>NewSaltedCipher\<close>.
\<close>

theorem HashPassword_eks_of:
  assumes "blowfish_wf bf" and "length p \<le> 72" and "16 \<le> length rnd" and "\<forall>x \<in> set (take 16 rnd). x < 256"
  shows "HashPassword (eks_of bf) rnd p =
           Inr (''$2a$10$'' @ salt_of rnd @
                base64Encode (take 23 (encrypt_blocks bf
                  (((\<lambda>c. ExpandKey bf (take 16 rnd) (ExpandKey bf (map of_char (bcrypt_key p)) c)) ^^ 1024)
                     (NewSaltedCipher bf (map of_char (bcrypt_key p)) (take 16 rnd))) magicCipherData)))"
proof -
  let ?cd = "encrypt_blocks bf
               (((\<lambda>c. ExpandKey bf (take 16 rnd) (ExpandKey bf (map of_char (bcrypt_key p)) c)) ^^ 1024)
                  (NewSaltedCipher bf (map of_char (bcrypt_key p)) (take 16 rnd))) magicCipherData"
  have "base64Decode (salt_of rnd) = Some (take 16 rnd)" using assms(3,4) by (rule base64Decode_salt_of)
  moreover have "unat (setup_rounds DefaultCost) = 1024" by (simp add: unat_setup_rounds DefaultCost_def)
  ultimately have cd: "eks_of bf DefaultCost (salt_of rnd) (bcrypt_key p) = Some ?cd" by (simp add: eks_of_rounds)
  then have "bcrypt_digest (eks_of bf) p DefaultCost (salt_of rnd) = Inr (base64Encode (take 23 ?cd))"
    by (simp add: bcrypt_digest_def)
  then have "hashed_wf \<lparr>h_hash = base64Encode (take 23 ?cd), h_salt = salt_of rnd, h_cost = DefaultCost,
                        h_major = majorVersion, h_minor = minorVersion\<rparr>"
    using eks_of_wf [OF assms(1)] assms(3) by (blast intro: stored_hashed_wf)
  then show ?thesis using HashPassword_exists [where eks = "eks_of bf", OF assms(2,3) cd]
    by (simp add: Hash_wf format_DefaultCost)
qed

theorem HashPassword_eks_of_witness:
  "HashPassword (eks_of example_bf) example_rnd ''secret'' =
     Inr (''$2a$10$'' @ salt_of example_rnd @
          base64Encode (take 23 (encrypt_blocks example_bf
            (((\<lambda>c. ExpandKey example_bf (take 16 example_rnd) (ExpandKey example_bf (map of_char (bcrypt_key ''secret'')) c)) ^^ 1024)
               (NewSaltedCipher example_bf (map of_char (bcrypt_key ''secret'')) (take 16 example_rnd))) magicCipherData)))"
  by (rule HashPassword_eks_of) (simp_all add: blowfish_wf_def example_bf_def example_rnd_def)

text \<open>
  C13. The salt survives storage: for a cipher that yields its 23 bytes, the
  hash \<open>HashPassword\<close> stores decodes, and its salt decodes back to the 16
  random bytes it was made from.
\<close>

theorem HashPassword_salt_roundtrip:
  assumes "eks_wf eks" and "HashPassword eks rnd p = Inr h" and "\<forall>x \<in> set (take 16 rnd). x < 256"
  shows "case newFromHash h of Inl _ \<Rightarrow> False | Inr hp \<Rightarrow> base64Decode (h_salt hp) = Some (take 16 rnd)"
proof -
  from assms(2) obtain d where r: "16 \<le> length rnd"
    and d: "bcrypt_digest eks p DefaultCost (salt_of rnd) = Inr d"
    and h: "h = Hash \<lparr>h_hash = d, h_salt = salt_of rnd, h_cost = DefaultCost,
                      h_major = majorVersion, h_minor = minorVersion\<rparr>"
    by (auto simp: HashPassword_Inr)
  then show ?thesis
    using stored_hashed_wf [OF assms(1) r d] newFromHash_Hash base64Decode_salt_of [OF r assms(3)] by simp
qed

theorem HashPassword_salt_roundtrip_witness:
  "case newFromHash (Hash \<lparr>h_hash = base64Encode (take 23 (the (example_eks DefaultCost (salt_of example_rnd) (bcrypt_key ''secret'')))),
                           h_salt = salt_of example_rnd, h_cost = DefaultCost,
                           h_major = majorVersion, h_minor = minorVersion\<rparr>) of
     Inl _ \<Rightarrow> False | Inr hp \<Rightarrow> base64Decode (h_salt hp) = Some (take 16 example_rnd)"
  by (rule HashPassword_salt_roundtrip [OF example_eks_wf HashPassword_exists])
     (simp_all add: example_rnd_def example_eks_def)

end
