(* ===== verification/Spec2Isabelle.thy ===== *)
theory Spec2Isabelle
  imports Concurrency EksBlowfish
begin

text \<open>
  Verification development of the social-network REST backend in Go
  (src/main.go and src/src). The server registers its routes with gorilla/mux;
  each route's handler is wrapped by a logger and, when the route requires
  it, by a token check. A handler parses path parameters and the JSON body,
  reads the caller's id from a signed token, checks ownership against rows
  it fetches, and calls the MySQL repositories. Passwords are stored as
  bcrypt hashes.

  \<^bold>\<open>How the code is modelled.\<close> A handler is a function from a request
  and a store to a response and a store (\<open>Http.handler\<close>); Go's
  \<open>if err != nil { answers.Err(...); return }\<close> is \<open>then_do\<close>, an early
  return with the store unchanged. The MySQL database is an explicit record
  (\<open>Repositories.db\<close>): tables as row lists in primary-key order, the
  auto-increment counters as 64-bit words, a clock for \<open>created_at\<close> and a
  flag for whether \<open>database.Connect\<close> succeeds. Each SQL statement of the
  repositories is evaluated on that record. Errors are values of sum types
  (\<open>num_error\<close>, \<open>token_error\<close>, \<open>bcrypt_error\<close>, \<open>model_error\<close>,
  \<open>sql_error\<close>, \<open>api_error\<close>). \<open>uint64\<close> ids and like counters are
  \<open>64 word\<close>, with the overflow behaviour of the SQL written out.

  \<^bold>\<open>Theories, in import order.\<close>
  \<^item> \<open>Prelude\<close>: the status codes, the type of ids, shared list lemmas.
  \<^item> \<open>GoStrings\<close>: \<open>strconv.ParseUint\<close> and \<open>FormatUint\<close> (with their round
    trip), \<open>strings.TrimSpace\<close>, \<open>ToLower\<close>, \<open>Split\<close> and \<open>Join\<close> (with both
    round trips).
  \<^item> \<open>Token\<close>: package \<open>authentication\<close> (not under src/, modelled from the
    specification): \<open>CreateToken\<close>, \<open>ValidateToken\<close>, \<open>ExtractUserID\<close>, a
    three-segment token whose MAC is a parameter of the configuration.
  \<^item> \<open>Password\<close>: src/src/security/security.go and the bcrypt package it
    calls (hash encoding, \<open>newFromHash\<close>, the cost checks, the 72-byte
    limit, the key schedule); EksBlowfish itself is a parameter \<open>eks\<close>.
  \<^item> \<open>EksBlowfish\<close>: bcrypt's \<open>bcrypt\<close> and \<open>expensiveBlowfishSetup\<close>
    over an abstract Blowfish cipher (a record of \<open>NewSaltedCipher\<close>,
    \<open>ExpandKey\<close>, \<open>Encrypt\<close>): the salt decoder, the key-schedule loop
    over a 64-bit counter as a \<open>while_option\<close>, the 64 encryptions per
    block. \<open>eks_of bf\<close> instantiates the \<open>eks\<close> parameter of \<open>Password\<close>.
  \<^item> \<open>Models\<close>: src/src/models (\<open>User\<close>, \<open>Publication\<close>, their
    \<open>Prepare\<close>, \<open>validate\<close> and \<open>format\<close>).
  \<^item> \<open>Repositories\<close>: src/src/repositories, one definition per method.
  \<^item> \<open>Http\<close>: request, response, configuration, the steps every handler
    repeats, and rules that carry a store property through a handler.
  \<^item> \<open>UsersController\<close>, \<open>PublicationsController\<close>, \<open>LoginController\<close>:
    every handler of src/src/controllers, with its guards in source order.
  \<^item> \<open>Middlewares\<close>: \<open>Logger\<close> and \<open>Authenticate\<close> (not under src/, from
    the specification); the server state is the store with the log.
  \<^item> \<open>Router\<close>: the route tables of src/src/router/routers, \<open>Configure\<close>,
    \<open>Generate\<close>, and the dispatch of gorilla/mux (\<open>ServeHTTP\<close>).
  \<^item> \<open>Server\<close>: main's serve loop as the reachable states of
    \<open>ServeHTTP (Generate cfg)\<close> from an empty database, with the clock and
    database outages as environment steps; the store invariant and the
    ownership policy.
  \<^item> \<open>Concurrency\<close>: requests served concurrently (net/http runs each
    in a goroutine): lists of events (whole requests, ticks, outages) run
    between the author check and the write of \<open>UpdatePublication\<close> and
    \<open>DeletePublication\<close>, whose two phases are definitions of
    \<open>PublicationsController\<close> proved equal to the handlers run in one piece.

  \<^bold>\<open>What is proved.\<close> The ownership policy of the specification holds
  for the whole server (\<open>Server.ServeHTTP_frame\<close>): serving any request
  keeps the rows of other users, the publications of other authors and the
  follow edges of other followers. It also holds when other requests run
  between a handler's author check and its write
  (\<open>Concurrency.publication_writes_interleaved\<close>): the author of a
  publication never changes and ids are never reused, so the unguarded
  check-then-write needs no transaction. The store changes only for a valid token
  or through \<open>POST /users\<close>; authentication comes before every protected
  handler (401, store unchanged); every dispatched request is logged. Every
  reachable store has unique ids below the counters and no self-follow
  (rule induction over \<open>reachable\<close>, with one preservation lemma per
  handler). A successful login changes nothing and returns a token that
  authenticates exactly the stored user whose password checked. The
  password service accepts the hashed password and refuses others with a
  mismatch. With the EksBlowfish computation in place of the parameter,
  hashing terminates (the key schedule runs exactly \<open>2^10\<close> rounds), the
  stored hash is \<open>$2a$10$\<close>, the salt and the 23 encrypted bytes, and the
  stored salt decodes back to the random bytes. Each controller's guards (403 for other users, self-follow, a
  wrong current password, publications of others) leave the store
  unchanged, and each write is the repository call for the caller's own
  row; a successful deletion is the caller's own, and unfollowing (disliking)
  on the same request undoes a follow (like). A valid token is accepted and
  the route's controller runs; a GET on the follow lists is 405. Only the
  201 answer of \<open>POST /users\<close> carries a password, and then it is the
  stored hash (\<open>Spec2Isabelle.ServeHTTP_password_exposure\<close>, over one
  lemma per controller from the response-side handler rules of \<open>Http\<close>).
  Repository bounds: likes never wrap.

  \<^bold>\<open>What modelling found.\<close> Three publication routes lack the leading
  slash and are never served (404). SearchPublicationsUser reads a path
  variable its route does not declare. Users.SearchFollowers filters on the
  wrong column and returns the queried user itself. The feed returns at
  most one publication, and its filter compares the publication id with
  the user id, so a user's own publications are missing from it. Deleting a missing publication is 403, not 404.
  \<open>CreateUser\<close> returns the new user's bcrypt hash in its 201 response. The
  follower and following lists take POST only; deleting a user leaves the
  user's follow pairs and publications.

  \<^bold>\<open>Parameters and bounds.\<close> The token MAC and bcrypt's EksBlowfish are
  parameters. The token theorems assume only that the MAC output contains
  no separator (\<open>mac_wf\<close>), and the password theorems assume only that
  EksBlowfish yields at least 23 bytes (\<open>eks_wf\<close>); \<open>EksBlowfish.eks_of\<close>
  meets that assumption for every Blowfish cipher that maps 8-byte blocks to
  8-byte blocks, the only property of Blowfish the model uses. The witnesses
  use toy instances of the MAC and of Blowfish. The one loop with a
  data-dependent bound, bcrypt's key schedule, is a \<open>while_option\<close>
  whose termination is proved (\<open>1 << cost\<close> rounds; 0 rounds once the
  shift leaves the 64-bit word); every repository scan is a list recursion
  and every other definition is total.

  \<^bold>\<open>Not modelled.\<close>
  \<^item> I/O: config loading, printing, the TCP listener, and the JSON encoding
    of responses. A response is its status and a payload value.
  \<^item> The behaviour of MySQL beyond the statements the code sends: schema
    constraints, cascades and isolation levels. Concurrent requests are
    modelled as whole requests interleaved between the two phases of the
    publication writes; finer interleavings of the statements of two
    handlers are not modelled. Of the other writing handlers only
    \<open>UpdatePassword\<close> reads before it writes, and it reads the caller's
    own row; the rest compare only ids from the path and the token.
  \<^item> gorilla/mux's path cleaning and redirects. Paths are taken as clean.
  \<^item> The cryptographic strength of HMAC and bcrypt, which the parameters
    abstract; the Blowfish block cipher and its key expansion, which the
    record of Blowfish operations abstracts.
\<close>

section \<open>Properties that span components\<close>

text \<open>
  C8. Registration and login agree: when \<open>CreateUser\<close> answers 201 for a
  body whose e-mail is already trimmed and new to the table, a login with
  the same e-mail and password on the resulting store answers 200 with a
  token for the created user's id, and changes nothing.
\<close>

theorem register_then_login:
  assumes "eks_wf (eks cfg)"
    and "CreateUser cfg r st = (resp, st')" and "status resp = StatusCreated"
    and "body r = BodyJSON fs" and "TrimSpace (email (unmarshal_user fs)) = email (unmarshal_user fs)"
    and "\<forall>u \<in> set (users_tbl st). \<not> ci_eq (email u) (email (unmarshal_user fs))"
    and "body r' = BodyJSON fs'" and "email (unmarshal_user fs') = email (unmarshal_user fs)"
    and "password (unmarshal_user fs') = password (unmarshal_user fs)"
  shows "\<exists>u. payload resp = UserBody u \<and>
           Login cfg r' st' =
             (\<lparr>status = StatusOK, payload = RawBody (CreateToken (tok_cfg cfg) (now r') (user_id u))\<rparr>, st')"
proof -
  obtain fs0 u uid where b: "body r = BodyJSON fs0"
    and prep: "user_Prepare (valid_email cfg) (eks cfg) (rnd r) ''register'' (unmarshal_user fs0) = Inr u"
    and cr: "users_Create u st = Inr (uid, st')" and res: "payload resp = UserBody (u\<lparr>user_id := uid\<rparr>)"
    using CreateUser_created [OF assms(2,3)] by blast
  have fs0: "fs0 = fs" using b assms(4) by simp
  let ?row = "\<lparr>user_id = uid, name = name u, nick = nick u, email = email u, password = password u,
               created_at = clock st\<rparr>"
  have st': "users_tbl st' = users_tbl st @ [?row]" "db_up st' = db_up st"
    using cr by (auto simp: users_Create_def Let_def split: if_splits)
  have e: "email u = email (unmarshal_user fs)" and h: "HashPassword (eks cfg) (rnd r) (password (unmarshal_user fs)) = Inr (password u)"
    using user_Prepare_register [OF prep] assms(5) fs0 by simp_all
  have "find (\<lambda>v. ci_eq (email v) (email (unmarshal_user fs'))) (users_tbl st) = None"
    using assms(6,8) by (simp add: find_None_iff)
  then have f: "find (\<lambda>v. ci_eq (email v) (email (unmarshal_user fs'))) (users_tbl st') = Some ?row"
    using st'(1) e assms(8) by (simp add: find_append_None)
  have up: "db_up st'"
    using assms(2,3) cr st'(2) by (auto simp: CreateUser_def read_body_def answer_Err_def then_do_def db_connect_def
                                         Connect_def split: body.splits sum.splits)
  have pc: "PasswordCheck (eks cfg) (password ?row) (password (unmarshal_user fs')) = Inr ()"
    using PasswordCheck_stored [OF assms(1) h] assms(9) by simp
  have "Login cfg r' st' =
          (\<lparr>status = StatusOK, payload = RawBody (CreateToken (tok_cfg cfg) (now r') uid)\<rparr>, st')"
    using Login_result [OF assms(7) up, of cfg] f pc by simp
  with res show ?thesis by auto
qed

theorem register_then_login_witness:
  "\<exists>u. payload (fst (CreateUser example_app_config
          (example_req [] (BodyJSON [(''name'', ''Cy''), (''nick'', ''cy''), (''email'', ''cy@example.org''),
                                     (''password'', ''cy-pw'')])) example_db)) = UserBody u \<and>
       Login example_app_config (example_req [] (BodyJSON [(''email'', ''cy@example.org''), (''password'', ''cy-pw'')]))
         (snd (CreateUser example_app_config
          (example_req [] (BodyJSON [(''name'', ''Cy''), (''nick'', ''cy''), (''email'', ''cy@example.org''),
                                     (''password'', ''cy-pw'')])) example_db)) =
       (\<lparr>status = StatusOK,
         payload = RawBody (CreateToken (tok_cfg example_app_config)
           (now (example_req [] (BodyJSON [(''email'', ''cy@example.org''), (''password'', ''cy-pw'')]))) (user_id u))\<rparr>,
        snd (CreateUser example_app_config
          (example_req [] (BodyJSON [(''name'', ''Cy''), (''nick'', ''cy''), (''email'', ''cy@example.org''),
                                     (''password'', ''cy-pw'')])) example_db))"
proof -
  let ?fs = "[(''name'', ''Cy''), (''nick'', ''cy''), (''email'', ''cy@example.org''), (''password'', ''cy-pw'')]"
  let ?fs' = "[(''email'', ''cy@example.org''), (''password'', ''cy-pw'')]"
  let ?r = "example_req [] (BodyJSON ?fs)" and ?r' = "example_req [] (BodyJSON ?fs')"
  have w: "eks_wf (eks example_app_config)" by (simp add: example_app_config_def example_eks_wf)
  have "\<not> isl (HashPassword example_eks example_rnd ''cy-pw'')" by code_simp
  then obtain h where hp: "HashPassword example_eks example_rnd ''cy-pw'' = Inr h"
    by (cases "HashPassword example_eks example_rnd ''cy-pw''") auto
  have prep: "user_Prepare example_valid_email example_eks example_rnd ''register'' (unmarshal_user ?fs) =
     Inr (zero_user\<lparr>name := ''Cy'', nick := ''cy'', email := ''cy@example.org'', password := h\<rparr>)"
    by (simp add: user_Prepare_def user_validate_def user_format_def unmarshal_user_def lookup_last_def
                  example_valid_email_def go_simps hp)
  have n: "next_user_id example_db = 3" "db_up example_db" by (simp_all add: example_db_def)
  have st: "status (fst (CreateUser example_app_config ?r example_db)) = StatusCreated"
    using prep n by (simp add: CreateUser_def read_body_def example_app_config_def users_Create_def Let_def
                               answer_JSON_def)
  have tr: "TrimSpace (email (unmarshal_user ?fs)) = email (unmarshal_user ?fs)"
    by (simp add: unmarshal_user_def lookup_last_def go_simps)
  have nf: "\<forall>u \<in> set (users_tbl example_db). \<not> ci_eq (email u) (email (unmarshal_user ?fs))"
    by (simp add: example_db_def ci_eq_def unmarshal_user_def lookup_last_def go_simps)
  have e: "email (unmarshal_user ?fs') = email (unmarshal_user ?fs)"
    and p: "password (unmarshal_user ?fs') = password (unmarshal_user ?fs)"
    by (simp_all add: unmarshal_user_def lookup_last_def)
  show ?thesis
    by (rule register_then_login [OF w surjective_pairing st _ tr nf _ e p]) simp_all
qed

text \<open>
  C10. Only registration shows a password, and it shows the stored hash: a
  response whose JSON carries a non-empty \<open>password\<close> is the 201 answer of
  \<open>POST /users\<close>, and the string is the bcrypt hash of the request's
  password that the store now holds. Every other handler answers with no
  password, because the reads select no password column.
\<close>

theorem ServeHTTP_password_exposure:
  assumes "ServeHTTP (Generate cfg) r sv = (resp, sv')"
    and "p \<in> set (payload_passwords (payload resp))" and "p \<noteq> []"
  shows "req_method r = ''POST'' \<and> req_path r = ''/users'' \<and> status resp = StatusCreated \<and>
         (\<exists>u \<in> set (users_tbl (store sv')). password u = p) \<and>
         (\<exists>fs. body r = BodyJSON fs \<and> HashPassword (eks cfg) (rnd r) (password (unmarshal_user fs)) = Inr p)"
proof -
  have np: "\<not> no_password resp" using assms(2,3) by (auto simp: no_password_def list_all_iff)
  show ?thesis
  proof (cases "mux_match (Generate cfg) r False")
    case (Matched rt h vs)
    note m = Generate_Matched [OF Matched]
    have serve: "(resp, sv') = route_handler cfg rt (r\<lparr>vars := vs\<rparr>) sv"
      using ServeHTTP_Matched [OF Matched] assms(1) by simp
    have "Function rt = HCreateUser"
      using route_handler_resp [of cfg rt "r\<lparr>vars := vs\<rparr>" sv] no_password_controller np serve
      by (metis fst_conv)
    then have c: "URI rt = ''/users''" "Methods rt = ''POST''" and fn: "Function rt = HCreateUser"
      using create_route m by blast+
    have run: "CreateUser cfg (r\<lparr>vars := vs\<rparr>) (store sv) = (resp, store sv')"
      using route_handler_resp [of cfg rt "r\<lparr>vars := vs\<rparr>" sv] np serve fn
      by (metis fst_conv snd_conv run_controller.simps(1) prod.collapse)
    have "req_path r = ''/users''" using m c by (auto intro: path_match_users)
    then show ?thesis using CreateUser_password [OF run assms(2,3)] m c by simp
  qed (use assms(1) np in \<open>auto simp: ServeHTTP_def no_password_def payload_passwords_def\<close>)
qed

theorem ServeHTTP_password_exposure_witness:
  "\<exists>p. p \<in> set (payload_passwords (payload (fst (ServeHTTP (Generate example_app_config)
          \<lparr>req_method = ''POST'', req_path = ''/users'', vars = [], query = [], authorization = [],
           body = BodyJSON [(''name'', ''Cy''), (''nick'', ''cy''), (''email'', ''cy@example.org''), (''password'', ''cy-pw'')],
           now = 10, rnd = example_rnd\<rparr> \<lparr>store = example_db, log = []\<rparr>)))) \<and> p \<noteq> [] \<and>
       HashPassword example_eks example_rnd ''cy-pw'' = Inr p \<and>
       (\<exists>u \<in> set (users_tbl (store (snd (ServeHTTP (Generate example_app_config)
          \<lparr>req_method = ''POST'', req_path = ''/users'', vars = [], query = [], authorization = [],
           body = BodyJSON [(''name'', ''Cy''), (''nick'', ''cy''), (''email'', ''cy@example.org''), (''password'', ''cy-pw'')],
           now = 10, rnd = example_rnd\<rparr> \<lparr>store = example_db, log = []\<rparr>)))). password u = p)"
proof -
  let ?fs = "[(''name'', ''Cy''), (''nick'', ''cy''), (''email'', ''cy@example.org''), (''password'', ''cy-pw'')]"
  let ?r = "\<lparr>req_method = ''POST'', req_path = ''/users'', vars = [], query = [], authorization = [],
             body = BodyJSON ?fs, now = 10, rnd = example_rnd\<rparr>"
  let ?sv = "\<lparr>store = example_db, log = []\<rparr>"
  have "\<not> isl (HashPassword example_eks example_rnd ''cy-pw'')" by code_simp
  then obtain h where hp: "HashPassword example_eks example_rnd ''cy-pw'' = Inr h"
    by (cases "HashPassword example_eks example_rnd ''cy-pw''") auto
  have hne: "h \<noteq> []" using hp by (auto simp: HashPassword_Inr Hash_def)
  have prep: "user_Prepare example_valid_email example_eks example_rnd ''register'' (unmarshal_user ?fs) =
     Inr (zero_user\<lparr>name := ''Cy'', nick := ''cy'', email := ''cy@example.org'', password := h\<rparr>)"
    by (simp add: user_Prepare_def user_validate_def user_format_def unmarshal_user_def lookup_last_def
                  example_valid_email_def go_simps hp)
  have m: "mux_match (Generate example_app_config) ?r False =
           Matched (routerUser ! 0) (route_handler example_app_config (routerUser ! 0)) []"
    by (simp add: Generate_def Configure_def all_routes_def routerUser_def path_match_def template_ok_def parse_seg_def)
  have "h \<in> set (payload_passwords (payload (fst (ServeHTTP (Generate example_app_config) ?r ?sv))))"
    using ServeHTTP_Matched [OF m] prep
    by (simp add: route_handler_def routerUser_def Logger_result CreateUser_def read_body_def example_app_config_def
                  example_db_def users_Create_def Let_def answer_JSON_def payload_passwords_def)
  with hne hp show ?thesis
    using ServeHTTP_password_exposure [where cfg = example_app_config and r = ?r and sv = ?sv and p = h,
                                        OF surjective_pairing]
    by (auto simp: example_app_config_def)
qed

end
